theory Spec2Isabelle
  imports Main
begin

section \<open>Python values, exceptions and the objects of the program\<close>

text \<open>
  The repository is two Python files: \<^verbatim>\<open>catalyst_system.py\<close> (class
  \<^verbatim>\<open>CatalystSystem\<close>) and \<^verbatim>\<open>database_utils.py\<close> (four module-level writers).
  Objects that the code mutates and shares (a \<^verbatim>\<open>Bulk\<close>, a \<^verbatim>\<open>Slab\<close>, a candidate
  \<^verbatim>\<open>Atoms\<close> structure, a database handle) live in an explicit store indexed by
  references; every operation takes the state of the world and returns the new one,
  together with either the exception it raised (\<open>Inl\<close>) or its result (\<open>Inr\<close>).
\<close>

type_synonym ref = nat

datatype exn_class =
  AttributeError | TypeError | ValueError | RuntimeError | AssertionError
  | FileExistsError | KeyboardInterrupt | SystemExit

datatype exn = Exn exn_class string

text \<open>
  \<^verbatim>\<open>except Exception\<close> catches every class derived from \<^verbatim>\<open>Exception\<close>;
  \<^verbatim>\<open>KeyboardInterrupt\<close> and \<^verbatim>\<open>SystemExit\<close> derive from
  \<^verbatim>\<open>BaseException\<close> only and pass through such a handler.
\<close>

fun is_Exception :: "exn \<Rightarrow> bool" where
  "is_Exception (Exn c m) = (c \<noteq> KeyboardInterrupt \<and> c \<noteq> SystemExit)"

text \<open>\<^verbatim>\<open>str(e)\<close>, as \<^verbatim>\<open>print(e)\<close> and an f-string show an exception.\<close>

fun str_exn :: "exn \<Rightarrow> string" where
  "str_exn (Exn c m) = m"

text \<open>\<^verbatim>\<open>str(n)\<close> of a non-negative integer, as an f-string formats an id or an index.\<close>

definition digit :: "nat \<Rightarrow> char" where
  "digit d = ''0123456789'' ! d"

function str_nat :: "nat \<Rightarrow> string" where
  "str_nat n = (if n < 10 then [digit n] else str_nat (n div 10) @ [digit (n mod 10)])"
  by pat_completeness auto
termination
  by (relation "measure (\<lambda>n. n)") auto

declare str_nat.simps [simp del]

text \<open>
  An ASE \<^verbatim>\<open>Atoms\<close> structure. The only content the source ever reads from one is
  its chemical formula (\<^verbatim>\<open>get_chemical_formula()\<close>).
\<close>

datatype atoms = Atoms string

fun get_chemical_formula :: "atoms \<Rightarrow> string" where
  "get_chemical_formula (Atoms f) = f"

text \<open>
  The attribute \<^verbatim>\<open>db_id\<close> is not set by any constructor: it exists on an object
  only once a writer has assigned it (\<^verbatim>\<open>bulk.db_id = id\<close>). \<open>None\<close> is the
  attribute being absent, and reading it then raises \<^verbatim>\<open>AttributeError\<close>.
\<close>

record bulk_obj =
  bulk_atoms :: atoms
  bulk_db_id :: "nat option"

record slab_obj =
  slab_atoms :: atoms
  slab_bulk :: ref
  slab_db_id :: "nat option"

text \<open>
  An \<^verbatim>\<open>Atoms\<close> object: a candidate structure of a configuration, or the object that
  \<^verbatim>\<open>calculate_energy_of_slab\<close> returns. Besides \<^verbatim>\<open>db_id\<close> it has the four
  attributes that \<^verbatim>\<open>relax_adsorbate_slabs\<close> assigns to a returned object, absent
  until then.
\<close>

record atoms_obj =
  atoms_structure :: atoms
  atoms_db_id :: "nat option"
  bulk_id :: "nat option"
  slab_id :: "nat option"
  adslab_id :: "nat option"
  adsorbate :: "string option"

record adsorbate_obj =
  adsorbate_atoms :: atoms

record adsorbate_slab_config =
  config_slab :: ref
  config_adsorbate :: adsorbate_obj
  atoms_list :: "ref list"

datatype calculator = Calculator string

subsection \<open>The record store\<close>

text \<open>
  Modelled from the spec: the record store (\<^verbatim>\<open>ase.db\<close>) is not part of the
  repository's sources. Spec section 6: "an abstract key-value/record database supporting
  \<^verbatim>\<open>write(structure, **tags)\<close> returning an assigned id"; section 3: "Database ids
  are assigned only on write and are monotonically produced by the record store". The
  store keeps a journal of what happened to it: acquisitions and releases of the handle
  (\<^verbatim>\<open>with db as db:\<close>) and the records written, each with the id it received and its
  keyword tags in the order of the call. A write may raise: \<open>faults\<close> is the schedule of
  the store's failures, by the number of the write attempt. Releasing the handle neither
  suppresses an exception nor removes records.
\<close>

datatype val = IntV nat | BoolV bool

type_synonym tags = "(string \<times> val) list"

datatype event = Enter | Exit | Write nat atoms tags

record store =
  journal :: "event list"
  next_id :: nat
  attempts :: nat
  faults :: "nat \<Rightarrow> exn option"

subsection \<open>The world\<close>

text \<open>
  Calls into the operating system and into the relaxation routine are observable: the
  world keeps them in order, with their arguments.
\<close>

datatype call =
  Makedirs string bool
  | Relax ref string string "calculator option"

record world =
  bulk_at :: "ref \<Rightarrow> bulk_obj"
  slab_at :: "ref \<Rightarrow> slab_obj"
  atoms_at :: "ref \<Rightarrow> atoms_obj"
  store_at :: "ref \<Rightarrow> store"
  stdout :: "string list"
  dirs :: "string set"
  calls :: "call list"

definition print :: "string \<Rightarrow> world \<Rightarrow> world" where
  "print s w = w\<lparr>stdout := stdout w @ [s]\<rparr>"

definition db_enter :: "ref \<Rightarrow> world \<Rightarrow> world" where
  "db_enter db w =
     w\<lparr>store_at := (store_at w)(db := (store_at w db)\<lparr>journal := journal (store_at w db) @ [Enter]\<rparr>)\<rparr>"

definition db_exit :: "ref \<Rightarrow> world \<Rightarrow> world" where
  "db_exit db w =
     w\<lparr>store_at := (store_at w)(db := (store_at w db)\<lparr>journal := journal (store_at w db) @ [Exit]\<rparr>)\<rparr>"

text \<open>\<^verbatim>\<open>db.write(structure, **tags)\<close>.\<close>

definition db_write :: "ref \<Rightarrow> atoms \<Rightarrow> tags \<Rightarrow> world \<Rightarrow> (exn + nat) \<times> world" where
  "db_write db a ts w =
     (let st = store_at w db in
      case faults st (attempts st) of
        Some e \<Rightarrow> (Inl e, w\<lparr>store_at := (store_at w)(db := st\<lparr>attempts := attempts st + 1\<rparr>)\<rparr>)
      | None \<Rightarrow>
          (Inr (next_id st),
           w\<lparr>store_at := (store_at w)(db := st\<lparr>journal := journal st @ [Write (next_id st) a ts],
                                                next_id := next_id st + 1,
                                                attempts := attempts st + 1\<rparr>)\<rparr>))"

text \<open>
  \<^verbatim>\<open>with db as db: body\<close>: the handle is acquired, the body runs, and the handle
  is released whether the body returned or raised; an exception of the body goes on to
  the caller.
\<close>

definition with_db :: "ref \<Rightarrow> (world \<Rightarrow> (exn + unit) \<times> world) \<Rightarrow> world \<Rightarrow> (exn + unit) \<times> world" where
  "with_db db body w = (case body (db_enter db w) of (r, w') \<Rightarrow> (r, db_exit db w'))"

section \<open>database\_utils.py\<close>

definition no_attribute :: "string \<Rightarrow> exn" where
  "no_attribute name = Exn AttributeError (''object has no attribute '' @ name)"

fun write_bulks_loop :: "ref \<Rightarrow> ref list \<Rightarrow> world \<Rightarrow> (exn + unit) \<times> world" where
  "write_bulks_loop db [] w = (Inr (), w)"
| "write_bulks_loop db (bulk # bulks) w =
     (case db_write db (bulk_atoms (bulk_at w bulk)) [] w of
        (Inl e, w') \<Rightarrow> (Inl e, w')
      | (Inr i, w') \<Rightarrow>
          write_bulks_loop db bulks
            (w'\<lparr>bulk_at := (bulk_at w')(bulk := (bulk_at w' bulk)\<lparr>bulk_db_id := Some i\<rparr>)\<rparr>))"

definition write_bulks_to_db :: "ref list \<Rightarrow> ref \<Rightarrow> world \<Rightarrow> (exn + unit) \<times> world" where
  "write_bulks_to_db bulks db w = with_db db (write_bulks_loop db bulks) w"

fun write_slab_list :: "ref \<Rightarrow> ref list \<Rightarrow> world \<Rightarrow> (exn + unit) \<times> world" where
  "write_slab_list db [] w = (Inr (), w)"
| "write_slab_list db (slab # slab_list) w =
     (case bulk_db_id (bulk_at w (slab_bulk (slab_at w slab))) of
        None \<Rightarrow> (Inl (no_attribute ''db_id''), w)
      | Some b \<Rightarrow>
          (case db_write db (slab_atoms (slab_at w slab)) [(''bulk_id'', IntV b)] w of
             (Inl e, w') \<Rightarrow> (Inl e, w')
           | (Inr i, w') \<Rightarrow>
               write_slab_list db slab_list
                 (w'\<lparr>slab_at := (slab_at w')(slab := (slab_at w' slab)\<lparr>slab_db_id := Some i\<rparr>)\<rparr>)))"

fun write_slabs_loop :: "ref \<Rightarrow> ref list list \<Rightarrow> world \<Rightarrow> (exn + unit) \<times> world" where
  "write_slabs_loop db [] w = (Inr (), w)"
| "write_slabs_loop db (slab_list # slabs) w =
     (case write_slab_list db slab_list w of
        (Inl e, w') \<Rightarrow> (Inl e, w')
      | (Inr u, w') \<Rightarrow> write_slabs_loop db slabs w')"

definition write_slabs_to_db :: "ref list list \<Rightarrow> ref \<Rightarrow> world \<Rightarrow> (exn + unit) \<times> world" where
  "write_slabs_to_db slabs db w = with_db db (write_slabs_loop db slabs) w"

fun write_atoms_list ::
  "ref \<Rightarrow> adsorbate_slab_config \<Rightarrow> ref list \<Rightarrow> world \<Rightarrow> (exn + unit) \<times> world" where
  "write_atoms_list db adsorbate_slab_config [] w = (Inr (), w)"
| "write_atoms_list db adsorbate_slab_config (atom_obj # rest) w =
     (case bulk_db_id (bulk_at w (slab_bulk (slab_at w (config_slab adsorbate_slab_config)))) of
        None \<Rightarrow> (Inl (no_attribute ''db_id''), w)
      | Some b \<Rightarrow>
          (case slab_db_id (slab_at w (config_slab adsorbate_slab_config)) of
             None \<Rightarrow> (Inl (no_attribute ''db_id''), w)
           | Some s \<Rightarrow>
               (case db_write db (atoms_structure (atoms_at w atom_obj))
                       [(''bulk_id'', IntV b), (''slab_id'', IntV s), (''relaxed'', BoolV False)] w of
                  (Inl e, w') \<Rightarrow> (Inl e, w')
                | (Inr i, w') \<Rightarrow>
                    write_atoms_list db adsorbate_slab_config rest
                      (w'\<lparr>atoms_at := (atoms_at w')
                             (atom_obj := (atoms_at w' atom_obj)\<lparr>atoms_db_id := Some i\<rparr>)\<rparr>))))"

fun write_configs_loop ::
  "ref \<Rightarrow> adsorbate_slab_config list \<Rightarrow> world \<Rightarrow> (exn + unit) \<times> world" where
  "write_configs_loop db [] w = (Inr (), w)"
| "write_configs_loop db (adsorbate_slab_config # configs) w =
     (case write_atoms_list db adsorbate_slab_config (atoms_list adsorbate_slab_config) w of
        (Inl e, w') \<Rightarrow> (Inl e, w')
      | (Inr u, w') \<Rightarrow> write_configs_loop db configs w')"

definition write_adsorbate_slab_configs_to_db ::
  "adsorbate_slab_config list \<Rightarrow> ref \<Rightarrow> world \<Rightarrow> (exn + unit) \<times> world" where
  "write_adsorbate_slab_configs_to_db adsorbate_slab_configs db w =
     with_db db (write_configs_loop db adsorbate_slab_configs) w"

text \<open>
  The relaxed structures are passed as objects: their attributes are read when the
  loop reaches them.
\<close>

fun write_adslabs_loop :: "ref \<Rightarrow> ref list \<Rightarrow> world \<Rightarrow> (exn + unit) \<times> world" where
  "write_adslabs_loop db [] w = (Inr (), w)"
| "write_adslabs_loop db (adslab # adslabs) w =
     (case bulk_id (atoms_at w adslab) of
        None \<Rightarrow> (Inl (no_attribute ''bulk_id''), w)
      | Some b \<Rightarrow>
          (case slab_id (atoms_at w adslab) of
             None \<Rightarrow> (Inl (no_attribute ''slab_id''), w)
           | Some s \<Rightarrow>
               (case adslab_id (atoms_at w adslab) of
                  None \<Rightarrow> (Inl (no_attribute ''adslab_id''), w)
                | Some i \<Rightarrow>
                    (case db_write db (atoms_structure (atoms_at w adslab))
                            [(''bulk_id'', IntV b), (''slab_id'', IntV s),
                             (''adslab_id'', IntV i), (''relaxed'', BoolV True)] w of
                       (Inl e, w') \<Rightarrow> (Inl e, w')
                     | (Inr r, w') \<Rightarrow> write_adslabs_loop db adslabs w'))))"

definition write_adsorbate_slabs_to_db ::
  "ref list \<Rightarrow> ref \<Rightarrow> world \<Rightarrow> (exn + unit) \<times> world" where
  "write_adsorbate_slabs_to_db adslabs db w = with_db db (write_adslabs_loop db adslabs) w"

section \<open>catalyst\_system.py\<close>

subsection \<open>What the class takes from outside\<close>

text \<open>
  The geometry library (\<^verbatim>\<open>fairchem.data.oc.core\<close>) and the module
  \<^verbatim>\<open>calculate\<close> are not among the sources; what they compute is a parameter of
  the model. \<open>Bulk\<close> is the constructor \<^verbatim>\<open>Bulk(bulk_atoms=...)\<close> and returns the
  new object's reference; \<open>from_bulk_get_all_slabs\<close> is
  \<^verbatim>\<open>Slab.from_bulk_get_all_slabs\<close>; \<open>place_adsorbate\<close> is the placement that the
  constructor of \<^verbatim>\<open>AdsorbateSlabConfig\<close> runs and yields the candidate structures;
  \<open>relaxation\<close> is what \<^verbatim>\<open>calculate.calculate_energy_of_slab\<close> does for a
  candidate, a trajectory path, a log path and a calculator: it raises, or it returns an
  object, given here by its reference and the structure it holds on return. Nothing is
  assumed about which object that is: the candidate itself, relaxed in place, a new
  object, or one that an earlier call returned. Each of the last three may raise.
\<close>

record externals =
  Bulk :: "atoms \<Rightarrow> ref"
  from_bulk_get_all_slabs :: "ref \<Rightarrow> exn + ref list"
  place_adsorbate :: "ref \<Rightarrow> adsorbate_obj \<Rightarrow> nat \<Rightarrow> nat \<Rightarrow> string \<Rightarrow> exn + ref list"
  relaxation :: "ref \<Rightarrow> string \<Rightarrow> string \<Rightarrow> calculator option \<Rightarrow> exn + ref \<times> atoms"

text \<open>
  Modelled from the spec: the class \<^verbatim>\<open>AdsorbateSlabConfig\<close> is the library's. Spec
  section 3: "one Slab + one Adsorbate + a placement policy; attributes: back-reference
  to Slab, ordered sequence of candidate placed structures". The source reads the
  attributes \<^verbatim>\<open>slab\<close>, \<^verbatim>\<open>adsorbate\<close> and \<^verbatim>\<open>atoms_list\<close> of such an object.
\<close>

definition AdsorbateSlabConfig ::
  "externals \<Rightarrow> ref \<Rightarrow> adsorbate_obj \<Rightarrow> nat \<Rightarrow> nat \<Rightarrow> string \<Rightarrow> exn + adsorbate_slab_config" where
  "AdsorbateSlabConfig X slab ads num_sites num_augmentations_per_site mode =
     (case place_adsorbate X slab ads num_sites num_augmentations_per_site mode of
        Inl e \<Rightarrow> Inl e
      | Inr placed \<Rightarrow> Inr \<lparr>config_slab = slab, config_adsorbate = ads, atoms_list = placed\<rparr>)"

text \<open>
  Modelled from the spec: the module \<^verbatim>\<open>calculate\<close> is not among the sources. Spec
  section 6: "\<^verbatim>\<open>calculate_energy_of_slab(structure, trajectory_path, log_path,
  calculator) -> relaxed_structure\<close>". The call is recorded, and its outcome is the
  parameter's: the exception, or the returned object, which holds the relaxed structure
  from then on; its other attributes stay as they are.
\<close>

definition calculate_energy_of_slab ::
  "externals \<Rightarrow> ref \<Rightarrow> string \<Rightarrow> string \<Rightarrow> calculator option \<Rightarrow> world \<Rightarrow> (exn + ref) \<times> world" where
  "calculate_energy_of_slab X atom_obj traj_path log_path c w =
     (case relaxation X atom_obj traj_path log_path c of
        Inl e \<Rightarrow> (Inl e, w\<lparr>calls := calls w @ [Relax atom_obj traj_path log_path c]\<rparr>)
      | Inr (r, a) \<Rightarrow>
          (Inr r, w\<lparr>calls := calls w @ [Relax atom_obj traj_path log_path c],
                    atoms_at := (atoms_at w)(r := (atoms_at w r)\<lparr>atoms_structure := a\<rparr>)\<rparr>))"

text \<open>
  \<^verbatim>\<open>os.path.join(a, b)\<close> on a POSIX system, for the two-argument calls of the
  source. The first argument is \<^verbatim>\<open>self.path\<close>, which is \<^verbatim>\<open>None\<close> until
  \<^verbatim>\<open>set_path\<close> ran; \<^verbatim>\<open>os.fspath(None)\<close> raises \<^verbatim>\<open>TypeError\<close>.
\<close>

definition posix_join :: "string \<Rightarrow> string \<Rightarrow> string" where
  "posix_join p b =
     (if b \<noteq> [] \<and> hd b = CHR ''/'' then b
      else if p = [] \<or> last p = CHR ''/'' then p @ b
      else p @ ''/'' @ b)"

definition os_path_join :: "string option \<Rightarrow> string \<Rightarrow> exn + string" where
  "os_path_join a b =
     (case a of
        None \<Rightarrow> Inl (Exn TypeError ''expected str, bytes or os.PathLike object, not NoneType'')
      | Some p \<Rightarrow> Inr (posix_join p b))"

text \<open>
  \<^verbatim>\<open>os.makedirs(d, exist_ok=...)\<close>: an existing directory is an error unless
  \<^verbatim>\<open>exist_ok\<close> is set. The world keeps the directories that were asked for.
\<close>

definition os_makedirs :: "string \<Rightarrow> bool \<Rightarrow> world \<Rightarrow> (exn + unit) \<times> world" where
  "os_makedirs d exist_ok w =
     (let w' = w\<lparr>calls := calls w @ [Makedirs d exist_ok]\<rparr> in
      if d \<in> dirs w then
        (if exist_ok then (Inr (), w') else (Inl (Exn FileExistsError d), w'))
      else (Inr (), w'\<lparr>dirs := insert d (dirs w)\<rparr>))"

subsection \<open>The class CatalystSystem\<close>

text \<open>
  \<open>adsorbate_slab_configs = None\<close> is the attribute never having been assigned;
  \<open>slabs = None\<close> is the attribute holding Python's \<^verbatim>\<open>None\<close>.
\<close>

record catalyst_system =
  path :: "string option"
  calc :: "calculator option"
  bulk :: ref
  slabs :: "ref list option"
  adsorbate_slab_configs :: "adsorbate_slab_config list option"

definition set_calculator :: "catalyst_system \<Rightarrow> calculator \<Rightarrow> catalyst_system" where
  "set_calculator self c = self\<lparr>calc := Some c\<rparr>"

definition set_path :: "catalyst_system \<Rightarrow> string \<Rightarrow> catalyst_system" where
  "set_path self p = self\<lparr>path := Some p\<rparr>"

definition bulk_to_slabs :: "externals \<Rightarrow> ref \<Rightarrow> world \<Rightarrow> (exn + ref list option) \<times> world" where
  "bulk_to_slabs X b w =
     (case from_bulk_get_all_slabs X b of
        Inr found \<Rightarrow> (Inr (Some found), w)
      | Inl e \<Rightarrow>
          if is_Exception e
          then (Inr None, print (str_exn e) (print ''Error creating slab from bulk'' w))
          else (Inl e, w))"

definition slab_to_adsorbate_slab_config ::
  "externals \<Rightarrow> ref \<Rightarrow> adsorbate_obj \<Rightarrow> string \<Rightarrow> nat \<Rightarrow> nat \<Rightarrow> exn + adsorbate_slab_config" where
  "slab_to_adsorbate_slab_config X slab ads mode num_sites num_augmentations_per_site =
     AdsorbateSlabConfig X slab ads num_sites num_augmentations_per_site mode"

text \<open>The list comprehension of the constructor, one configuration per slab, in order.\<close>

fun build_configs ::
  "externals \<Rightarrow> adsorbate_obj \<Rightarrow> string \<Rightarrow> nat \<Rightarrow> nat \<Rightarrow> ref list \<Rightarrow> exn + adsorbate_slab_config list" where
  "build_configs X ads mode num_sites num_aug [] = Inr []"
| "build_configs X ads mode num_sites num_aug (slab # rest) =
     (case slab_to_adsorbate_slab_config X slab ads mode num_sites num_aug of
        Inl e \<Rightarrow> Inl e
      | Inr c \<Rightarrow>
          (case build_configs X ads mode num_sites num_aug rest of
             Inl e \<Rightarrow> Inl e
           | Inr cs \<Rightarrow> Inr (c # cs)))"

text \<open>
  \<^verbatim>\<open>CatalystSystem.__init__\<close>. \<^verbatim>\<open>if self.slabs:\<close> is false for \<^verbatim>\<open>None\<close> and
  for the empty list.
\<close>

definition CatalystSystem_init ::
  "externals \<Rightarrow> atoms \<Rightarrow> adsorbate_obj \<Rightarrow> string \<Rightarrow> nat \<Rightarrow> nat \<Rightarrow> world
     \<Rightarrow> (exn + catalyst_system) \<times> world" where
  "CatalystSystem_init X bulk_atoms_arg ads mode num_sites num_augmentations_per_site w =
     (let b = Bulk X bulk_atoms_arg in
      case bulk_to_slabs X b w of
        (Inl e, w') \<Rightarrow> (Inl e, w')
      | (Inr found, w') \<Rightarrow>
          (let self = \<lparr>path = None, calc = None, bulk = b, slabs = found,
                       adsorbate_slab_configs = None\<rparr> in
           case found of
             None \<Rightarrow> (Inr self, w')
           | Some [] \<Rightarrow> (Inr self, w')
           | Some (s # ss) \<Rightarrow>
               (case build_configs X ads mode num_sites num_augmentations_per_site (s # ss) of
                  Inl e \<Rightarrow> (Inl e, w')
                | Inr cs \<Rightarrow> (Inr (self\<lparr>adsorbate_slab_configs := Some cs\<rparr>), w'))))"

text \<open>
  The inner loop of \<^verbatim>\<open>relax_adsorbate_slabs\<close> over
  \<^verbatim>\<open>enumerate(adsorbate_slab_config.atoms_list)\<close>; \<open>relaxed_adslabs\<close> is the list
  being appended to. The four assignments \<^verbatim>\<open>relaxed_adslab.bulk_id = bulk_id\<close>, ...
  change the returned object where it is, and the list holds the object, not a copy.
\<close>

fun relax_candidates ::
  "externals \<Rightarrow> catalyst_system \<Rightarrow> nat \<Rightarrow> nat \<Rightarrow> string \<Rightarrow> (nat \<times> ref) list
     \<Rightarrow> ref list \<Rightarrow> world \<Rightarrow> (exn + ref list) \<times> world" where
  "relax_candidates X self b s formula [] relaxed_adslabs w = (Inr relaxed_adslabs, w)"
| "relax_candidates X self b s formula ((i, atom_obj) # rest) relaxed_adslabs w =
     (case os_path_join (path self)
             (''bulk'' @ str_nat b @ ''_slab'' @ str_nat s @ ''/adslab'' @ str_nat i @ ''.txt'') of
        Inl e \<Rightarrow> (Inl e, w)
      | Inr log_path \<Rightarrow>
          (case os_path_join (path self)
                  (''bulk'' @ str_nat b @ ''_slab'' @ str_nat s @ ''/adslab'' @ str_nat i @ ''.traj'') of
             Inl e \<Rightarrow> (Inl e, w)
           | Inr traj_path \<Rightarrow>
               (case calculate_energy_of_slab X atom_obj traj_path log_path (calc self) w of
                  (Inl e, w') \<Rightarrow>
                    if is_Exception e
                    then relax_candidates X self b s formula rest relaxed_adslabs
                           (print (''Error relaxing adsorbate slab bulk'' @ str_nat b @ '',slab''
                                     @ str_nat s @ '',adslab'' @ str_nat i @ '': '' @ str_exn e) w')
                    else (Inl e, w')
                | (Inr relaxed_adslab, w') \<Rightarrow>
                    relax_candidates X self b s formula rest
                      (relaxed_adslabs @ [relaxed_adslab])
                      (w'\<lparr>atoms_at := (atoms_at w')
                            (relaxed_adslab := (atoms_at w' relaxed_adslab)
                               \<lparr>bulk_id := Some b, slab_id := Some s, adslab_id := Some i,
                                adsorbate := Some formula\<rparr>)\<rparr>))))"

definition write_relaxed_adsorbate_slabs_to_db ::
  "catalyst_system \<Rightarrow> ref list \<Rightarrow> ref \<Rightarrow> world \<Rightarrow> (exn + unit) \<times> world" where
  "write_relaxed_adsorbate_slabs_to_db self relaxed_adslabs db w =
     write_adsorbate_slabs_to_db relaxed_adslabs db w"

text \<open>The outer loop of \<^verbatim>\<open>relax_adsorbate_slabs\<close>, over the configurations.\<close>

fun relax_configs ::
  "externals \<Rightarrow> catalyst_system \<Rightarrow> ref \<Rightarrow> adsorbate_slab_config list \<Rightarrow> world
     \<Rightarrow> (exn + unit) \<times> world" where
  "relax_configs X self db [] w = (Inr (), w)"
| "relax_configs X self db (adsorbate_slab_config # rest) w =
     (case bulk_db_id (bulk_at w (slab_bulk (slab_at w (config_slab adsorbate_slab_config)))) of
        None \<Rightarrow> (Inl (no_attribute ''db_id''), w)
      | Some b \<Rightarrow>
     (case slab_db_id (slab_at w (config_slab adsorbate_slab_config)) of
        None \<Rightarrow> (Inl (no_attribute ''db_id''), w)
      | Some s \<Rightarrow>
     (let formula = get_chemical_formula (adsorbate_atoms (config_adsorbate adsorbate_slab_config)) in
      case os_path_join (path self) (''bulk'' @ str_nat b @ ''_slab'' @ str_nat s) of
        Inl e \<Rightarrow> (Inl e, w)
      | Inr d \<Rightarrow>
     (case os_makedirs d True w of
        (Inl e, w1) \<Rightarrow> (Inl e, w1)
      | (Inr u, w1) \<Rightarrow>
     (case relax_candidates X self b s formula
             (List.enumerate 0 (atoms_list adsorbate_slab_config)) [] w1 of
        (Inl e, w2) \<Rightarrow> (Inl e, w2)
      | (Inr relaxed_adslabs, w2) \<Rightarrow>
     (case write_relaxed_adsorbate_slabs_to_db self relaxed_adslabs db w2 of
        (Inl e, w3) \<Rightarrow> (Inl e, w3)
      | (Inr u, w3) \<Rightarrow> relax_configs X self db rest w3))))))"

text \<open>
  \<^verbatim>\<open>relax_adsorbate_slabs(db)\<close>: reading \<^verbatim>\<open>self.adsorbate_slab_configs\<close> comes
  first, and raises when the constructor never assigned it.
\<close>

definition relax_adsorbate_slabs ::
  "externals \<Rightarrow> catalyst_system \<Rightarrow> ref \<Rightarrow> world \<Rightarrow> (exn + unit) \<times> world" where
  "relax_adsorbate_slabs X self db w =
     (case adsorbate_slab_configs self of
        None \<Rightarrow> (Inl (no_attribute ''adsorbate_slab_configs''), w)
      | Some configs \<Rightarrow> relax_configs X self db configs w)"

text \<open>
  The names bound at module level in \<^verbatim>\<open>database_utils.py\<close>: the import and the
  four functions.
\<close>

definition database_utils :: "string list" where
  "database_utils =
     [''connect'', ''write_bulks_to_db'', ''write_slabs_to_db'',
      ''write_adsorbate_slab_configs_to_db'', ''write_adsorbate_slabs_to_db'']"

definition module_getattr :: "string list \<Rightarrow> string \<Rightarrow> exn + string" where
  "module_getattr names name =
     (if name \<in> set names then Inr name
      else Inl (Exn AttributeError (''module has no attribute '' @ name)))"

text \<open>
  \<^verbatim>\<open>write_to_db(bulk_db, slab_db)\<close>. Its first statement calls
  \<^verbatim>\<open>database_utils.write_bulk_to_db(self.bulk, bulk_db)\<close>, and the attribute is
  looked up before anything is called. Every function that the module does define
  acquires the store and then iterates over its first argument; \<^verbatim>\<open>self.bulk\<close> is a
  single \<^verbatim>\<open>Bulk\<close>, which is not iterable, so the call of any of them would release
  the store and raise. The second statement,
  \<^verbatim>\<open>database_utils.write_slabs_to_db(self.slabs, slab_db)\<close>, is reached on no path.
\<close>

definition write_to_db :: "catalyst_system \<Rightarrow> ref \<Rightarrow> ref \<Rightarrow> world \<Rightarrow> (exn + unit) \<times> world" where
  "write_to_db self bulk_db slab_db w =
     (case module_getattr database_utils ''write_bulk_to_db'' of
        Inl e \<Rightarrow> (Inl e, w)
      | Inr f \<Rightarrow>
          with_db bulk_db (\<lambda>w'. (Inl (Exn TypeError ''Bulk object is not iterable''), w')) w)"

section \<open>Example inputs\<close>

text \<open>
  A world in which nothing has been written yet, with stores that accept every write
  and hand out ids from 1.
\<close>

definition example_world :: world where
  "example_world =
     \<lparr>bulk_at = (\<lambda>r. \<lparr>bulk_atoms = Atoms ''Cu'', bulk_db_id = None\<rparr>),
      slab_at = (\<lambda>r. \<lparr>slab_atoms = Atoms ''Cu4'', slab_bulk = 0, slab_db_id = None\<rparr>),
      atoms_at = (\<lambda>r. \<lparr>atoms_structure = Atoms ''Cu4CO'', atoms_db_id = None, bulk_id = None,
                           slab_id = None, adslab_id = None, adsorbate = None\<rparr>),
      store_at = (\<lambda>r. \<lparr>journal = [], next_id = 1, attempts = 0, faults = (\<lambda>n. None)\<rparr>),
      stdout = [], dirs = {}, calls = []\<rparr>"

text \<open>A library whose slab enumeration raises.\<close>

definition failing_library :: externals where
  "failing_library =
     \<lparr>Bulk = (\<lambda>a. 0),
      from_bulk_get_all_slabs = (\<lambda>b. Inl (Exn RuntimeError ''no slabs'')),
      place_adsorbate = (\<lambda>s a n m mode. Inr [0, 1]),
      relaxation = (\<lambda>c t l k. Inr (c, Atoms ''Cu4CO''))\<rparr>"

text \<open>
  A library that finds the slabs 3 and 4 and places three candidates on each; the
  relaxation of candidate 31 raises, every other one relaxes its candidate in place and
  returns it.
\<close>

definition two_slab_library :: externals where
  "two_slab_library =
     \<lparr>Bulk = (\<lambda>a. 0),
      from_bulk_get_all_slabs = (\<lambda>b. Inr [3, 4]),
      place_adsorbate = (\<lambda>s a n m mode. Inr [10 * s, 10 * s + 1, 10 * s + 2]),
      relaxation = (\<lambda>c t l k. if c = 31 then Inl (Exn RuntimeError ''diverged'')
                               else Inr (c, Atoms ''Cu4CO''))\<rparr>"

text \<open>A library whose slab enumeration returns the empty list.\<close>

definition empty_library :: externals where
  "empty_library = two_slab_library\<lparr>from_bulk_get_all_slabs := (\<lambda>b. Inr [])\<rparr>"

text \<open>A world in which every bulk has the id 1 and the slab at reference \<open>r\<close> the id \<open>r\<close>.\<close>

definition written_world :: world where
  "written_world =
     example_world\<lparr>bulk_at := (\<lambda>r. \<lparr>bulk_atoms = Atoms ''Cu'', bulk_db_id = Some 1\<rparr>),
                   slab_at := (\<lambda>r. \<lparr>slab_atoms = Atoms ''Cu4'', slab_bulk = 0, slab_db_id = Some r\<rparr>)\<rparr>"

section \<open>The writers as one loop\<close>

text \<open>
  Each of the four loops of \<^verbatim>\<open>database_utils.py\<close> reads a row from an item,
  writes it, and stores the id back. \<open>write_rows\<close> is that loop with the row and the
  assignment as parameters; the loops above are shown to be instances of it, and are
  reasoned about through it. \<open>wrote\<close> and \<open>scoped\<close> are the store after a run of
  accepted writes, outside and inside a \<^verbatim>\<open>with\<close> block.
\<close>

fun write_rows ::
  "ref \<Rightarrow> (world \<Rightarrow> 'x \<Rightarrow> exn + atoms \<times> tags) \<Rightarrow> (nat \<Rightarrow> 'x \<Rightarrow> world \<Rightarrow> world) \<Rightarrow> 'x list
     \<Rightarrow> world \<Rightarrow> (exn + unit) \<times> world" where
  "write_rows db row assign [] w = (Inr (), w)"
| "write_rows db row assign (x # xs) w =
     (case row w x of
        Inl e \<Rightarrow> (Inl e, w)
      | Inr (a, ts) \<Rightarrow>
          (case db_write db a ts w of
             (Inl e, w') \<Rightarrow> (Inl e, w')
           | (Inr i, w') \<Rightarrow> write_rows db row assign xs (assign i x w')))"

definition wrote :: "store \<Rightarrow> (atoms \<times> tags) list \<Rightarrow> store" where
  "wrote st rs =
     st\<lparr>journal := journal st @ map (\<lambda>(i, (a, ts)). Write i a ts) (List.enumerate (next_id st) rs),
        next_id := next_id st + length rs,
        attempts := attempts st + length rs\<rparr>"

definition scoped :: "store \<Rightarrow> (atoms \<times> tags) list \<Rightarrow> store" where
  "scoped st rs =
     st\<lparr>journal := journal st @ [Enter]
                    @ map (\<lambda>(i, (a, ts)). Write i a ts) (List.enumerate (next_id st) rs) @ [Exit],
        next_id := next_id st + length rs,
        attempts := attempts st + length rs\<rparr>"

definition bulk_row :: "world \<Rightarrow> ref \<Rightarrow> exn + atoms \<times> tags" where
  "bulk_row w b = Inr (bulk_atoms (bulk_at w b), [])"

definition assign_bulk :: "nat \<Rightarrow> ref \<Rightarrow> world \<Rightarrow> world" where
  "assign_bulk i b w = w\<lparr>bulk_at := (bulk_at w)(b := (bulk_at w b)\<lparr>bulk_db_id := Some i\<rparr>)\<rparr>"

definition slab_row :: "world \<Rightarrow> ref \<Rightarrow> exn + atoms \<times> tags" where
  "slab_row w s =
     (case bulk_db_id (bulk_at w (slab_bulk (slab_at w s))) of
        None \<Rightarrow> Inl (no_attribute ''db_id'')
      | Some b \<Rightarrow> Inr (slab_atoms (slab_at w s), [(''bulk_id'', IntV b)]))"

definition assign_slab :: "nat \<Rightarrow> ref \<Rightarrow> world \<Rightarrow> world" where
  "assign_slab i s w = w\<lparr>slab_at := (slab_at w)(s := (slab_at w s)\<lparr>slab_db_id := Some i\<rparr>)\<rparr>"

definition candidate_row :: "world \<Rightarrow> adsorbate_slab_config \<times> ref \<Rightarrow> exn + atoms \<times> tags" where
  "candidate_row w p =
     (case bulk_db_id (bulk_at w (slab_bulk (slab_at w (config_slab (fst p))))) of
        None \<Rightarrow> Inl (no_attribute ''db_id'')
      | Some b \<Rightarrow>
          (case slab_db_id (slab_at w (config_slab (fst p))) of
             None \<Rightarrow> Inl (no_attribute ''db_id'')
           | Some s \<Rightarrow>
               Inr (atoms_structure (atoms_at w (snd p)),
                    [(''bulk_id'', IntV b), (''slab_id'', IntV s), (''relaxed'', BoolV False)])))"

definition assign_candidate :: "nat \<Rightarrow> adsorbate_slab_config \<times> ref \<Rightarrow> world \<Rightarrow> world" where
  "assign_candidate i p w =
     w\<lparr>atoms_at := (atoms_at w)(snd p := (atoms_at w (snd p))\<lparr>atoms_db_id := Some i\<rparr>)\<rparr>"

definition adslab_row :: "world \<Rightarrow> ref \<Rightarrow> exn + atoms \<times> tags" where
  "adslab_row w adslab =
     (case bulk_id (atoms_at w adslab) of
        None \<Rightarrow> Inl (no_attribute ''bulk_id'')
      | Some b \<Rightarrow>
          (case slab_id (atoms_at w adslab) of
             None \<Rightarrow> Inl (no_attribute ''slab_id'')
           | Some s \<Rightarrow>
               (case adslab_id (atoms_at w adslab) of
                  None \<Rightarrow> Inl (no_attribute ''adslab_id'')
                | Some i \<Rightarrow>
                    Inr (atoms_structure (atoms_at w adslab),
                         [(''bulk_id'', IntV b), (''slab_id'', IntV s),
                          (''adslab_id'', IntV i), (''relaxed'', BoolV True)]))))"

definition assign_nothing :: "nat \<Rightarrow> ref \<Rightarrow> world \<Rightarrow> world" where
  "assign_nothing i adslab w = w"

definition candidates :: "adsorbate_slab_config list \<Rightarrow> (adsorbate_slab_config \<times> ref) list" where
  "candidates cs = concat (map (\<lambda>c. map (Pair c) (atoms_list c)) cs)"

text \<open>The two configurations that the constructor builds with \<open>two_slab_library\<close>.\<close>

definition example_configs :: "adsorbate_slab_config list" where
  "example_configs =
     [\<lparr>config_slab = 3, config_adsorbate = \<lparr>adsorbate_atoms = Atoms ''CO''\<rparr>,
       atoms_list = [30, 31, 32]\<rparr>,
      \<lparr>config_slab = 4, config_adsorbate = \<lparr>adsorbate_atoms = Atoms ''CO''\<rparr>,
       atoms_list = [40, 41, 42]\<rparr>]"

text \<open>
  A world like \<open>written_world\<close> whose stores raise on their second write attempt, and
  in which the objects 30 and 32 carry the attributes that \<^verbatim>\<open>relax_adsorbate_slabs\<close>
  assigns.
\<close>

definition annotated :: "ref \<Rightarrow> atoms_obj" where
  "annotated r =
     (if r = 30 \<or> r = 32
      then \<lparr>atoms_structure = Atoms ''Cu4CO'', atoms_db_id = None, bulk_id = Some 1,
            slab_id = Some 3, adslab_id = Some (r - 30), adsorbate = Some ''CO''\<rparr>
      else \<lparr>atoms_structure = Atoms ''Cu4CO'', atoms_db_id = None, bulk_id = None,
            slab_id = None, adslab_id = None, adsorbate = None\<rparr>)"

definition faulty_world :: world where
  "faulty_world =
     written_world\<lparr>atoms_at := annotated,
       store_at := (\<lambda>r. \<lparr>journal = [], next_id = 1, attempts = 0,
        faults = (\<lambda>n. if n = 1 then Some (Exn RuntimeError ''disk full'') else None)\<rparr>)\<rparr>"

text \<open>
  A world whose stores accept every write, in which the bulk 9 and the slab 4 have no
  id yet, the slab 5 was cut from the bulk 9, and the object 31 was never annotated.
\<close>

definition partly_written_world :: world where
  "partly_written_world =
     example_world
       \<lparr>bulk_at := (\<lambda>r. \<lparr>bulk_atoms = Atoms ''Cu'',
                             bulk_db_id = (if r = 9 then None else Some 1)\<rparr>),
        slab_at := (\<lambda>r. \<lparr>slab_atoms = Atoms ''Cu4'', slab_bulk = (if r = 5 then 9 else 0),
                             slab_db_id = (if r = 4 then None else Some r)\<rparr>),
        atoms_at := annotated\<rparr>"

section \<open>The candidates of one configuration\<close>

text \<open>
  Names for what the inner loop of \<^verbatim>\<open>relax_adsorbate_slabs\<close> builds for the
  candidate \<open>i\<close> of a configuration with bulk id \<open>b\<close> and slab id \<open>s\<close>: the
  directory, the two files, the line printed for a failure. \<open>candidate_outcome\<close> and
  \<open>candidate_call\<close> are the result and the trace entry of the relaxation of an
  enumerated candidate \<open>q = (i, atom_obj)\<close>; \<open>relaxed_of\<close> and \<open>message_of\<close> are
  what that candidate adds to \<^verbatim>\<open>relaxed_adslabs\<close> and to the output;
  \<open>candidate_effect\<close> is what it does to the objects: the returned object holds the
  relaxed structure and the four annotations (\<open>annotate\<close>), every other object is as
  before. They serve the proofs only: the loop itself is \<open>relax_candidates\<close> above.
\<close>

definition adslab_dir :: "string \<Rightarrow> nat \<Rightarrow> nat \<Rightarrow> string" where
  "adslab_dir p b s = posix_join p (''bulk'' @ str_nat b @ ''_slab'' @ str_nat s)"

definition log_file :: "string \<Rightarrow> nat \<Rightarrow> string" where
  "log_file d i = d @ ''/adslab'' @ str_nat i @ ''.txt''"

definition traj_file :: "string \<Rightarrow> nat \<Rightarrow> string" where
  "traj_file d i = d @ ''/adslab'' @ str_nat i @ ''.traj''"

definition relax_message :: "nat \<Rightarrow> nat \<Rightarrow> nat \<Rightarrow> exn \<Rightarrow> string" where
  "relax_message b s i e =
     ''Error relaxing adsorbate slab bulk'' @ str_nat b @ '',slab'' @ str_nat s
       @ '',adslab'' @ str_nat i @ '': '' @ str_exn e"

definition candidate_outcome ::
  "externals \<Rightarrow> catalyst_system \<Rightarrow> string \<Rightarrow> nat \<times> ref \<Rightarrow> exn + ref \<times> atoms" where
  "candidate_outcome X self d q =
     relaxation X (snd q) (traj_file d (fst q)) (log_file d (fst q)) (calc self)"

definition candidate_call :: "catalyst_system \<Rightarrow> string \<Rightarrow> nat \<times> ref \<Rightarrow> call" where
  "candidate_call self d q = Relax (snd q) (traj_file d (fst q)) (log_file d (fst q)) (calc self)"

definition relaxed_of :: "externals \<Rightarrow> catalyst_system \<Rightarrow> string \<Rightarrow> nat \<times> ref \<Rightarrow> ref list" where
  "relaxed_of X self d q =
     (case candidate_outcome X self d q of
        Inl e \<Rightarrow> []
      | Inr (r, a) \<Rightarrow> [r])"

definition message_of ::
  "externals \<Rightarrow> catalyst_system \<Rightarrow> string \<Rightarrow> nat \<Rightarrow> nat \<Rightarrow> nat \<times> ref \<Rightarrow> string list" where
  "message_of X self d b s q =
     (case candidate_outcome X self d q of
        Inl e \<Rightarrow> [relax_message b s (fst q) e]
      | Inr r \<Rightarrow> [])"

definition annotate :: "nat \<Rightarrow> nat \<Rightarrow> string \<Rightarrow> nat \<Rightarrow> atoms \<Rightarrow> atoms_obj \<Rightarrow> atoms_obj" where
  "annotate b s formula i a ob =
     ob\<lparr>atoms_structure := a, bulk_id := Some b, slab_id := Some s, adslab_id := Some i,
        adsorbate := Some formula\<rparr>"

definition candidate_effect ::
  "externals \<Rightarrow> catalyst_system \<Rightarrow> string \<Rightarrow> nat \<Rightarrow> nat \<Rightarrow> string \<Rightarrow> nat \<times> ref
     \<Rightarrow> (ref \<Rightarrow> atoms_obj) \<Rightarrow> (ref \<Rightarrow> atoms_obj)" where
  "candidate_effect X self d b s formula q h =
     (case candidate_outcome X self d q of
        Inl e \<Rightarrow> h
      | Inr (r, a) \<Rightarrow> h(r := annotate b s formula (fst q) a (h r)))"

section \<open>Properties\<close>

subsection \<open>write\_to\_db\<close>

text \<open>
  C2. The claim: for a system whose slab enumeration succeeded,
  \<^verbatim>\<open>write_to_db(bulk_db, slab_db)\<close> writes the bulk and every slab without raising.
  The code does not: the module \<^verbatim>\<open>database_utils\<close> binds
  \<^verbatim>\<open>write_bulks_to_db\<close>, and \<^verbatim>\<open>write_to_db\<close> asks it for
  \<^verbatim>\<open>write_bulk_to_db\<close>. For every system, every pair of stores and every world,
  the call raises \<^verbatim>\<open>AttributeError\<close> and leaves the world, both stores included,
  as it was.
\<close>

theorem write_to_db_raises:
  "write_to_db self bulk_db slab_db w =
     (Inl (Exn AttributeError ''module has no attribute write_bulk_to_db''), w)"
  by (simp add: write_to_db_def module_getattr_def database_utils_def)

subsection \<open>Construction when slab enumeration fails\<close>

text \<open>
  C4. When slab enumeration raises an error (an exception that \<^verbatim>\<open>except Exception\<close>
  catches), the constructor returns a system and raises nothing: the error was caught
  and printed after the line \<^verbatim>\<open>Error creating slab from bulk\<close>, the attribute
  \<^verbatim>\<open>slabs\<close> is \<^verbatim>\<open>None\<close>, and no configuration was built (the attribute
  \<^verbatim>\<open>adsorbate_slab_configs\<close> does not exist).
\<close>

theorem init_enumeration_failure:
  assumes "from_bulk_get_all_slabs X (Bulk X a) = Inl e" and "is_Exception e"
  shows "CatalystSystem_init X a ads mode n m w =
           (Inr \<lparr>path = None, calc = None, bulk = Bulk X a, slabs = None,
                 adsorbate_slab_configs = None\<rparr>,
            w\<lparr>stdout := stdout w @ [''Error creating slab from bulk'', str_exn e]\<rparr>)"
  using assms by (simp add: CatalystSystem_init_def bulk_to_slabs_def print_def)

theorem init_enumeration_failure_witness:
  "CatalystSystem_init failing_library (Atoms ''Cu'') \<lparr>adsorbate_atoms = Atoms ''CO''\<rparr>
       ''random_site_heuristic_placement'' 100 1 example_world =
     (Inr \<lparr>path = None, calc = None, bulk = 0, slabs = None, adsorbate_slab_configs = None\<rparr>,
      example_world\<lparr>stdout := [''Error creating slab from bulk'', ''no slabs'']\<rparr>)"
  using init_enumeration_failure [of failing_library "Atoms ''Cu''" "Exn RuntimeError ''no slabs''"
      "\<lparr>adsorbate_atoms = Atoms ''CO''\<rparr>" "''random_site_heuristic_placement''" 100 1 example_world]
  by (simp add: failing_library_def example_world_def)

subsection \<open>Construction when slab enumeration succeeds\<close>

lemma build_configs_length:
  "build_configs X ads mode n m ss = Inr cs \<Longrightarrow> length cs = length ss"
  by (induction ss arbitrary: cs) (auto split: sum.splits)

lemma build_configs_ok:
  "\<forall>s\<in>set ss. \<exists>placed. place_adsorbate X s ads n m mode = Inr placed \<Longrightarrow>
   \<exists>cs. build_configs X ads mode n m ss = Inr cs \<and> length cs = length ss \<and>
        (\<forall>i<length ss. slab_to_adsorbate_slab_config X (ss ! i) ads mode n m = Inr (cs ! i) \<and>
                        config_slab (cs ! i) = ss ! i)"
proof (induction ss)
  case Nil
  then show ?case by simp
next
  case (Cons s ss)
  then obtain cs where cs: "build_configs X ads mode n m ss = Inr cs" "length cs = length ss"
    "\<forall>i<length ss. slab_to_adsorbate_slab_config X (ss ! i) ads mode n m = Inr (cs ! i) \<and>
                        config_slab (cs ! i) = ss ! i"
    by auto
  from Cons.prems obtain placed where p: "place_adsorbate X s ads n m mode = Inr placed"
    by auto
  let ?c = "\<lparr>config_slab = s, config_adsorbate = ads, atoms_list = placed\<rparr>"
  have c: "slab_to_adsorbate_slab_config X s ads mode n m = Inr ?c"
    by (simp add: slab_to_adsorbate_slab_config_def AdsorbateSlabConfig_def p)
  have "build_configs X ads mode n m (s # ss) = Inr (?c # cs)"
    by (simp add: c cs)
  moreover have "\<forall>i<length (s # ss).
      slab_to_adsorbate_slab_config X ((s # ss) ! i) ads mode n m = Inr ((?c # cs) ! i) \<and>
      config_slab ((?c # cs) ! i) = (s # ss) ! i"
  proof (intro allI impI)
    fix i assume "i < length (s # ss)"
    then show "slab_to_adsorbate_slab_config X ((s # ss) ! i) ads mode n m = Inr ((?c # cs) ! i) \<and>
      config_slab ((?c # cs) ! i) = (s # ss) ! i"
      using c cs(3) by (cases i) auto
  qed
  ultimately show ?case using cs(2) by auto
qed

text \<open>
  C3. When slab enumeration returns a non-empty list of N slabs (and each construction
  of an \<^verbatim>\<open>AdsorbateSlabConfig\<close> returns), the constructor returns a system with
  exactly N configurations, and the i-th configuration is the one
  \<^verbatim>\<open>slab_to_adsorbate_slab_config\<close> built from the i-th enumerated slab, which it
  references.
\<close>

theorem init_one_config_per_slab:
  assumes "from_bulk_get_all_slabs X (Bulk X a) = Inr ss"
    and "ss \<noteq> []"
    and "\<forall>s\<in>set ss. \<exists>placed. place_adsorbate X s ads n m mode = Inr placed"
  shows "\<exists>cs. CatalystSystem_init X a ads mode n m w =
                 (Inr \<lparr>path = None, calc = None, bulk = Bulk X a, slabs = Some ss,
                       adsorbate_slab_configs = Some cs\<rparr>, w) \<and>
           length cs = length ss \<and>
           (\<forall>i<length ss. slab_to_adsorbate_slab_config X (ss ! i) ads mode n m = Inr (cs ! i) \<and>
                           config_slab (cs ! i) = ss ! i)"
proof -
  from build_configs_ok [OF assms(3)] obtain cs where
    cs: "build_configs X ads mode n m ss = Inr cs" "length cs = length ss"
    "\<forall>i<length ss. slab_to_adsorbate_slab_config X (ss ! i) ads mode n m = Inr (cs ! i) \<and>
                        config_slab (cs ! i) = ss ! i"
    by blast
  from assms(2) obtain s ss' where ss: "ss = s # ss'" by (cases ss) auto
  have "CatalystSystem_init X a ads mode n m w =
     (Inr \<lparr>path = None, calc = None, bulk = Bulk X a, slabs = Some ss,
           adsorbate_slab_configs = Some cs\<rparr>, w)"
    using cs(1) assms(1) unfolding ss
    by (simp add: CatalystSystem_init_def bulk_to_slabs_def)
  then show ?thesis using cs(2,3) by blast
qed

theorem init_one_config_per_slab_witness:
  "\<exists>cs. CatalystSystem_init two_slab_library (Atoms ''Cu'') \<lparr>adsorbate_atoms = Atoms ''CO''\<rparr>
        ''random'' 3 1 example_world =
          (Inr \<lparr>path = None, calc = None, bulk = 0, slabs = Some [3, 4],
                adsorbate_slab_configs = Some cs\<rparr>, example_world) \<and>
     length cs = 2 \<and> config_slab (cs ! 0) = 3 \<and> config_slab (cs ! 1) = 4"
proof -
  have h1: "from_bulk_get_all_slabs two_slab_library (Bulk two_slab_library (Atoms ''Cu'')) = Inr [3, 4]"
    by (simp add: two_slab_library_def)
  have h2: "[3, 4] \<noteq> ([] :: ref list)" by simp
  have h3: "\<forall>s\<in>set [3, 4]. \<exists>placed. place_adsorbate two_slab_library s
      \<lparr>adsorbate_atoms = Atoms ''CO''\<rparr> 3 1 ''random'' = Inr placed"
    by (simp add: two_slab_library_def)
  have b: "Bulk two_slab_library (Atoms ''Cu'') = 0" by (simp add: two_slab_library_def)
  from init_one_config_per_slab [OF h1 h2 h3, of example_world]
  show ?thesis unfolding b by (auto simp: nth_Cons')
qed

subsection \<open>Relaxation on a system without configurations, or without a path\<close>

lemma init_fields:
  assumes "CatalystSystem_init X a ads mode n m w = (Inr self, w')"
  shows "path self = None" and "calc self = None"
    and "adsorbate_slab_configs self = Some cs \<Longrightarrow> cs \<noteq> []"
proof -
  have "path self = None \<and> calc self = None \<and> (adsorbate_slab_configs self = Some cs \<longrightarrow> cs \<noteq> [])"
    using assms
    by (auto simp: CatalystSystem_init_def bulk_to_slabs_def Let_def
        simp del: build_configs.simps dest!: build_configs_length
        split: sum.splits if_splits option.splits list.splits prod.splits)
  then show "path self = None" and "calc self = None"
    and "adsorbate_slab_configs self = Some cs \<Longrightarrow> cs \<noteq> []" by auto
qed

text \<open>
  C5. When slab enumeration failed (it raised an error, so that \<^verbatim>\<open>slabs\<close> is
  \<^verbatim>\<open>None\<close>, or it returned the empty list), the constructor returns a system on
  which the attribute \<^verbatim>\<open>adsorbate_slab_configs\<close> was never created, and
  \<^verbatim>\<open>relax_adsorbate_slabs\<close> on it raises \<^verbatim>\<open>AttributeError\<close> in any world
  \<open>v\<close>, which it leaves unchanged; setting a path and a calculator first does not help.
\<close>

theorem relax_without_configs:
  assumes "(\<exists>e. from_bulk_get_all_slabs X (Bulk X a) = Inl e \<and> is_Exception e)
           \<or> from_bulk_get_all_slabs X (Bulk X a) = Inr []"
  shows "\<exists>self w'. CatalystSystem_init X a ads mode n m w = (Inr self, w') \<and>
           (slabs self = None \<or> slabs self = Some []) \<and>
           adsorbate_slab_configs self = None \<and>
           relax_adsorbate_slabs X self db v =
             (Inl (no_attribute ''adsorbate_slab_configs''), v) \<and>
           relax_adsorbate_slabs X (set_calculator (set_path self p) c) db v =
             (Inl (no_attribute ''adsorbate_slab_configs''), v)"
  using assms
  by (auto simp: CatalystSystem_init_def bulk_to_slabs_def relax_adsorbate_slabs_def
      set_path_def set_calculator_def)

theorem relax_without_configs_witness:
  "\<exists>self w'. CatalystSystem_init empty_library (Atoms ''Cu'') \<lparr>adsorbate_atoms = Atoms ''CO''\<rparr>
        ''random'' 3 1 example_world = (Inr self, w') \<and>
     adsorbate_slab_configs self = None \<and>
     relax_adsorbate_slabs empty_library self 0 example_world =
       (Inl (no_attribute ''adsorbate_slab_configs''), example_world)"
proof -
  have h: "(\<exists>e. from_bulk_get_all_slabs empty_library (Bulk empty_library (Atoms ''Cu'')) = Inl e \<and> is_Exception e)
           \<or> from_bulk_get_all_slabs empty_library (Bulk empty_library (Atoms ''Cu'')) = Inr []"
    by (simp add: empty_library_def two_slab_library_def)
  from relax_without_configs [OF h, of "\<lparr>adsorbate_atoms = Atoms ''CO''\<rparr>" "''random''" 3 1
      example_world 0 example_world]
  show ?thesis by blast
qed

text \<open>
  C10, as amended. A system that the constructor returned has \<^verbatim>\<open>path = None\<close>, and
  \<^verbatim>\<open>set_calculator\<close> leaves it so. If its configurations were built and the slab
  of the first one and that slab's bulk have their database ids, then
  \<^verbatim>\<open>relax_adsorbate_slabs\<close> raises the \<^verbatim>\<open>TypeError\<close> of
  \<^verbatim>\<open>os.path.join(None, ...)\<close>; nothing catches it, and the world is unchanged: no
  directory was made, nothing was relaxed, nothing was written.
\<close>

theorem relax_before_set_path:
  assumes "CatalystSystem_init X a ads mode n m w = (Inr self, w')"
    and "adsorbate_slab_configs self = Some cs"
    and "bulk_db_id (bulk_at v (slab_bulk (slab_at v (config_slab (hd cs))))) = Some b"
    and "slab_db_id (slab_at v (config_slab (hd cs))) = Some s"
  shows "path self = None \<and> path (set_calculator self c) = None \<and>
         relax_adsorbate_slabs X self db v =
           (Inl (Exn TypeError ''expected str, bytes or os.PathLike object, not NoneType''), v) \<and>
         relax_adsorbate_slabs X (set_calculator self c) db v =
           (Inl (Exn TypeError ''expected str, bytes or os.PathLike object, not NoneType''), v)"
proof -
  have p: "path self = None" by (rule init_fields(1) [OF assms(1)])
  from init_fields(3) [OF assms(1) assms(2)] obtain cfg rest where cs: "cs = cfg # rest"
    by (cases cs) auto
  show ?thesis
    using p assms(2,3,4) unfolding cs
    by (simp add: relax_adsorbate_slabs_def set_calculator_def os_path_join_def)
qed

theorem relax_before_set_path_witness:
  "relax_adsorbate_slabs two_slab_library
      \<lparr>path = None, calc = None, bulk = 0, slabs = Some [3, 4],
       adsorbate_slab_configs =
         Some [\<lparr>config_slab = 3, config_adsorbate = \<lparr>adsorbate_atoms = Atoms ''CO''\<rparr>,
                 atoms_list = [30, 31, 32]\<rparr>,
               \<lparr>config_slab = 4, config_adsorbate = \<lparr>adsorbate_atoms = Atoms ''CO''\<rparr>,
                 atoms_list = [40, 41, 42]\<rparr>]\<rparr>
      0 written_world =
     (Inl (Exn TypeError ''expected str, bytes or os.PathLike object, not NoneType''), written_world)"
proof -
  let ?cs = "[\<lparr>config_slab = 3, config_adsorbate = \<lparr>adsorbate_atoms = Atoms ''CO''\<rparr>,
                 atoms_list = [30, 31, 32]\<rparr>,
               \<lparr>config_slab = 4, config_adsorbate = \<lparr>adsorbate_atoms = Atoms ''CO''\<rparr>,
                 atoms_list = [40, 41, 42]\<rparr>]"
  let ?self = "\<lparr>path = None, calc = None, bulk = 0, slabs = Some [3, 4],
       adsorbate_slab_configs = Some ?cs\<rparr>"
  have h1: "CatalystSystem_init two_slab_library (Atoms ''Cu'') \<lparr>adsorbate_atoms = Atoms ''CO''\<rparr>
        ''random'' 3 1 example_world = (Inr ?self, example_world)"
    by (simp add: CatalystSystem_init_def bulk_to_slabs_def two_slab_library_def
        slab_to_adsorbate_slab_config_def AdsorbateSlabConfig_def)
  have h2: "adsorbate_slab_configs ?self = Some ?cs" by simp
  have h3: "bulk_db_id (bulk_at written_world (slab_bulk (slab_at written_world (config_slab (hd ?cs))))) = Some 1"
    by (simp add: written_world_def example_world_def)
  have h4: "slab_db_id (slab_at written_world (config_slab (hd ?cs))) = Some 3"
    by (simp add: written_world_def example_world_def)
  from relax_before_set_path [OF h1 h2 h3 h4, of "Calculator ''emt''" 0]
  show ?thesis by simp
qed

text \<open>
  C10, as stated, fails: on the system that the constructor returns when slab
  enumeration raised, \<^verbatim>\<open>set_path\<close> was never called and \<^verbatim>\<open>path\<close> is
  \<^verbatim>\<open>None\<close>, yet \<^verbatim>\<open>relax_adsorbate_slabs\<close> raises the \<^verbatim>\<open>AttributeError\<close> of
  the missing attribute \<^verbatim>\<open>adsorbate_slab_configs\<close>, before any path is built.
\<close>

theorem relax_before_set_path_counterexample:
  "CatalystSystem_init failing_library (Atoms ''Cu'') \<lparr>adsorbate_atoms = Atoms ''CO''\<rparr>
       ''random_site_heuristic_placement'' 100 1 example_world =
     (Inr \<lparr>path = None, calc = None, bulk = 0, slabs = None, adsorbate_slab_configs = None\<rparr>,
      example_world\<lparr>stdout := [''Error creating slab from bulk'', ''no slabs'']\<rparr>) \<and>
   relax_adsorbate_slabs failing_library
       \<lparr>path = None, calc = None, bulk = 0, slabs = None, adsorbate_slab_configs = None\<rparr>
       0 example_world =
     (Inl (Exn AttributeError ''object has no attribute adsorbate_slab_configs''), example_world)"
  by (simp add: CatalystSystem_init_def bulk_to_slabs_def failing_library_def print_def
      example_world_def relax_adsorbate_slabs_def no_attribute_def)

subsection \<open>The writers: the generic loop\<close>

lemma wrote_Nil [simp]: "wrote st [] = st"
  by (simp add: wrote_def)

lemma wrote_fields [simp]:
  "faults (wrote st rs) = faults st"
  "next_id (wrote st rs) = next_id st + length rs"
  "attempts (wrote st rs) = attempts st + length rs"
  by (simp_all add: wrote_def)

lemma wrote_Cons: "wrote (wrote st [r]) rs = wrote st (r # rs)"
  by (cases r) (simp add: wrote_def)

lemma db_write_ok:
  "faults (store_at w db) (attempts (store_at w db)) = None \<Longrightarrow>
   db_write db a ts w =
     (Inr (next_id (store_at w db)), w\<lparr>store_at := (store_at w)(db := wrote (store_at w db) [(a, ts)])\<rparr>)"
  by (simp add: db_write_def wrote_def Let_def)

lemma db_write_fault:
  "faults (store_at w db) (attempts (store_at w db)) = Some e \<Longrightarrow>
   db_write db a ts w =
     (Inl e, w\<lparr>store_at := (store_at w)(db := (store_at w db)\<lparr>attempts := attempts (store_at w db) + 1\<rparr>)\<rparr>)"
  by (simp add: db_write_def Let_def)

lemma assign_store:
  assumes "\<And>i x v s. assign i x (v\<lparr>store_at := s\<rparr>) = (assign i x v)\<lparr>store_at := s\<rparr>"
  shows "store_at (assign i x (v :: world)) = store_at v"
proof -
  have "assign i x (v\<lparr>store_at := store_at v\<rparr>) = (assign i x v)\<lparr>store_at := store_at v\<rparr>"
    by (rule assms)
  then have "assign i x v = (assign i x v)\<lparr>store_at := store_at v\<rparr>" by simp
  then have "store_at (assign i x v) = store_at ((assign i x v)\<lparr>store_at := store_at v\<rparr>)"
    by (rule arg_cong)
  then show ?thesis by simp
qed

lemma write_rows_ok:
  assumes A3: "\<And>i x v s. assign i x (v\<lparr>store_at := s\<rparr>) = (assign i x v)\<lparr>store_at := s\<rparr>"
    and A2: "\<And>i y v x. row (assign i y v) x = row v x"
    and A2': "\<And>v s x. row (v\<lparr>store_at := s\<rparr>) x = row v x"
  shows "\<forall>x\<in>set xs. row w x = Inr (r x) \<Longrightarrow>
    \<forall>k<length xs. faults (store_at w db) (attempts (store_at w db) + k) = None \<Longrightarrow>
    write_rows db row assign xs w =
      (Inr (), fold (\<lambda>(i, x). assign i x) (List.enumerate (next_id (store_at w db)) xs)
                 (w\<lparr>store_at := (store_at w)(db := wrote (store_at w db) (map r xs))\<rparr>))"
proof (induction xs arbitrary: w)
  case Nil
  then show ?case by simp
next
  case (Cons x xs)
  let ?st = "store_at w db"
  let ?n = "next_id ?st"
  obtain a ts where r: "r x = (a, ts)" by (cases "r x") auto
  have row: "row w x = Inr (a, ts)" using Cons.prems(1) r by simp
  have f0: "faults ?st (attempts ?st) = None" using Cons.prems(2) by force
  let ?wd = "w\<lparr>store_at := (store_at w)(db := wrote ?st [(a, ts)])\<rparr>"
  let ?w1 = "assign ?n x ?wd"
  have st1: "store_at ?w1 = (store_at w)(db := wrote ?st [(a, ts)])"
    using assign_store [of assign, OF A3] by simp
  have rows1: "\<forall>y\<in>set xs. row ?w1 y = Inr (r y)"
    using Cons.prems(1) by (simp add: A2 A2')
  have nf1: "\<forall>k<length xs. faults (store_at ?w1 db) (attempts (store_at ?w1 db) + k) = None"
  proof (intro allI impI)
    fix k assume "k < length xs"
    then have "faults ?st (attempts ?st + Suc k) = None" using Cons.prems(2) by force
    then show "faults (store_at ?w1 db) (attempts (store_at ?w1 db) + k) = None"
      by (simp add: st1)
  qed
  have step: "write_rows db row assign (x # xs) w = write_rows db row assign xs ?w1"
    by (simp add: row db_write_ok [OF f0])
  have w1upd: "?w1\<lparr>store_at := S\<rparr> = assign ?n x (w\<lparr>store_at := S\<rparr>)" for S
    by (simp add: A3 [symmetric])
  have S: "(store_at ?w1)(db := wrote (store_at ?w1 db) (map r xs)) =
           (store_at w)(db := wrote ?st (map r (x # xs)))"
    by (simp add: st1 wrote_Cons r)
  have n1: "next_id (store_at ?w1 db) = Suc ?n" by (simp add: st1)
  have "write_rows db row assign (x # xs) w =
      (Inr (), fold (\<lambda>(i, x). assign i x) (List.enumerate (Suc ?n) xs)
                 (assign ?n x (w\<lparr>store_at := (store_at w)(db := wrote ?st (map r (x # xs)))\<rparr>)))"
    unfolding step Cons.IH [OF rows1 nf1] S n1 w1upd ..
  then show ?case by (simp only: enumerate_simps fold_simps prod.case)
qed

lemma write_rows_append:
  "write_rows db row assign (xs @ ys) w =
     (case write_rows db row assign xs w of
        (Inl e, w') \<Rightarrow> (Inl e, w')
      | (Inr u, w') \<Rightarrow> write_rows db row assign ys w')"
  by (induction xs arbitrary: w) (auto split: sum.splits prod.splits)

lemma fold_assign_store:
  assumes A3: "\<And>i x v s. assign i x (v\<lparr>store_at := s\<rparr>) = (assign i x v)\<lparr>store_at := s\<rparr>"
  shows "(fold (\<lambda>(i, x). assign i x) ps v)\<lparr>store_at := s\<rparr> =
         fold (\<lambda>(i, x). assign i x) ps (v\<lparr>store_at := s\<rparr>)"
proof (induction ps arbitrary: v)
  case Nil
  show ?case by simp
next
  case (Cons p ps)
  obtain i x where p: "p = (i, x)" by (cases p) auto
  show ?case unfolding p by (simp only: fold_simps prod.case Cons.IH A3)
qed

lemma fold_assign_store_at:
  assumes A3: "\<And>i x v s. assign i x (v\<lparr>store_at := s\<rparr>) = (assign i x v)\<lparr>store_at := s\<rparr>"
  shows "store_at (fold (\<lambda>(i, x). assign i x) ps (v :: world)) = store_at v"
proof (induction ps arbitrary: v)
  case Nil
  show ?case by simp
next
  case (Cons p ps)
  obtain i x where p: "p = (i, x)" by (cases p) auto
  show ?case unfolding p
    by (simp only: fold_simps prod.case Cons.IH assign_store [of assign, OF A3])
qed

lemma write_rows_fault:
  assumes A3: "\<And>i x v s. assign i x (v\<lparr>store_at := s\<rparr>) = (assign i x v)\<lparr>store_at := s\<rparr>"
    and A2: "\<And>i y v x. row (assign i y v) x = row v x"
    and A2': "\<And>v s x. row (v\<lparr>store_at := s\<rparr>) x = row v x"
    and rows: "\<forall>y\<in>set (pre @ [x]). row w y = Inr (r y)"
    and nf: "\<forall>k<length pre. faults (store_at w db) (attempts (store_at w db) + k) = None"
    and fault: "faults (store_at w db) (attempts (store_at w db) + length pre) = Some e"
  shows "write_rows db row assign (pre @ x # post) w =
      (Inl e, fold (\<lambda>(i, x). assign i x) (List.enumerate (next_id (store_at w db)) pre)
                (w\<lparr>store_at := (store_at w)
                      (db := (wrote (store_at w db) (map r pre))
                               \<lparr>attempts := attempts (store_at w db) + length pre + 1\<rparr>)\<rparr>))"
proof -
  let ?st = "store_at w db"
  let ?S = "(store_at w)(db := wrote ?st (map r pre))"
  let ?w1 = "fold (\<lambda>(i, x). assign i x) (List.enumerate (next_id ?st) pre) (w\<lparr>store_at := ?S\<rparr>)"
  have rows_pre: "\<forall>y\<in>set pre. row w y = Inr (r y)" using rows by simp
  have pre: "write_rows db row assign pre w = (Inr (), ?w1)"
    by (rule write_rows_ok [of assign row, OF A3 A2 A2' rows_pre nf])
  have st1: "store_at ?w1 = ?S"
    by (simp add: fold_assign_store_at [of assign, OF A3])
  have row_fold: "row (fold (\<lambda>(i, x). assign i x) ps v) y = row v y" for ps v y
  proof (induction ps arbitrary: v)
    case Nil
    show ?case by simp
  next
    case (Cons p ps)
    obtain i z where p: "p = (i, z)" by (cases p) auto
    show ?case unfolding p by (simp only: fold_simps prod.case Cons.IH A2)
  qed
  obtain a ts where r: "r x = (a, ts)" by (cases "r x") auto
  have rowx: "row ?w1 x = Inr (a, ts)"
    using rows r by (simp add: row_fold A2')
  have f1: "faults (store_at ?w1 db) (attempts (store_at ?w1 db)) = Some e"
    using fault by (simp add: st1)
  have upd: "?w1\<lparr>store_at := s\<rparr> =
      fold (\<lambda>(i, x). assign i x) (List.enumerate (next_id ?st) pre) (w\<lparr>store_at := s\<rparr>)" for s
    by (simp add: fold_assign_store [of assign, OF A3])
  have S2: "(store_at ?w1)(db := (store_at ?w1 db)\<lparr>attempts := attempts (store_at ?w1 db) + 1\<rparr>) =
      (store_at w)(db := (wrote ?st (map r pre))\<lparr>attempts := attempts ?st + length pre + 1\<rparr>)"
    by (simp add: st1)
  have "write_rows db row assign (x # post) ?w1 =
      (Inl e, ?w1\<lparr>store_at := (store_at ?w1)(db := (store_at ?w1 db)\<lparr>attempts := attempts (store_at ?w1 db) + 1\<rparr>)\<rparr>)"
    by (simp add: rowx db_write_fault [OF f1])
  then have "write_rows db row assign (x # post) ?w1 =
      (Inl e, fold (\<lambda>(i, x). assign i x) (List.enumerate (next_id ?st) pre)
         (w\<lparr>store_at := (store_at w)(db := (wrote ?st (map r pre))\<lparr>attempts := attempts ?st + length pre + 1\<rparr>)\<rparr>))"
    unfolding S2 upd .
  then show ?thesis
    by (simp only: write_rows_append pre prod.case sum.case)
qed

lemma scoped_wrote:
  "(wrote (st\<lparr>journal := journal st @ [Enter]\<rparr>) rs)
      \<lparr>journal := journal (wrote (st\<lparr>journal := journal st @ [Enter]\<rparr>) rs) @ [Exit]\<rparr> = scoped st rs"
  by (simp add: wrote_def scoped_def)

lemma scoped_wrote_fault:
  "(wrote (st\<lparr>journal := journal st @ [Enter]\<rparr>) rs)
      \<lparr>attempts := k,
       journal := journal (wrote (st\<lparr>journal := journal st @ [Enter]\<rparr>) rs) @ [Exit]\<rparr> =
   (scoped st rs)\<lparr>attempts := k\<rparr>"
  by (simp add: wrote_def scoped_def)

lemma db_enter_store:
  "db_enter db w = w\<lparr>store_at := (store_at w)(db := (store_at w db)\<lparr>journal := journal (store_at w db) @ [Enter]\<rparr>)\<rparr>"
  by (simp add: db_enter_def)

lemma with_db_rows_ok:
  assumes A3: "\<And>i x v s. assign i x (v\<lparr>store_at := s\<rparr>) = (assign i x v)\<lparr>store_at := s\<rparr>"
    and A2: "\<And>i y v x. row (assign i y v) x = row v x"
    and A2': "\<And>v s x. row (v\<lparr>store_at := s\<rparr>) x = row v x"
    and rows: "\<forall>x\<in>set xs. row w x = Inr (r x)"
    and nf: "\<forall>k<length xs. faults (store_at w db) (attempts (store_at w db) + k) = None"
  shows "with_db db (write_rows db row assign xs) w =
      (Inr (), fold (\<lambda>(i, x). assign i x) (List.enumerate (next_id (store_at w db)) xs)
                 (w\<lparr>store_at := (store_at w)(db := scoped (store_at w db) (map r xs))\<rparr>))"
proof -
  let ?st = "store_at w db"
  let ?ste = "?st\<lparr>journal := journal ?st @ [Enter]\<rparr>"
  let ?we = "w\<lparr>store_at := (store_at w)(db := ?ste)\<rparr>"
  let ?ps = "List.enumerate (next_id ?st) xs"
  let ?f = "\<lambda>(i, x). assign i x"
  have ste: "store_at ?we db = ?ste" by simp
  have rows_e: "\<forall>x\<in>set xs. row ?we x = Inr (r x)" using rows by (simp add: A2')
  have nf_e: "\<forall>k<length xs. faults (store_at ?we db) (attempts (store_at ?we db) + k) = None"
    using nf by simp
  have S: "(store_at ?we)(db := wrote (store_at ?we db) (map r xs)) = (store_at w)(db := wrote ?ste (map r xs))"
    by simp
  have W: "?we\<lparr>store_at := s\<rparr> = w\<lparr>store_at := s\<rparr>" for s by simp
  have n: "next_id (store_at ?we db) = next_id ?st" by simp
  have body: "write_rows db row assign xs ?we =
      (Inr (), fold ?f ?ps (w\<lparr>store_at := (store_at w)(db := wrote ?ste (map r xs))\<rparr>))"
    using write_rows_ok [of assign row, OF A3 A2 A2' rows_e nf_e] unfolding S W n .
  let ?W = "fold ?f ?ps (w\<lparr>store_at := (store_at w)(db := wrote ?ste (map r xs))\<rparr>)"
  have stW: "store_at ?W = (store_at w)(db := wrote ?ste (map r xs))"
    by (simp add: fold_assign_store_at [of assign, OF A3])
  have "db_exit db ?W = ?W\<lparr>store_at := (store_at w)(db := scoped ?st (map r xs))\<rparr>"
    unfolding db_exit_def stW by (simp add: scoped_wrote)
  also have "\<dots> = fold ?f ?ps (w\<lparr>store_at := (store_at w)(db := scoped ?st (map r xs))\<rparr>)"
    unfolding fold_assign_store [of assign, OF A3] by simp
  finally have ex: "db_exit db ?W =
      fold ?f ?ps (w\<lparr>store_at := (store_at w)(db := scoped ?st (map r xs))\<rparr>)" .
  show ?thesis
    unfolding with_db_def db_enter_store body by (simp only: prod.case ex)
qed

lemma with_db_rows_fault:
  assumes A3: "\<And>i x v s. assign i x (v\<lparr>store_at := s\<rparr>) = (assign i x v)\<lparr>store_at := s\<rparr>"
    and A2: "\<And>i y v x. row (assign i y v) x = row v x"
    and A2': "\<And>v s x. row (v\<lparr>store_at := s\<rparr>) x = row v x"
    and rows: "\<forall>y\<in>set (pre @ [x]). row w y = Inr (r y)"
    and nf: "\<forall>k<length pre. faults (store_at w db) (attempts (store_at w db) + k) = None"
    and fault: "faults (store_at w db) (attempts (store_at w db) + length pre) = Some e"
  shows "with_db db (write_rows db row assign (pre @ x # post)) w =
      (Inl e, fold (\<lambda>(i, x). assign i x) (List.enumerate (next_id (store_at w db)) pre)
                (w\<lparr>store_at := (store_at w)
                      (db := (scoped (store_at w db) (map r pre))
                               \<lparr>attempts := attempts (store_at w db) + length pre + 1\<rparr>)\<rparr>))"
proof -
  let ?st = "store_at w db"
  let ?ste = "?st\<lparr>journal := journal ?st @ [Enter]\<rparr>"
  let ?we = "w\<lparr>store_at := (store_at w)(db := ?ste)\<rparr>"
  let ?ps = "List.enumerate (next_id ?st) pre"
  let ?f = "\<lambda>(i, x). assign i x"
  let ?k = "attempts ?st + length pre + 1"
  have rows_e: "\<forall>y\<in>set (pre @ [x]). row ?we y = Inr (r y)" using rows by (simp add: A2')
  have nf_e: "\<forall>k<length pre. faults (store_at ?we db) (attempts (store_at ?we db) + k) = None"
    using nf by simp
  have fault_e: "faults (store_at ?we db) (attempts (store_at ?we db) + length pre) = Some e"
    using fault by simp
  have S: "(store_at ?we)(db := (wrote (store_at ?we db) (map r pre))
                \<lparr>attempts := attempts (store_at ?we db) + length pre + 1\<rparr>) =
           (store_at w)(db := (wrote ?ste (map r pre))\<lparr>attempts := ?k\<rparr>)"
    by simp
  have W: "?we\<lparr>store_at := s\<rparr> = w\<lparr>store_at := s\<rparr>" for s by simp
  have n: "next_id (store_at ?we db) = next_id ?st" by simp
  have body: "write_rows db row assign (pre @ x # post) ?we =
      (Inl e, fold ?f ?ps (w\<lparr>store_at := (store_at w)(db := (wrote ?ste (map r pre))\<lparr>attempts := ?k\<rparr>)\<rparr>))"
    using write_rows_fault [of assign row, OF A3 A2 A2' rows_e nf_e fault_e] unfolding S W n .
  let ?W = "fold ?f ?ps (w\<lparr>store_at := (store_at w)(db := (wrote ?ste (map r pre))\<lparr>attempts := ?k\<rparr>)\<rparr>)"
  have stW: "store_at ?W = (store_at w)(db := (wrote ?ste (map r pre))\<lparr>attempts := ?k\<rparr>)"
    by (simp add: fold_assign_store_at [of assign, OF A3])
  have "db_exit db ?W = ?W\<lparr>store_at := (store_at w)(db := (scoped ?st (map r pre))\<lparr>attempts := ?k\<rparr>)\<rparr>"
    unfolding db_exit_def stW by (simp add: scoped_wrote_fault)
  also have "\<dots> = fold ?f ?ps (w\<lparr>store_at := (store_at w)(db := (scoped ?st (map r pre))\<lparr>attempts := ?k\<rparr>)\<rparr>)"
    unfolding fold_assign_store [of assign, OF A3] by simp
  finally have ex: "db_exit db ?W =
      fold ?f ?ps (w\<lparr>store_at := (store_at w)(db := (scoped ?st (map r pre))\<lparr>attempts := ?k\<rparr>)\<rparr>)" .
  show ?thesis
    unfolding with_db_def db_enter_store body by (simp only: prod.case ex)
qed

lemma write_rows_journal:
  assumes A3: "\<And>i x v s. assign i x (v\<lparr>store_at := s\<rparr>) = (assign i x v)\<lparr>store_at := s\<rparr>"
  shows "\<exists>ws. journal (store_at (snd (write_rows db row assign xs w)) db) =
                 journal (store_at w db) @ ws \<and>
              (\<forall>ev\<in>set ws. \<exists>i a ts. ev = Write i a ts)"
proof (induction xs arbitrary: w)
  case Nil
  show ?case by simp
next
  case (Cons x xs)
  let ?st = "store_at w db"
  show ?case
  proof (cases "row w x")
    case (Inl e)
    then show ?thesis by simp
  next
    case (Inr p)
    obtain a ts where p: "p = (a, ts)" by (cases p) auto
    show ?thesis
    proof (cases "faults ?st (attempts ?st)")
      case (Some e)
      show ?thesis by (simp add: Inr p db_write_fault [OF Some])
    next
      case None
      let ?wd = "w\<lparr>store_at := (store_at w)(db := wrote ?st [(a, ts)])\<rparr>"
      let ?w1 = "assign (next_id ?st) x ?wd"
      have st1: "store_at ?w1 = (store_at w)(db := wrote ?st [(a, ts)])"
        using assign_store [of assign, OF A3] by simp
      from Cons.IH [of ?w1] obtain ws where
        ws: "journal (store_at (snd (write_rows db row assign xs ?w1)) db) =
               journal (store_at ?w1 db) @ ws"
            "\<forall>ev\<in>set ws. \<exists>i a ts. ev = Write i a ts"
        by blast
      have step: "write_rows db row assign (x # xs) w = write_rows db row assign xs ?w1"
        by (simp add: Inr p db_write_ok [OF None])
      have j1: "journal (store_at ?w1 db) = journal ?st @ [Write (next_id ?st) a ts]"
        unfolding st1 by (simp add: wrote_def)
      have "journal (store_at (snd (write_rows db row assign (x # xs) w)) db) =
              journal ?st @ (Write (next_id ?st) a ts # ws)"
        unfolding step ws(1) j1 by simp
      moreover have "\<forall>ev\<in>set (Write (next_id ?st) a ts # ws). \<exists>i a ts. ev = Write i a ts"
        using ws(2) by simp
      ultimately show ?thesis by blast
    qed
  qed
qed

lemma with_db_rows_journal:
  assumes A3: "\<And>i x v s. assign i x (v\<lparr>store_at := s\<rparr>) = (assign i x v)\<lparr>store_at := s\<rparr>"
  shows "\<exists>ws. journal (store_at (snd (with_db db (write_rows db row assign xs) w)) db) =
                 journal (store_at w db) @ [Enter] @ ws @ [Exit] \<and>
              (\<forall>ev\<in>set ws. \<exists>i a ts. ev = Write i a ts)"
proof -
  from write_rows_journal [of assign db row xs "db_enter db w", OF A3] obtain ws where
    ws: "journal (store_at (snd (write_rows db row assign xs (db_enter db w))) db) =
           journal (store_at (db_enter db w) db) @ ws"
        "\<forall>ev\<in>set ws. \<exists>i a ts. ev = Write i a ts"
    by blast
  obtain r w2 where b: "write_rows db row assign xs (db_enter db w) = (r, w2)"
    by (cases "write_rows db row assign xs (db_enter db w)") auto
  have j2: "journal (store_at w2 db) = journal (store_at w db) @ [Enter] @ ws"
    using ws(1) unfolding b by (simp add: db_enter_def)
  have "with_db db (write_rows db row assign xs) w = (r, db_exit db w2)"
    by (simp add: with_db_def b)
  then have "journal (store_at (snd (with_db db (write_rows db row assign xs) w)) db) =
          journal (store_at w db) @ [Enter] @ ws @ [Exit]"
    by (simp add: db_exit_def j2)
  then show ?thesis using ws(2) by blast
qed

lemma write_bulks_loop_rows:
  "write_bulks_loop db bs w = write_rows db bulk_row assign_bulk bs w"
  by (induction bs arbitrary: w)
     (auto simp: bulk_row_def assign_bulk_def db_write_def Let_def split: option.splits)

lemma write_slab_list_rows:
  "write_slab_list db ss w = write_rows db slab_row assign_slab ss w"
  by (induction ss arbitrary: w)
     (auto simp: slab_row_def assign_slab_def db_write_def Let_def split: option.splits)

lemma write_slabs_loop_rows:
  "write_slabs_loop db sls w = write_rows db slab_row assign_slab (concat sls) w"
  by (induction sls arbitrary: w)
     (auto simp: write_rows_append write_slab_list_rows split: prod.splits sum.splits)

lemma write_atoms_list_rows:
  "write_atoms_list db c as w = write_rows db candidate_row assign_candidate (map (Pair c) as) w"
  by (induction as arbitrary: w)
     (auto simp: candidate_row_def assign_candidate_def db_write_def Let_def split: option.splits)

lemma write_configs_loop_rows:
  "write_configs_loop db cs w =
     write_rows db candidate_row assign_candidate
       (concat (map (\<lambda>c. map (Pair c) (atoms_list c)) cs)) w"
  by (induction cs arbitrary: w)
     (auto simp: write_rows_append write_atoms_list_rows split: prod.splits sum.splits)

lemma write_adslabs_loop_rows:
  "write_adslabs_loop db rs w = write_rows db adslab_row assign_nothing rs w"
  by (induction rs arbitrary: w)
     (auto simp: adslab_row_def assign_nothing_def db_write_def Let_def split: option.splits)

lemma assign_bulk_store: "assign_bulk i x (v\<lparr>store_at := s\<rparr>) = (assign_bulk i x v)\<lparr>store_at := s\<rparr>"
  by (simp add: assign_bulk_def)
lemma bulk_row_assign: "bulk_row (assign_bulk i y v) x = bulk_row v x"
  by (auto simp: assign_bulk_def bulk_row_def split: option.splits)
lemma bulk_row_store: "bulk_row (v\<lparr>store_at := s\<rparr>) x = bulk_row v x"
  by (auto simp: bulk_row_def split: option.splits)

lemma assign_slab_store: "assign_slab i x (v\<lparr>store_at := s\<rparr>) = (assign_slab i x v)\<lparr>store_at := s\<rparr>"
  by (simp add: assign_slab_def)
lemma slab_row_assign: "slab_row (assign_slab i y v) x = slab_row v x"
  by (auto simp: assign_slab_def slab_row_def split: option.splits)
lemma slab_row_store: "slab_row (v\<lparr>store_at := s\<rparr>) x = slab_row v x"
  by (auto simp: slab_row_def split: option.splits)

lemma assign_candidate_store:
  "assign_candidate i x (v\<lparr>store_at := s\<rparr>) = (assign_candidate i x v)\<lparr>store_at := s\<rparr>"
  by (simp add: assign_candidate_def)
lemma candidate_row_assign: "candidate_row (assign_candidate i y v) x = candidate_row v x"
  by (auto simp: assign_candidate_def candidate_row_def split: option.splits)
lemma candidate_row_store: "candidate_row (v\<lparr>store_at := s\<rparr>) x = candidate_row v x"
  by (auto simp: candidate_row_def split: option.splits)

lemma assign_nothing_store:
  "assign_nothing i x (v\<lparr>store_at := s\<rparr>) = (assign_nothing i x v)\<lparr>store_at := s\<rparr>"
  by (simp add: assign_nothing_def)
lemma adslab_row_assign: "adslab_row (assign_nothing i y v) x = adslab_row v x"
  by (auto simp: assign_nothing_def split: option.splits)
lemma adslab_row_store: "adslab_row (v\<lparr>store_at := s\<rparr>) x = adslab_row v x"
  by (auto simp: adslab_row_def split: option.splits)

lemma fold_assign_nothing: "fold (\<lambda>(i, x). assign_nothing i x) ps v = v"
  by (induction ps) (auto simp: assign_nothing_def)

lemma journal_scoped:
  "journal (scoped st rs) =
     journal st @ [Enter] @ map (\<lambda>(i, (a, ts)). Write i a ts) (List.enumerate (next_id st) rs) @ [Exit]"
  by (simp add: scoped_def)

lemma scoped_fields [simp]:
  "faults (scoped st rs) = faults st"
  "next_id (scoped st rs) = next_id st + length rs"
  "attempts (scoped st rs) = attempts st + length rs"
  by (simp_all add: scoped_def)

lemma enumerate_map_rows:
  "map (\<lambda>(i, (a, ts)). Write i a ts) (List.enumerate n (map r xs)) =
   map (\<lambda>(i, x). Write i (fst (r x)) (snd (r x))) (List.enumerate n xs)"
  by (induction xs arbitrary: n) (auto simp: case_prod_beta)

text \<open>The four writers on inputs whose rows can be read, with a store that accepts them.\<close>

lemma write_bulks_to_db_ok:
  assumes "\<forall>k<length bs. faults (store_at w db) (attempts (store_at w db) + k) = None"
  shows "write_bulks_to_db bs db w =
      (Inr (), fold (\<lambda>(i, x). assign_bulk i x) (List.enumerate (next_id (store_at w db)) bs)
         (w\<lparr>store_at := (store_at w)
               (db := scoped (store_at w db) (map (\<lambda>b. (bulk_atoms (bulk_at w b), [])) bs))\<rparr>))"
proof -
  have rows: "\<forall>x\<in>set bs. bulk_row w x = Inr ((\<lambda>b. (bulk_atoms (bulk_at w b), [])) x)"
    by (simp add: bulk_row_def)
  have eq: "write_bulks_loop db bs = write_rows db bulk_row assign_bulk bs"
    by (rule ext) (rule write_bulks_loop_rows)
  show ?thesis
    unfolding write_bulks_to_db_def eq
    by (rule with_db_rows_ok [of assign_bulk bulk_row, OF assign_bulk_store bulk_row_assign
          bulk_row_store rows assms])
qed

lemma write_slabs_to_db_ok:
  assumes ids: "\<forall>s\<in>set (concat sls). bulk_db_id (bulk_at w (slab_bulk (slab_at w s))) = Some (B s)"
    and nf: "\<forall>k<length (concat sls). faults (store_at w db) (attempts (store_at w db) + k) = None"
  shows "write_slabs_to_db sls db w =
      (Inr (), fold (\<lambda>(i, x). assign_slab i x) (List.enumerate (next_id (store_at w db)) (concat sls))
         (w\<lparr>store_at := (store_at w)
               (db := scoped (store_at w db)
                   (map (\<lambda>s. (slab_atoms (slab_at w s), [(''bulk_id'', IntV (B s))])) (concat sls)))\<rparr>))"
proof -
  have rows: "\<forall>x\<in>set (concat sls). slab_row w x =
      Inr ((\<lambda>s. (slab_atoms (slab_at w s), [(''bulk_id'', IntV (B s))])) x)"
    using ids by (simp add: slab_row_def)
  have eq: "write_slabs_loop db sls = write_rows db slab_row assign_slab (concat sls)"
    by (rule ext) (rule write_slabs_loop_rows)
  show ?thesis
    unfolding write_slabs_to_db_def eq
    by (rule with_db_rows_ok [of assign_slab slab_row, OF assign_slab_store slab_row_assign
          slab_row_store rows nf])
qed

lemma write_adsorbate_slab_configs_to_db_ok:
  assumes ids: "\<forall>p\<in>set (candidates cs).
        bulk_db_id (bulk_at w (slab_bulk (slab_at w (config_slab (fst p))))) = Some (B (fst p)) \<and>
        slab_db_id (slab_at w (config_slab (fst p))) = Some (S (fst p))"
    and nf: "\<forall>k<length (candidates cs). faults (store_at w db) (attempts (store_at w db) + k) = None"
  shows "write_adsorbate_slab_configs_to_db cs db w =
      (Inr (), fold (\<lambda>(i, x). assign_candidate i x) (List.enumerate (next_id (store_at w db)) (candidates cs))
         (w\<lparr>store_at := (store_at w)
               (db := scoped (store_at w db)
                   (map (\<lambda>p. (atoms_structure (atoms_at w (snd p)),
                               [(''bulk_id'', IntV (B (fst p))), (''slab_id'', IntV (S (fst p))),
                                (''relaxed'', BoolV False)])) (candidates cs)))\<rparr>))"
proof -
  have rows: "\<forall>x\<in>set (candidates cs). candidate_row w x =
      Inr ((\<lambda>p. (atoms_structure (atoms_at w (snd p)),
                               [(''bulk_id'', IntV (B (fst p))), (''slab_id'', IntV (S (fst p))),
                                (''relaxed'', BoolV False)])) x)"
    using ids by (simp add: candidate_row_def)
  have eq: "write_configs_loop db cs = write_rows db candidate_row assign_candidate (candidates cs)"
    unfolding candidates_def by (rule ext) (rule write_configs_loop_rows)
  show ?thesis
    unfolding write_adsorbate_slab_configs_to_db_def eq
    by (rule with_db_rows_ok [of assign_candidate candidate_row, OF assign_candidate_store
          candidate_row_assign candidate_row_store rows nf])
qed

lemma write_adsorbate_slabs_to_db_ok:
  assumes ids: "\<forall>x\<in>set rs. bulk_id (atoms_at w x) = Some (B x) \<and> slab_id (atoms_at w x) = Some (S x)
                   \<and> adslab_id (atoms_at w x) = Some (I x)"
    and nf: "\<forall>k<length rs. faults (store_at w db) (attempts (store_at w db) + k) = None"
  shows "write_adsorbate_slabs_to_db rs db w =
      (Inr (), w\<lparr>store_at := (store_at w)
               (db := scoped (store_at w db)
                   (map (\<lambda>x. (atoms_structure (atoms_at w x),
                               [(''bulk_id'', IntV (B x)), (''slab_id'', IntV (S x)),
                                (''adslab_id'', IntV (I x)), (''relaxed'', BoolV True)])) rs))\<rparr>)"
proof -
  have rows: "\<forall>x\<in>set rs. adslab_row w x =
      Inr ((\<lambda>x. (atoms_structure (atoms_at w x),
                               [(''bulk_id'', IntV (B x)), (''slab_id'', IntV (S x)),
                                (''adslab_id'', IntV (I x)), (''relaxed'', BoolV True)])) x)"
    using ids by (simp add: adslab_row_def)
  have eq: "write_adslabs_loop db rs = write_rows db adslab_row assign_nothing rs"
    by (rule ext) (rule write_adslabs_loop_rows)
  show ?thesis
    unfolding write_adsorbate_slabs_to_db_def eq
      with_db_rows_ok [of assign_nothing adslab_row, OF assign_nothing_store
          adslab_row_assign adslab_row_store rows nf]
    by (simp only: fold_assign_nothing)
qed

lemma fold_assign_other:
  fixes get :: "world \<Rightarrow> ref \<Rightarrow> 'o" and key :: "'x \<Rightarrow> ref"
  assumes G: "\<And>i x v b. get (assign i x v) b = (if b = key x then setid i (get v b) else get v b)"
  shows "b \<notin> key ` snd ` set ps \<Longrightarrow> get (fold (\<lambda>(i, x). assign i x) ps v) b = get v b"
proof (induction ps arbitrary: v)
  case Nil
  show ?case by simp
next
  case (Cons p ps)
  obtain i x where p: "p = (i, x)" by (cases p) auto
  have "b \<noteq> key x" and "b \<notin> key ` snd ` set ps" using Cons.prems by (auto simp: p)
  then show ?case using Cons.IH [of "assign i x v"] by (simp add: p G)
qed

lemma fold_assign_id:
  fixes get :: "world \<Rightarrow> ref \<Rightarrow> 'o" and key :: "'x \<Rightarrow> ref"
  assumes G: "\<And>i x v b. get (assign i x v) b = (if b = key x then setid i (get v b) else get v b)"
    and S: "\<And>i j ob. setid i (setid j ob) = setid i ob"
  shows "b \<in> key ` set xs \<Longrightarrow>
    \<exists>k<length xs. key (xs ! k) = b \<and>
        get (fold (\<lambda>(i, x). assign i x) (List.enumerate n xs) v) b = setid (n + k) (get v b)"
proof (induction xs arbitrary: n v)
  case Nil
  then show ?case by simp
next
  case (Cons x xs)
  let ?v1 = "assign n x v"
  have step: "fold (\<lambda>(i, x). assign i x) (List.enumerate n (x # xs)) v =
              fold (\<lambda>(i, x). assign i x) (List.enumerate (Suc n) xs) ?v1"
    by simp
  show ?case
  proof (cases "b \<in> key ` set xs")
    case True
    from Cons.IH [OF True, of "Suc n" ?v1] obtain k where
      k: "k < length xs" "key (xs ! k) = b"
         "get (fold (\<lambda>(i, x). assign i x) (List.enumerate (Suc n) xs) ?v1) b =
            setid (Suc n + k) (get ?v1 b)"
      by blast
    have "setid (Suc n + k) (get ?v1 b) = setid (n + Suc k) (get v b)"
      by (simp add: G S)
    then have "get (fold (\<lambda>(i, x). assign i x) (List.enumerate n (x # xs)) v) b =
        setid (n + Suc k) (get v b)"
      unfolding step k(3) .
    moreover have "Suc k < length (x # xs)" "key ((x # xs) ! Suc k) = b" using k by simp_all
    ultimately show ?thesis by blast
  next
    case False
    then have bx: "b = key x" using Cons.prems by auto
    have "b \<notin> key ` snd ` set (List.enumerate (Suc n) xs)"
    proof -
      have "set (map snd (List.enumerate (Suc n) xs)) = set xs"
        by (simp only: map_snd_enumerate)
      then have "snd ` set (List.enumerate (Suc n) xs) = set xs"
        by (simp only: set_map)
      then show ?thesis using False by simp
    qed
    from fold_assign_other [of get assign key setid, OF G this, of ?v1]
    have "get (fold (\<lambda>(i, x). assign i x) (List.enumerate (Suc n) xs) ?v1) b = get ?v1 b" .
    then have "get (fold (\<lambda>(i, x). assign i x) (List.enumerate n (x # xs)) v) b =
        setid (n + 0) (get v b)"
      unfolding step by (simp add: G bx)
    moreover have "0 < length (x # xs)" "key ((x # xs) ! 0) = b" using bx by simp_all
    ultimately show ?thesis by blast
  qed
qed

lemma assign_bulk_get:
  "bulk_at (assign_bulk i x v) b =
     (if b = id x then (\<lambda>i ob. ob\<lparr>bulk_db_id := Some i\<rparr>) i (bulk_at v b) else bulk_at v b)"
  by (simp add: assign_bulk_def)

lemma assign_slab_get:
  "slab_at (assign_slab i x v) b =
     (if b = id x then (\<lambda>i ob. ob\<lparr>slab_db_id := Some i\<rparr>) i (slab_at v b) else slab_at v b)"
  by (simp add: assign_slab_def)

lemma assign_candidate_get:
  "atoms_at (assign_candidate i x v) b =
     (if b = snd x then (\<lambda>i ob. ob\<lparr>atoms_db_id := Some i\<rparr>) i (atoms_at v b) else atoms_at v b)"
  by (simp add: assign_candidate_def)

lemma fold_assign_bulk_id:
  assumes "b \<in> set bs"
  shows "\<exists>k<length bs. bs ! k = b \<and>
     bulk_at (fold (\<lambda>(i, x). assign_bulk i x) (List.enumerate n bs) v) b =
       (bulk_at v b)\<lparr>bulk_db_id := Some (n + k)\<rparr>"
proof -
  have "b \<in> id ` set bs" using assms by simp
  from fold_assign_id [of bulk_at assign_bulk id "\<lambda>i ob. ob\<lparr>bulk_db_id := Some i\<rparr>",
      OF assign_bulk_get _ this, of n v]
  show ?thesis by simp
qed

lemma fold_assign_slab_id:
  assumes "b \<in> set bs"
  shows "\<exists>k<length bs. bs ! k = b \<and>
     slab_at (fold (\<lambda>(i, x). assign_slab i x) (List.enumerate n bs) v) b =
       (slab_at v b)\<lparr>slab_db_id := Some (n + k)\<rparr>"
proof -
  have "b \<in> id ` set bs" using assms by simp
  from fold_assign_id [of slab_at assign_slab id "\<lambda>i ob. ob\<lparr>slab_db_id := Some i\<rparr>",
      OF assign_slab_get _ this, of n v]
  show ?thesis by simp
qed

lemma fold_assign_candidate_id:
  assumes "b \<in> snd ` set ps"
  shows "\<exists>k<length ps. snd (ps ! k) = b \<and>
     atoms_at (fold (\<lambda>(i, x). assign_candidate i x) (List.enumerate n ps) v) b =
       (atoms_at v b)\<lparr>atoms_db_id := Some (n + k)\<rparr>"
proof -
  from fold_assign_id [of atoms_at assign_candidate snd "\<lambda>i ob. ob\<lparr>atoms_db_id := Some i\<rparr>",
      OF assign_candidate_get _ assms, of n v]
  show ?thesis by simp
qed

lemma fold_assign_bulk_frame:
  "slab_at (fold (\<lambda>(i, x). assign_bulk i x) ps v) = slab_at v"
  "atoms_at (fold (\<lambda>(i, x). assign_bulk i x) ps v) = atoms_at v"
  "store_at (fold (\<lambda>(i, x). assign_bulk i x) ps v) = store_at v"
  "bulk_atoms (bulk_at (fold (\<lambda>(i, x). assign_bulk i x) ps v) b) = bulk_atoms (bulk_at v b)"
  by (induction ps arbitrary: v; simp add: assign_bulk_def split_beta)+

lemma fold_assign_slab_frame:
  "bulk_at (fold (\<lambda>(i, x). assign_slab i x) ps v) = bulk_at v"
  "atoms_at (fold (\<lambda>(i, x). assign_slab i x) ps v) = atoms_at v"
  "store_at (fold (\<lambda>(i, x). assign_slab i x) ps v) = store_at v"
  "slab_atoms (slab_at (fold (\<lambda>(i, x). assign_slab i x) ps v) b) = slab_atoms (slab_at v b)"
  "slab_bulk (slab_at (fold (\<lambda>(i, x). assign_slab i x) ps v) b) = slab_bulk (slab_at v b)"
  by (induction ps arbitrary: v; simp add: assign_slab_def split_beta)+

lemma fold_assign_candidate_frame:
  "bulk_at (fold (\<lambda>(i, x). assign_candidate i x) ps v) = bulk_at v"
  "slab_at (fold (\<lambda>(i, x). assign_candidate i x) ps v) = slab_at v"
  "store_at (fold (\<lambda>(i, x). assign_candidate i x) ps v) = store_at v"
  "atoms_structure (atoms_at (fold (\<lambda>(i, x). assign_candidate i x) ps v) b) =
     atoms_structure (atoms_at v b)"
  by (induction ps arbitrary: v; simp add: assign_candidate_def split_beta)+

subsection \<open>Writing bulks, then their slabs\<close>

lemma nth_rows:
  "j < length xs \<Longrightarrow>
   map (\<lambda>(i, (a, ts)). Write i a ts) (List.enumerate n (map r xs)) ! j =
     Write (n + j) (fst (r (xs ! j))) (snd (r (xs ! j)))"
  by (simp add: nth_enumerate_eq case_prod_beta)

text \<open>
  C6. Let the bulks \<open>bs\<close> be written with \<^verbatim>\<open>write_bulks_to_db\<close> and then the
  slabs \<open>sls\<close> (a list of slab lists, as the function iterates) with
  \<^verbatim>\<open>write_slabs_to_db\<close>, every slab's parent bulk being among \<open>bs\<close>, on stores that
  accept the writes. Both calls return. The bulk store received one record per bulk, in
  order, with ids counting from \<open>nb\<close>; the j-th slab record carries the tag
  \<^verbatim>\<open>bulk_id\<close> \<open>= nb + k\<close> for a position \<open>k\<close> of the slab's parent among the bulks,
  and that is the \<^verbatim>\<open>db_id\<close> the parent holds, the id of a record written for it. After
  both calls every bulk holds the id of a record written for it, and every slab holds the
  id of a record written for it.
\<close>

theorem bulks_then_slabs:
  assumes nb: "nb = next_id (store_at w bulk_db)"
    and parents: "\<forall>s\<in>set (concat sls). slab_bulk (slab_at w s) \<in> set bs"
    and fb: "\<forall>k. faults (store_at w bulk_db) k = None"
    and fs: "\<forall>k. faults (store_at w slab_db) k = None"
  shows "\<exists>w1 w2 ns recs.
     write_bulks_to_db bs bulk_db w = (Inr (), w1) \<and>
     write_slabs_to_db sls slab_db w1 = (Inr (), w2) \<and>
     journal (store_at w1 bulk_db) =
       journal (store_at w bulk_db) @ [Enter]
         @ map (\<lambda>(i, b). Write i (bulk_atoms (bulk_at w b)) []) (List.enumerate nb bs) @ [Exit] \<and>
     ns = next_id (store_at w1 slab_db) \<and>
     (slab_db \<noteq> bulk_db \<longrightarrow> store_at w1 slab_db = store_at w slab_db) \<and>
     journal (store_at w2 slab_db) = journal (store_at w1 slab_db) @ [Enter] @ recs @ [Exit] \<and>
     length recs = length (concat sls) \<and>
     (\<forall>j<length (concat sls). \<exists>k<length bs.
         bs ! k = slab_bulk (slab_at w (concat sls ! j)) \<and>
         bulk_db_id (bulk_at w2 (bs ! k)) = Some (nb + k) \<and>
         recs ! j = Write (ns + j) (slab_atoms (slab_at w (concat sls ! j)))
                      [(''bulk_id'', IntV (nb + k))]) \<and>
     (\<forall>b\<in>set bs. \<exists>k<length bs. bs ! k = b \<and> bulk_db_id (bulk_at w2 b) = Some (nb + k)) \<and>
     (\<forall>s\<in>set (concat sls). \<exists>j<length (concat sls).
         concat sls ! j = s \<and> slab_db_id (slab_at w2 s) = Some (ns + j))"
proof -
  let ?stb = "store_at w bulk_db"
  let ?rb = "\<lambda>b. (bulk_atoms (bulk_at w b), [] :: tags)"
  let ?Sb = "(store_at w)(bulk_db := scoped ?stb (map ?rb bs))"
  let ?w1 = "fold (\<lambda>(i, x). assign_bulk i x) (List.enumerate nb bs) (w\<lparr>store_at := ?Sb\<rparr>)"
  let ?xs = "concat sls"
  have nfb: "\<forall>k<length bs. faults ?stb (attempts ?stb + k) = None" using fb by simp
  have bulks: "write_bulks_to_db bs bulk_db w = (Inr (), ?w1)"
    unfolding nb by (rule write_bulks_to_db_ok [OF nfb])
  have slab1: "slab_at ?w1 = slab_at w" by (simp add: fold_assign_bulk_frame)
  have store1: "store_at ?w1 = ?Sb" by (simp add: fold_assign_bulk_frame)
  have j1: "journal (store_at ?w1 bulk_db) =
       journal ?stb @ [Enter]
         @ map (\<lambda>(i, b). Write i (bulk_atoms (bulk_at w b)) []) (List.enumerate nb bs) @ [Exit]"
    unfolding store1 by (simp add: journal_scoped enumerate_map_rows nb)
  have bid: "\<exists>k<length bs. bs ! k = b \<and> bulk_db_id (bulk_at ?w1 b) = Some (nb + k)"
    if "b \<in> set bs" for b
  proof -
    from fold_assign_bulk_id [OF that, of nb "w\<lparr>store_at := ?Sb\<rparr>"] obtain k where
      "k < length bs" "bs ! k = b"
      "bulk_at ?w1 b = (bulk_at (w\<lparr>store_at := ?Sb\<rparr>) b)\<lparr>bulk_db_id := Some (nb + k)\<rparr>"
      by blast
    then show ?thesis by auto
  qed
  let ?sts = "store_at ?w1 slab_db"
  let ?ns = "next_id ?sts"
  define B where "B s = the (bulk_db_id (bulk_at ?w1 (slab_bulk (slab_at ?w1 s))))" for s
  have ids: "\<forall>s\<in>set ?xs. bulk_db_id (bulk_at ?w1 (slab_bulk (slab_at ?w1 s))) = Some (B s)"
  proof
    fix s assume "s \<in> set ?xs"
    then have "slab_bulk (slab_at w s) \<in> set bs" using parents by blast
    from bid [OF this] show "bulk_db_id (bulk_at ?w1 (slab_bulk (slab_at ?w1 s))) = Some (B s)"
      unfolding B_def slab1 by auto
  qed
  have fs1: "faults ?sts k = None" for k
    unfolding store1 using fb fs by simp
  have nfs: "\<forall>k<length ?xs. faults ?sts (attempts ?sts + k) = None" using fs1 by simp
  let ?rs = "\<lambda>s. (slab_atoms (slab_at ?w1 s), [(''bulk_id'', IntV (B s))])"
  let ?Ss = "(store_at ?w1)(slab_db := scoped ?sts (map ?rs ?xs))"
  let ?w2 = "fold (\<lambda>(i, x). assign_slab i x) (List.enumerate ?ns ?xs) (?w1\<lparr>store_at := ?Ss\<rparr>)"
  have slabs: "write_slabs_to_db sls slab_db ?w1 = (Inr (), ?w2)"
    by (rule write_slabs_to_db_ok [OF ids nfs])
  let ?recs = "map (\<lambda>(i, (a, ts)). Write i a ts) (List.enumerate ?ns (map ?rs ?xs))"
  have store2: "store_at ?w2 = ?Ss" by (simp add: fold_assign_slab_frame)
  have j2: "journal (store_at ?w2 slab_db) = journal ?sts @ [Enter] @ ?recs @ [Exit]"
    unfolding store2 by (simp add: journal_scoped)
  have bulk2: "bulk_at ?w2 = bulk_at ?w1" by (simp add: fold_assign_slab_frame)
  have len: "length ?recs = length ?xs" by simp
  have tagged: "\<forall>j<length ?xs. \<exists>k<length bs.
         bs ! k = slab_bulk (slab_at w (?xs ! j)) \<and>
         bulk_db_id (bulk_at ?w2 (bs ! k)) = Some (nb + k) \<and>
         ?recs ! j = Write (?ns + j) (slab_atoms (slab_at w (?xs ! j)))
                      [(''bulk_id'', IntV (nb + k))]"
  proof (intro allI impI)
    fix j assume j: "j < length ?xs"
    then have mem: "?xs ! j \<in> set ?xs" by (rule nth_mem)
    then have "slab_bulk (slab_at w (?xs ! j)) \<in> set bs" using parents by blast
    from bid [OF this] obtain k where k: "k < length bs" "bs ! k = slab_bulk (slab_at w (?xs ! j))"
      "bulk_db_id (bulk_at ?w1 (slab_bulk (slab_at w (?xs ! j)))) = Some (nb + k)" by blast
    have Bj: "B (?xs ! j) = nb + k" unfolding B_def slab1 using k(3) by simp
    have "?recs ! j = Write (?ns + j) (slab_atoms (slab_at w (?xs ! j)))
                      [(''bulk_id'', IntV (nb + k))]"
      unfolding nth_rows [OF j] by (simp add: Bj slab1)
    moreover have "bulk_db_id (bulk_at ?w2 (bs ! k)) = Some (nb + k)"
      unfolding bulk2 k(2) by (rule k(3))
    ultimately show "\<exists>k<length bs.
         bs ! k = slab_bulk (slab_at w (?xs ! j)) \<and>
         bulk_db_id (bulk_at ?w2 (bs ! k)) = Some (nb + k) \<and>
         ?recs ! j = Write (?ns + j) (slab_atoms (slab_at w (?xs ! j)))
                      [(''bulk_id'', IntV (nb + k))]"
      using k(1,2) by blast
  qed
  have bids2: "\<forall>b\<in>set bs. \<exists>k<length bs. bs ! k = b \<and> bulk_db_id (bulk_at ?w2 b) = Some (nb + k)"
    unfolding bulk2 using bid by blast
  have sids: "\<forall>s\<in>set ?xs. \<exists>j<length ?xs. ?xs ! j = s \<and> slab_db_id (slab_at ?w2 s) = Some (?ns + j)"
  proof
    fix s assume "s \<in> set ?xs"
    from fold_assign_slab_id [OF this, of ?ns "?w1\<lparr>store_at := ?Ss\<rparr>"] obtain j where
      "j < length ?xs" "?xs ! j = s"
      "slab_at ?w2 s = (slab_at (?w1\<lparr>store_at := ?Ss\<rparr>) s)\<lparr>slab_db_id := Some (?ns + j)\<rparr>"
      by blast
    then show "\<exists>j<length ?xs. ?xs ! j = s \<and> slab_db_id (slab_at ?w2 s) = Some (?ns + j)"
      by auto
  qed
  have other: "slab_db \<noteq> bulk_db \<longrightarrow> store_at ?w1 slab_db = store_at w slab_db"
    unfolding store1 by simp
  show ?thesis
    using bulks slabs j1 other j2 len tagged bids2 sids by blast
qed

theorem bulks_then_slabs_witness:
  "\<exists>w1 w2.
     write_bulks_to_db [0, 7] 0 example_world = (Inr (), w1) \<and>
     write_slabs_to_db [[3, 4], [5]] 1 w1 = (Inr (), w2) \<and>
     journal (store_at w1 0) =
       [Enter, Write 1 (Atoms ''Cu'') [], Write 2 (Atoms ''Cu'') [], Exit] \<and>
     journal (store_at w2 1) =
       [Enter, Write 1 (Atoms ''Cu4'') [(''bulk_id'', IntV 1)],
               Write 2 (Atoms ''Cu4'') [(''bulk_id'', IntV 1)],
               Write 3 (Atoms ''Cu4'') [(''bulk_id'', IntV 1)], Exit] \<and>
     bulk_db_id (bulk_at w2 0) = Some 1 \<and> bulk_db_id (bulk_at w2 7) = Some 2 \<and>
     slab_db_id (slab_at w2 3) = Some 1 \<and> slab_db_id (slab_at w2 4) = Some 2 \<and>
     slab_db_id (slab_at w2 5) = Some 3"
proof -
  have h1: "1 = next_id (store_at example_world 0)" by (simp add: example_world_def)
  have h2: "\<forall>s\<in>set (concat [[3, 4], [5]]). slab_bulk (slab_at example_world s) \<in> set [0, 7]"
    by (simp add: example_world_def)
  have h3: "\<forall>k. faults (store_at example_world 0) k = None" by (simp add: example_world_def)
  have h4: "\<forall>k. faults (store_at example_world 1) k = None" by (simp add: example_world_def)
  from bulks_then_slabs [OF h1 h2 h3 h4] obtain w1 w2 ns recs where
    r: "write_bulks_to_db [0, 7] 0 example_world = (Inr (), w1)"
       "write_slabs_to_db [[3, 4], [5]] 1 w1 = (Inr (), w2)"
    and jb: "journal (store_at w1 0) =
       journal (store_at example_world 0) @ [Enter]
         @ map (\<lambda>(i, b). Write i (bulk_atoms (bulk_at example_world b)) []) (List.enumerate 1 [0, 7]) @ [Exit]"
    and ns: "ns = next_id (store_at w1 1)"
    and other: "(1::ref) \<noteq> 0 \<longrightarrow> store_at w1 1 = store_at example_world 1"
    and js: "journal (store_at w2 1) = journal (store_at w1 1) @ [Enter] @ recs @ [Exit]"
    and len: "length recs = length (concat [[3, 4], [5 :: ref]])"
    and tagged: "\<forall>j<length (concat [[3, 4], [5 :: ref]]). \<exists>k<length [0, 7 :: ref].
         [0, 7] ! k = slab_bulk (slab_at example_world (concat [[3, 4], [5]] ! j)) \<and>
         bulk_db_id (bulk_at w2 ([0, 7] ! k)) = Some (1 + k) \<and>
         recs ! j = Write (ns + j) (slab_atoms (slab_at example_world (concat [[3, 4], [5]] ! j)))
                      [(''bulk_id'', IntV (1 + k))]"
    and bids: "\<forall>b\<in>set [0, 7 :: ref]. \<exists>k<length [0, 7 :: ref]. [0, 7] ! k = b \<and> bulk_db_id (bulk_at w2 b) = Some (1 + k)"
    and sids: "\<forall>s\<in>set (concat [[3, 4], [5 :: ref]]). \<exists>j<length (concat [[3, 4], [5 :: ref]]).
         concat [[3, 4], [5]] ! j = s \<and> slab_db_id (slab_at w2 s) = Some (ns + j)"
    by blast
  have st1: "store_at w1 1 = store_at example_world 1" using other by simp
  have ns1: "ns = 1" unfolding ns st1 by (simp add: example_world_def)
  have jb': "journal (store_at w1 0) =
       [Enter, Write 1 (Atoms ''Cu'') [], Write 2 (Atoms ''Cu'') [], Exit]"
    unfolding jb by (simp add: example_world_def)
  have two: "k < Suc (Suc 0) \<longleftrightarrow> k = 0 \<or> k = Suc 0" for k :: nat by auto
  have three: "k < Suc (Suc (Suc 0)) \<longleftrightarrow> k = 0 \<or> k = Suc 0 \<or> k = Suc (Suc 0)" for k :: nat
    by auto
  have rec: "recs ! j = Write (1 + j) (Atoms ''Cu4'') [(''bulk_id'', IntV 1)]" if "j < 3" for j
    using tagged [rule_format, of j] that
    by (auto simp: ns1 example_world_def two nth_Cons' split: if_splits)
  have "recs = [recs ! 0, recs ! 1, recs ! 2]"
    using len by (auto simp: list_eq_iff_nth_eq three numeral_2_eq_2)
  then have recs: "recs = [Write 1 (Atoms ''Cu4'') [(''bulk_id'', IntV 1)],
               Write 2 (Atoms ''Cu4'') [(''bulk_id'', IntV 1)],
               Write 3 (Atoms ''Cu4'') [(''bulk_id'', IntV 1)]]"
    using rec [of 0] rec [of 1] rec [of 2] by simp
  have js': "journal (store_at w2 1) =
       [Enter, Write 1 (Atoms ''Cu4'') [(''bulk_id'', IntV 1)],
               Write 2 (Atoms ''Cu4'') [(''bulk_id'', IntV 1)],
               Write 3 (Atoms ''Cu4'') [(''bulk_id'', IntV 1)], Exit]"
    unfolding js st1 recs by (simp add: example_world_def)
  have b0: "bulk_db_id (bulk_at w2 0) = Some 1" and b7: "bulk_db_id (bulk_at w2 7) = Some 2"
    using bids by (auto simp: two nth_Cons' split: if_splits)
  have s3: "slab_db_id (slab_at w2 3) = Some 1" and s4: "slab_db_id (slab_at w2 4) = Some 2"
    and s5: "slab_db_id (slab_at w2 5) = Some 3"
    using sids by (auto simp: three ns1 nth_Cons' numeral_2_eq_2 split: if_splits)
  show ?thesis using r jb' js' b0 b7 s3 s4 s5 by blast
qed

subsection \<open>Writing configurations\<close>

lemma candidates_mem:
  "p \<in> set (candidates cs) \<longleftrightarrow> fst p \<in> set cs \<and> snd p \<in> set (atoms_list (fst p))"
  by (cases p) (auto simp: candidates_def)

text \<open>
  C7. Let the configurations \<open>cs\<close> be written with
  \<^verbatim>\<open>write_adsorbate_slab_configs_to_db\<close>, the slab of each configuration having the id
  \<open>S c\<close> and that slab's bulk the id \<open>B c\<close>, on a store that accepts the writes. The call
  returns; the store received, inside one acquisition, one record per candidate structure
  of every configuration, in order (\<open>candidates cs\<close>), each tagged with \<^verbatim>\<open>bulk_id\<close>
  \<open>= B c\<close>, \<^verbatim>\<open>slab_id\<close> \<open>= S c\<close> and \<^verbatim>\<open>relaxed = False\<close>; and every candidate
  structure holds, as its \<^verbatim>\<open>db_id\<close>, the id the store returned for a record written for it.
\<close>

theorem configs_written:
  assumes n: "n = next_id (store_at w db)"
    and ids: "\<forall>c\<in>set cs.
        bulk_db_id (bulk_at w (slab_bulk (slab_at w (config_slab c)))) = Some (B c) \<and>
        slab_db_id (slab_at w (config_slab c)) = Some (S c)"
    and nf: "\<forall>k. faults (store_at w db) k = None"
  shows "\<exists>w' recs.
      write_adsorbate_slab_configs_to_db cs db w = (Inr (), w') \<and>
      journal (store_at w' db) = journal (store_at w db) @ [Enter] @ recs @ [Exit] \<and>
      recs = map (\<lambda>(i, (c, a)). Write i (atoms_structure (atoms_at w a))
                     [(''bulk_id'', IntV (B c)), (''slab_id'', IntV (S c)),
                      (''relaxed'', BoolV False)])
                 (List.enumerate n (candidates cs)) \<and>
      (\<forall>c\<in>set cs. \<forall>a\<in>set (atoms_list c).
          (\<exists>i. Write i (atoms_structure (atoms_at w a))
                  [(''bulk_id'', IntV (B c)), (''slab_id'', IntV (S c)),
                   (''relaxed'', BoolV False)] \<in> set recs) \<and>
          (\<exists>j<length (candidates cs). snd (candidates cs ! j) = a \<and>
               atoms_db_id (atoms_at w' a) = Some (n + j)))"
proof -
  let ?st = "store_at w db"
  let ?ps = "candidates cs"
  let ?r = "\<lambda>p. (atoms_structure (atoms_at w (snd p)),
                  [(''bulk_id'', IntV (B (fst p))), (''slab_id'', IntV (S (fst p))),
                   (''relaxed'', BoolV False)])"
  let ?S = "(store_at w)(db := scoped ?st (map ?r ?ps))"
  let ?w' = "fold (\<lambda>(i, x). assign_candidate i x) (List.enumerate n ?ps) (w\<lparr>store_at := ?S\<rparr>)"
  let ?recs = "map (\<lambda>(i, (c, a)). Write i (atoms_structure (atoms_at w a))
                     [(''bulk_id'', IntV (B c)), (''slab_id'', IntV (S c)),
                      (''relaxed'', BoolV False)])
                 (List.enumerate n ?ps)"
  have ids': "\<forall>p\<in>set ?ps.
        bulk_db_id (bulk_at w (slab_bulk (slab_at w (config_slab (fst p))))) = Some (B (fst p)) \<and>
        slab_db_id (slab_at w (config_slab (fst p))) = Some (S (fst p))"
    using ids by (simp add: candidates_mem)
  have nf': "\<forall>k<length ?ps. faults ?st (attempts ?st + k) = None" using nf by simp
  have run: "write_adsorbate_slab_configs_to_db cs db w = (Inr (), ?w')"
    unfolding n
    by (rule write_adsorbate_slab_configs_to_db_ok [where B = B and S = S, OF ids' nf'])
  have store: "store_at ?w' = ?S" by (simp add: fold_assign_candidate_frame)
  have recs: "map (\<lambda>(i, (a, ts)). Write i a ts) (List.enumerate n (map ?r ?ps)) = ?recs"
    by (simp add: enumerate_map_rows case_prod_beta)
  have j: "journal (store_at ?w' db) = journal ?st @ [Enter] @ ?recs @ [Exit]"
    unfolding store by (simp add: journal_scoped n [symmetric] recs)
  have each: "\<forall>c\<in>set cs. \<forall>a\<in>set (atoms_list c).
          (\<exists>i. Write i (atoms_structure (atoms_at w a))
                  [(''bulk_id'', IntV (B c)), (''slab_id'', IntV (S c)),
                   (''relaxed'', BoolV False)] \<in> set ?recs) \<and>
          (\<exists>j<length ?ps. snd (?ps ! j) = a \<and> atoms_db_id (atoms_at ?w' a) = Some (n + j))"
  proof (intro ballI conjI)
    fix c a assume c: "c \<in> set cs" and a: "a \<in> set (atoms_list c)"
    then have mem: "(c, a) \<in> set ?ps" by (simp add: candidates_mem)
    from mem [unfolded in_set_conv_nth] obtain m where m: "m < length ?ps" "?ps ! m = (c, a)"
      by blast
    have nth: "?recs ! m = Write (n + m) (atoms_structure (atoms_at w a))
                  [(''bulk_id'', IntV (B c)), (''slab_id'', IntV (S c)),
                   (''relaxed'', BoolV False)]"
      using m by (simp add: nth_enumerate_eq del: in_set_conv_nth)
    have "m < length ?recs" using m(1) by simp
    then have "?recs ! m \<in> set ?recs" by (rule nth_mem)
    then have "Write (n + m) (atoms_structure (atoms_at w a))
                  [(''bulk_id'', IntV (B c)), (''slab_id'', IntV (S c)),
                   (''relaxed'', BoolV False)] \<in> set ?recs"
      unfolding nth .
    then show "\<exists>i. Write i (atoms_structure (atoms_at w a))
                  [(''bulk_id'', IntV (B c)), (''slab_id'', IntV (S c)),
                   (''relaxed'', BoolV False)] \<in> set ?recs" by blast
    have "a \<in> snd ` set ?ps" using mem by force
    from fold_assign_candidate_id [OF this, of n "w\<lparr>store_at := ?S\<rparr>"] obtain k where
      k: "k < length ?ps" "snd (?ps ! k) = a"
      "atoms_at ?w' a = (atoms_at (w\<lparr>store_at := ?S\<rparr>) a)\<lparr>atoms_db_id := Some (n + k)\<rparr>"
      by blast
    have "atoms_db_id (atoms_at ?w' a) = Some (n + k)"
      unfolding k(3) by simp
    with k(1,2) show "\<exists>j<length ?ps. snd (?ps ! j) = a \<and> atoms_db_id (atoms_at ?w' a) = Some (n + j)"
      by blast
  qed
  show ?thesis
    apply (rule exI [of _ ?w'])
    apply (rule exI [of _ ?recs])
    apply (intro conjI)
       apply (rule run)
      apply (rule j)
     apply (rule refl)
    apply (rule each)
    done
qed

theorem configs_written_witness:
  "\<exists>w'. write_adsorbate_slab_configs_to_db example_configs 0 written_world = (Inr (), w') \<and>
     journal (store_at w' 0) =
       [Enter,
        Write 1 (Atoms ''Cu4CO'') [(''bulk_id'', IntV 1), (''slab_id'', IntV 3), (''relaxed'', BoolV False)],
        Write 2 (Atoms ''Cu4CO'') [(''bulk_id'', IntV 1), (''slab_id'', IntV 3), (''relaxed'', BoolV False)],
        Write 3 (Atoms ''Cu4CO'') [(''bulk_id'', IntV 1), (''slab_id'', IntV 3), (''relaxed'', BoolV False)],
        Write 4 (Atoms ''Cu4CO'') [(''bulk_id'', IntV 1), (''slab_id'', IntV 4), (''relaxed'', BoolV False)],
        Write 5 (Atoms ''Cu4CO'') [(''bulk_id'', IntV 1), (''slab_id'', IntV 4), (''relaxed'', BoolV False)],
        Write 6 (Atoms ''Cu4CO'') [(''bulk_id'', IntV 1), (''slab_id'', IntV 4), (''relaxed'', BoolV False)],
        Exit] \<and>
     atoms_db_id (atoms_at w' 30) = Some 1 \<and> atoms_db_id (atoms_at w' 42) = Some 6"
proof -
  have h1: "1 = next_id (store_at written_world 0)"
    by (simp add: written_world_def example_world_def)
  have h2: "\<forall>c\<in>set example_configs.
        bulk_db_id (bulk_at written_world (slab_bulk (slab_at written_world (config_slab c)))) =
          Some ((\<lambda>c. 1) c) \<and>
        slab_db_id (slab_at written_world (config_slab c)) = Some (config_slab c)"
    by (simp add: written_world_def example_world_def example_configs_def)
  have h3: "\<forall>k. faults (store_at written_world 0) k = None"
    by (simp add: written_world_def example_world_def)
  have cands: "candidates example_configs =
      [(example_configs ! 0, 30), (example_configs ! 0, 31), (example_configs ! 0, 32),
       (example_configs ! 1, 40), (example_configs ! 1, 41), (example_configs ! 1, 42)]"
    by (simp add: candidates_def example_configs_def)
  from configs_written [where B = "\<lambda>c. 1" and S = config_slab, OF h1 h2 h3]
  obtain w' recs where
    r: "write_adsorbate_slab_configs_to_db example_configs 0 written_world = (Inr (), w')"
    and j: "journal (store_at w' 0) = journal (store_at written_world 0) @ [Enter] @ recs @ [Exit]"
    and recs: "recs = map (\<lambda>(i, (c, a)). Write i (atoms_structure (atoms_at written_world a))
                     [(''bulk_id'', IntV 1), (''slab_id'', IntV (config_slab c)),
                      (''relaxed'', BoolV False)])
                 (List.enumerate 1 (candidates example_configs))"
    and each: "\<forall>c\<in>set example_configs. \<forall>a\<in>set (atoms_list c).
          (\<exists>i. Write i (atoms_structure (atoms_at written_world a))
                  [(''bulk_id'', IntV 1), (''slab_id'', IntV (config_slab c)),
                   (''relaxed'', BoolV False)] \<in> set recs) \<and>
          (\<exists>j<length (candidates example_configs). snd (candidates example_configs ! j) = a \<and>
               atoms_db_id (atoms_at w' a) = Some (1 + j))"
    by blast
  have j': "journal (store_at w' 0) =
       [Enter,
        Write 1 (Atoms ''Cu4CO'') [(''bulk_id'', IntV 1), (''slab_id'', IntV 3), (''relaxed'', BoolV False)],
        Write 2 (Atoms ''Cu4CO'') [(''bulk_id'', IntV 1), (''slab_id'', IntV 3), (''relaxed'', BoolV False)],
        Write 3 (Atoms ''Cu4CO'') [(''bulk_id'', IntV 1), (''slab_id'', IntV 3), (''relaxed'', BoolV False)],
        Write 4 (Atoms ''Cu4CO'') [(''bulk_id'', IntV 1), (''slab_id'', IntV 4), (''relaxed'', BoolV False)],
        Write 5 (Atoms ''Cu4CO'') [(''bulk_id'', IntV 1), (''slab_id'', IntV 4), (''relaxed'', BoolV False)],
        Write 6 (Atoms ''Cu4CO'') [(''bulk_id'', IntV 1), (''slab_id'', IntV 4), (''relaxed'', BoolV False)],
        Exit]"
    unfolding j recs cands
    by (simp add: written_world_def example_world_def example_configs_def)
  have six: "k < Suc (Suc (Suc (Suc (Suc (Suc 0))))) \<longleftrightarrow>
      k = 0 \<or> k = Suc 0 \<or> k = Suc (Suc 0) \<or> k = Suc (Suc (Suc 0)) \<or>
      k = Suc (Suc (Suc (Suc 0))) \<or> k = Suc (Suc (Suc (Suc (Suc 0))))" for k :: nat
    by auto
  have a30: "atoms_db_id (atoms_at w' 30) = Some 1"
    using each [rule_format, of "example_configs ! 0" 30] unfolding cands
    by (auto simp: example_configs_def six)
  have a42: "atoms_db_id (atoms_at w' 42) = Some 6"
    using each [rule_format, of "example_configs ! 1" 42] unfolding cands
    by (auto simp: example_configs_def six)
  show ?thesis using r j' a30 a42 by blast
qed

subsection \<open>The writers: scope and partial writes\<close>

lemma row_fold_assign:
  assumes A2: "\<And>i y v x. row (assign i y v) x = row v x"
  shows "row (fold (\<lambda>(i, x). assign i x) ps v) y = row v y"
proof (induction ps arbitrary: v)
  case Nil
  show ?case by simp
next
  case (Cons p ps)
  obtain i z where p: "p = (i, z)" by (cases p) auto
  show ?case unfolding p by (simp only: fold_simps prod.case Cons.IH A2)
qed

lemma with_db_rows_unreadable:
  assumes A3: "\<And>i x v s. assign i x (v\<lparr>store_at := s\<rparr>) = (assign i x v)\<lparr>store_at := s\<rparr>"
    and A2: "\<And>i y v x. row (assign i y v) x = row v x"
    and A2': "\<And>v s x. row (v\<lparr>store_at := s\<rparr>) x = row v x"
    and rows: "\<forall>y\<in>set pre. row w y = Inr (r y)"
    and nf: "\<forall>k<length pre. faults (store_at w db) (attempts (store_at w db) + k) = None"
    and bad: "row w x = Inl e"
  shows "with_db db (write_rows db row assign (pre @ x # post)) w =
      (Inl e, fold (\<lambda>(i, x). assign i x) (List.enumerate (next_id (store_at w db)) pre)
                 (w\<lparr>store_at := (store_at w)(db := scoped (store_at w db) (map r pre))\<rparr>))"
proof -
  let ?we = "db_enter db w"
  have rows_e: "\<forall>y\<in>set pre. row ?we y = Inr (r y)"
    using rows unfolding db_enter_store by (simp add: A2')
  have nf_e: "\<forall>k<length pre. faults (store_at ?we db) (attempts (store_at ?we db) + k) = None"
    using nf unfolding db_enter_store by simp
  let ?W = "fold (\<lambda>(i, x). assign i x) (List.enumerate (next_id (store_at ?we db)) pre)
                 (?we\<lparr>store_at := (store_at ?we)(db := wrote (store_at ?we db) (map r pre))\<rparr>)"
  have pre: "write_rows db row assign pre ?we = (Inr (), ?W)"
    by (rule write_rows_ok [of assign row, OF A3 A2 A2' rows_e nf_e])
  have "row ?W x = row w x"
    unfolding row_fold_assign [of row assign, OF A2] A2' db_enter_store ..
  then have rowx: "row ?W x = Inl e" using bad by simp
  have stop: "write_rows db row assign (x # post) ?W = (Inl e, ?W)"
    by (simp add: rowx)
  have body: "write_rows db row assign (pre @ x # post) ?we = (Inl e, ?W)"
    by (simp only: write_rows_append pre prod.case sum.case stop)
  have ok: "with_db db (write_rows db row assign pre) w =
      (Inr (), fold (\<lambda>(i, x). assign i x) (List.enumerate (next_id (store_at w db)) pre)
                 (w\<lparr>store_at := (store_at w)(db := scoped (store_at w db) (map r pre))\<rparr>))"
    by (rule with_db_rows_ok [of assign row, OF A3 A2 A2' rows nf])
  have "db_exit db ?W = snd (with_db db (write_rows db row assign pre) w)"
    unfolding with_db_def pre by simp
  then have ex: "db_exit db ?W =
      fold (\<lambda>(i, x). assign i x) (List.enumerate (next_id (store_at w db)) pre)
                 (w\<lparr>store_at := (store_at w)(db := scoped (store_at w db) (map r pre))\<rparr>)"
    unfolding ok by simp
  show ?thesis
    unfolding with_db_def body by (simp only: prod.case ex)
qed

lemma take_rows:
  assumes k: "k \<le> length xs" and rows: "\<forall>j<k. P (xs ! j)"
  shows "\<forall>y\<in>set (take k xs). P y"
proof
  fix y assume "y \<in> set (take k xs)"
  then obtain j where "j < length (take k xs)" "take k xs ! j = y"
    by (auto simp: in_set_conv_nth)
  then have "j < k" "xs ! j = y" using k by simp_all
  with rows show "P y" by blast
qed

lemma with_db_rows_unreadable_journal:
  assumes A3: "\<And>i x v s. assign i x (v\<lparr>store_at := s\<rparr>) = (assign i x v)\<lparr>store_at := s\<rparr>"
    and A2: "\<And>i y v x. row (assign i y v) x = row v x"
    and A2': "\<And>v s x. row (v\<lparr>store_at := s\<rparr>) x = row v x"
    and k: "k < length xs"
    and rows: "\<forall>j<k. row w (xs ! j) = Inr (r (xs ! j))"
    and nf: "\<forall>j<k. faults (store_at w db) (attempts (store_at w db) + j) = None"
    and bad: "row w (xs ! k) = Inl e"
  shows "fst (with_db db (write_rows db row assign xs) w) = Inl e \<and>
         journal (store_at (snd (with_db db (write_rows db row assign xs) w)) db) =
           journal (store_at w db) @ [Enter]
             @ map (\<lambda>(i, x). Write i (fst (r x)) (snd (r x)))
                 (List.enumerate (next_id (store_at w db)) (take k xs)) @ [Exit]"
proof -
  let ?pre = "take k xs"
  have split: "xs = ?pre @ xs ! k # drop (Suc k) xs" using k by (rule id_take_nth_drop)
  have len: "length ?pre = k" using k by simp
  have rows': "\<forall>y\<in>set ?pre. row w y = Inr (r y)"
    by (rule take_rows [where P = "\<lambda>y. row w y = Inr (r y)"]) (use k rows in simp_all)
  have nf': "\<forall>j<length ?pre. faults (store_at w db) (attempts (store_at w db) + j) = None"
    using nf len by simp
  have run: "with_db db (write_rows db row assign (?pre @ xs ! k # drop (Suc k) xs)) w =
      (Inl e, fold (\<lambda>(i, x). assign i x) (List.enumerate (next_id (store_at w db)) ?pre)
                (w\<lparr>store_at := (store_at w) (db := scoped (store_at w db) (map r ?pre))\<rparr>))"
    by (rule with_db_rows_unreadable [of assign row, OF A3 A2 A2' rows' nf' bad])
  have st: "store_at (fold (\<lambda>(i, x). assign i x) ps v) = store_at v" for ps and v :: world
    by (rule fold_assign_store_at [of assign, OF A3])
  show ?thesis
    unfolding run [folded split]
    by (simp add: st journal_scoped enumerate_map_rows)
qed

lemma with_db_rows_fault_journal:
  assumes A3: "\<And>i x v s. assign i x (v\<lparr>store_at := s\<rparr>) = (assign i x v)\<lparr>store_at := s\<rparr>"
    and A2: "\<And>i y v x. row (assign i y v) x = row v x"
    and A2': "\<And>v s x. row (v\<lparr>store_at := s\<rparr>) x = row v x"
    and k: "k < length xs"
    and rows: "\<forall>j<Suc k. row w (xs ! j) = Inr (r (xs ! j))"
    and nf: "\<forall>j<k. faults (store_at w db) (attempts (store_at w db) + j) = None"
    and fault: "faults (store_at w db) (attempts (store_at w db) + k) = Some e"
  shows "fst (with_db db (write_rows db row assign xs) w) = Inl e \<and>
         journal (store_at (snd (with_db db (write_rows db row assign xs) w)) db) =
           journal (store_at w db) @ [Enter]
             @ map (\<lambda>(i, x). Write i (fst (r x)) (snd (r x)))
                 (List.enumerate (next_id (store_at w db)) (take k xs)) @ [Exit]"
proof -
  let ?pre = "take k xs"
  have split: "xs = ?pre @ xs ! k # drop (Suc k) xs" using k by (rule id_take_nth_drop)
  have len: "length ?pre = k" using k by simp
  have "\<forall>y\<in>set (take (Suc k) xs). row w y = Inr (r y)"
    by (rule take_rows [where P = "\<lambda>y. row w y = Inr (r y)"]) (use k rows in simp_all)
  then have rows': "\<forall>y\<in>set (?pre @ [xs ! k]). row w y = Inr (r y)"
    using k by (simp add: take_Suc_conv_app_nth)
  have nf': "\<forall>j<length ?pre. faults (store_at w db) (attempts (store_at w db) + j) = None"
    using nf len by simp
  have fault': "faults (store_at w db) (attempts (store_at w db) + length ?pre) = Some e"
    using fault len by simp
  have run: "with_db db (write_rows db row assign (?pre @ xs ! k # drop (Suc k) xs)) w =
      (Inl e, fold (\<lambda>(i, x). assign i x) (List.enumerate (next_id (store_at w db)) ?pre)
                (w\<lparr>store_at := (store_at w)
                      (db := (scoped (store_at w db) (map r ?pre))
                               \<lparr>attempts := attempts (store_at w db) + length ?pre + 1\<rparr>)\<rparr>))"
    by (rule with_db_rows_fault [of assign row, OF A3 A2 A2' rows' nf' fault'])
  have st: "store_at (fold (\<lambda>(i, x). assign i x) ps v) = store_at v" for ps and v :: world
    by (rule fold_assign_store_at [of assign, OF A3])
  show ?thesis
    unfolding run [folded split]
    by (simp add: st journal_scoped enumerate_map_rows)
qed

lemma write_bulks_to_db_rows:
  "write_bulks_to_db bs db = with_db db (write_rows db bulk_row assign_bulk bs)"
  by (rule ext) (simp add: write_bulks_to_db_def write_bulks_loop_rows [abs_def])

lemma write_slabs_to_db_rows:
  "write_slabs_to_db sls db = with_db db (write_rows db slab_row assign_slab (concat sls))"
  by (rule ext) (simp add: write_slabs_to_db_def write_slabs_loop_rows [abs_def])

lemma write_adsorbate_slab_configs_to_db_rows:
  "write_adsorbate_slab_configs_to_db cs db =
     with_db db (write_rows db candidate_row assign_candidate (candidates cs))"
  by (rule ext)
     (simp add: write_adsorbate_slab_configs_to_db_def write_configs_loop_rows [abs_def] candidates_def)

lemma write_adsorbate_slabs_to_db_rows:
  "write_adsorbate_slabs_to_db rs db = with_db db (write_rows db adslab_row assign_nothing rs)"
  by (rule ext) (simp add: write_adsorbate_slabs_to_db_def write_adslabs_loop_rows [abs_def])

lemma with_db_rows_stop_journal:
  assumes A3: "\<And>i x v s. assign i x (v\<lparr>store_at := s\<rparr>) = (assign i x v)\<lparr>store_at := s\<rparr>"
    and A2: "\<And>i y v x. row (assign i y v) x = row v x"
    and A2': "\<And>v s x. row (v\<lparr>store_at := s\<rparr>) x = row v x"
    and k: "k < length xs"
    and rows: "\<forall>j<k. row w (xs ! j) = Inr (r (xs ! j))"
    and nf: "\<forall>j<k. faults (store_at w db) (attempts (store_at w db) + j) = None"
    and stop: "row w (xs ! k) = Inl e \<or>
               row w (xs ! k) = Inr (r (xs ! k)) \<and>
               faults (store_at w db) (attempts (store_at w db) + k) = Some e"
  shows "fst (with_db db (write_rows db row assign xs) w) = Inl e \<and>
         journal (store_at (snd (with_db db (write_rows db row assign xs) w)) db) =
           journal (store_at w db) @ [Enter]
             @ map (\<lambda>(i, x). Write i (fst (r x)) (snd (r x)))
                 (List.enumerate (next_id (store_at w db)) (take k xs)) @ [Exit]"
  using stop
proof
  assume "row w (xs ! k) = Inl e"
  then show ?thesis
    by (rule with_db_rows_unreadable_journal [of assign row, OF A3 A2 A2' k rows nf])
next
  assume h: "row w (xs ! k) = Inr (r (xs ! k)) \<and>
               faults (store_at w db) (attempts (store_at w db) + k) = Some e"
  have rows': "\<forall>j<Suc k. row w (xs ! j) = Inr (r (xs ! j))"
    using rows h by (auto simp: less_Suc_eq)
  from h have "faults (store_at w db) (attempts (store_at w db) + k) = Some e" by (rule conjunct2)
  then show ?thesis
    by (rule with_db_rows_fault_journal [of assign row, OF A3 A2 A2' k rows' nf])
qed

lemma write_bulks_to_db_stops:
  assumes k: "k < length bs"
    and nf: "\<forall>j<k. faults (store_at w db) (attempts (store_at w db) + j) = None"
    and fault: "faults (store_at w db) (attempts (store_at w db) + k) = Some e"
  shows "fst (write_bulks_to_db bs db w) = Inl e \<and>
         journal (store_at (snd (write_bulks_to_db bs db w)) db) =
           journal (store_at w db) @ [Enter]
             @ map (\<lambda>(i, b). Write i (bulk_atoms (bulk_at w b)) [])
                 (List.enumerate (next_id (store_at w db)) (take k bs)) @ [Exit]"
proof -
  have rows: "\<forall>j<k. bulk_row w (bs ! j) = Inr ((\<lambda>b. (bulk_atoms (bulk_at w b), [])) (bs ! j))"
    by (simp add: bulk_row_def)
  have stop: "bulk_row w (bs ! k) = Inl e \<or>
      bulk_row w (bs ! k) = Inr ((\<lambda>b. (bulk_atoms (bulk_at w b), [])) (bs ! k)) \<and>
      faults (store_at w db) (attempts (store_at w db) + k) = Some e"
    using fault by (simp add: bulk_row_def)
  from with_db_rows_stop_journal [of assign_bulk bulk_row, OF assign_bulk_store
      bulk_row_assign bulk_row_store k rows nf stop]
  show ?thesis unfolding write_bulks_to_db_rows by simp
qed

lemma write_slabs_to_db_stops:
  assumes k: "k < length (concat sls)"
    and nf: "\<forall>j<k. faults (store_at w db) (attempts (store_at w db) + j) = None"
    and ids: "\<forall>j<k. bulk_db_id (bulk_at w (slab_bulk (slab_at w (concat sls ! j)))) =
                      Some (B (concat sls ! j))"
    and stop: "bulk_db_id (bulk_at w (slab_bulk (slab_at w (concat sls ! k)))) = None \<and>
               e = no_attribute ''db_id'' \<or>
               bulk_db_id (bulk_at w (slab_bulk (slab_at w (concat sls ! k)))) =
                 Some (B (concat sls ! k)) \<and>
               faults (store_at w db) (attempts (store_at w db) + k) = Some e"
  shows "fst (write_slabs_to_db sls db w) = Inl e \<and>
         journal (store_at (snd (write_slabs_to_db sls db w)) db) =
           journal (store_at w db) @ [Enter]
             @ map (\<lambda>(i, s). Write i (slab_atoms (slab_at w s)) [(''bulk_id'', IntV (B s))])
                 (List.enumerate (next_id (store_at w db)) (take k (concat sls))) @ [Exit]"
proof -
  let ?r = "\<lambda>s. (slab_atoms (slab_at w s), [(''bulk_id'', IntV (B s))])"
  have rows: "\<forall>j<k. slab_row w (concat sls ! j) = Inr (?r (concat sls ! j))"
    using ids by (simp add: slab_row_def)
  have stop': "slab_row w (concat sls ! k) = Inl e \<or>
      slab_row w (concat sls ! k) = Inr (?r (concat sls ! k)) \<and>
      faults (store_at w db) (attempts (store_at w db) + k) = Some e"
    using stop by (auto simp: slab_row_def)
  from with_db_rows_stop_journal [of assign_slab slab_row, OF assign_slab_store
      slab_row_assign slab_row_store k rows nf stop']
  show ?thesis unfolding write_slabs_to_db_rows by simp
qed

lemma write_adsorbate_slab_configs_to_db_stops:
  assumes k: "k < length (candidates cs)"
    and nf: "\<forall>j<k. faults (store_at w db) (attempts (store_at w db) + j) = None"
    and ids: "\<forall>j<k.
        bulk_db_id (bulk_at w (slab_bulk (slab_at w (config_slab (fst (candidates cs ! j)))))) =
          Some (Bc (fst (candidates cs ! j))) \<and>
        slab_db_id (slab_at w (config_slab (fst (candidates cs ! j)))) =
          Some (Sc (fst (candidates cs ! j)))"
    and stop: "(bulk_db_id (bulk_at w (slab_bulk (slab_at w (config_slab (fst (candidates cs ! k)))))) = None \<or>
                slab_db_id (slab_at w (config_slab (fst (candidates cs ! k)))) = None) \<and>
               e = no_attribute ''db_id'' \<or>
               bulk_db_id (bulk_at w (slab_bulk (slab_at w (config_slab (fst (candidates cs ! k)))))) =
                 Some (Bc (fst (candidates cs ! k))) \<and>
               slab_db_id (slab_at w (config_slab (fst (candidates cs ! k)))) =
                 Some (Sc (fst (candidates cs ! k))) \<and>
               faults (store_at w db) (attempts (store_at w db) + k) = Some e"
  shows "fst (write_adsorbate_slab_configs_to_db cs db w) = Inl e \<and>
         journal (store_at (snd (write_adsorbate_slab_configs_to_db cs db w)) db) =
           journal (store_at w db) @ [Enter]
             @ map (\<lambda>(i, (c, a)). Write i (atoms_structure (atoms_at w a))
                      [(''bulk_id'', IntV (Bc c)), (''slab_id'', IntV (Sc c)),
                       (''relaxed'', BoolV False)])
                 (List.enumerate (next_id (store_at w db)) (take k (candidates cs))) @ [Exit]"
proof -
  let ?r = "\<lambda>p. (atoms_structure (atoms_at w (snd p)),
                     [(''bulk_id'', IntV (Bc (fst p))), (''slab_id'', IntV (Sc (fst p))),
                      (''relaxed'', BoolV False)])"
  have rows: "\<forall>j<k. candidate_row w (candidates cs ! j) = Inr (?r (candidates cs ! j))"
    using ids by (simp add: candidate_row_def)
  have stop': "candidate_row w (candidates cs ! k) = Inl e \<or>
      candidate_row w (candidates cs ! k) = Inr (?r (candidates cs ! k)) \<and>
      faults (store_at w db) (attempts (store_at w db) + k) = Some e"
    using stop by (auto simp: candidate_row_def split: option.splits)
  from with_db_rows_stop_journal [of assign_candidate candidate_row, OF assign_candidate_store
      candidate_row_assign candidate_row_store k rows nf stop']
  show ?thesis unfolding write_adsorbate_slab_configs_to_db_rows by (simp add: case_prod_beta)
qed

lemma write_adsorbate_slabs_to_db_stops:
  assumes k: "k < length rs"
    and nf: "\<forall>j<k. faults (store_at w db) (attempts (store_at w db) + j) = None"
    and ids: "\<forall>j<k. bulk_id (atoms_at w (rs ! j)) = Some (Ba (rs ! j)) \<and>
                    slab_id (atoms_at w (rs ! j)) = Some (Sa (rs ! j)) \<and>
                    adslab_id (atoms_at w (rs ! j)) = Some (Ia (rs ! j))"
    and stop: "(bulk_id (atoms_at w (rs ! k)) = None \<or> slab_id (atoms_at w (rs ! k)) = None \<or>
                adslab_id (atoms_at w (rs ! k)) = None) \<and>
               e = no_attribute
                     (if bulk_id (atoms_at w (rs ! k)) = None then ''bulk_id''
                      else if slab_id (atoms_at w (rs ! k)) = None then ''slab_id''
                      else ''adslab_id'') \<or>
               bulk_id (atoms_at w (rs ! k)) = Some (Ba (rs ! k)) \<and>
               slab_id (atoms_at w (rs ! k)) = Some (Sa (rs ! k)) \<and>
               adslab_id (atoms_at w (rs ! k)) = Some (Ia (rs ! k)) \<and>
               faults (store_at w db) (attempts (store_at w db) + k) = Some e"
  shows "fst (write_adsorbate_slabs_to_db rs db w) = Inl e \<and>
         journal (store_at (snd (write_adsorbate_slabs_to_db rs db w)) db) =
           journal (store_at w db) @ [Enter]
             @ map (\<lambda>(i, x). Write i (atoms_structure (atoms_at w x))
                      [(''bulk_id'', IntV (Ba x)), (''slab_id'', IntV (Sa x)),
                       (''adslab_id'', IntV (Ia x)), (''relaxed'', BoolV True)])
                 (List.enumerate (next_id (store_at w db)) (take k rs)) @ [Exit]"
proof -
  let ?r = "\<lambda>x. (atoms_structure (atoms_at w x),
                     [(''bulk_id'', IntV (Ba x)), (''slab_id'', IntV (Sa x)),
                      (''adslab_id'', IntV (Ia x)), (''relaxed'', BoolV True)])"
  have rows: "\<forall>j<k. adslab_row w (rs ! j) = Inr (?r (rs ! j))"
    using ids by (simp add: adslab_row_def)
  have stop': "adslab_row w (rs ! k) = Inl e \<or>
      adslab_row w (rs ! k) = Inr (?r (rs ! k)) \<and>
      faults (store_at w db) (attempts (store_at w db) + k) = Some e"
    using stop by (auto simp: adslab_row_def split: option.splits)
  from with_db_rows_stop_journal [of assign_nothing adslab_row, OF assign_nothing_store
      adslab_row_assign adslab_row_store k rows nf stop']
  show ?thesis unfolding write_adsorbate_slabs_to_db_rows by simp
qed

text \<open>
  C9. For each of the four writers, on every input and in every world, whatever the
  call returns or raises: the store's journal grows by an acquisition, then records
  only, then the release; so every record is written inside the scope and the store is
  released on every exit path. And when the loop raises at its item number \<open>k\<close>, the
  earlier items having been read and written, the writer raises the same exception \<open>e\<close>
  to its caller, and the records of the first \<open>k\<close> items stay in the store, between the
  acquisition and the release. The loop raises at an item in two ways: the item lacks an
  attribute that the loop reads (a \<^verbatim>\<open>db_id\<close> of the parent, or an annotation of a
  relaxed structure), and \<open>e\<close> is the \<^verbatim>\<open>AttributeError\<close>; or the store raises \<open>e\<close> on
  the write of the item.
\<close>

theorem writers_scoped_not_atomic:
  fixes w :: world
  assumes st: "st = store_at w db"
  shows
    "(\<exists>ws. journal (store_at (snd (write_bulks_to_db bs db w)) db) =
              journal st @ [Enter] @ ws @ [Exit] \<and>
           (\<forall>ev\<in>set ws. \<exists>i a ts. ev = Write i a ts)) \<and>
     (\<exists>ws. journal (store_at (snd (write_slabs_to_db sls db w)) db) =
              journal st @ [Enter] @ ws @ [Exit] \<and>
           (\<forall>ev\<in>set ws. \<exists>i a ts. ev = Write i a ts)) \<and>
     (\<exists>ws. journal (store_at (snd (write_adsorbate_slab_configs_to_db cs db w)) db) =
              journal st @ [Enter] @ ws @ [Exit] \<and>
           (\<forall>ev\<in>set ws. \<exists>i a ts. ev = Write i a ts)) \<and>
     (\<exists>ws. journal (store_at (snd (write_adsorbate_slabs_to_db rs db w)) db) =
              journal st @ [Enter] @ ws @ [Exit] \<and>
           (\<forall>ev\<in>set ws. \<exists>i a ts. ev = Write i a ts)) \<and>
     ((\<forall>j<k. faults st (attempts st + j) = None) \<longrightarrow>
        (k < length bs \<and> faults st (attempts st + k) = Some e \<longrightarrow>
           fst (write_bulks_to_db bs db w) = Inl e \<and>
           journal (store_at (snd (write_bulks_to_db bs db w)) db) =
             journal st @ [Enter]
               @ map (\<lambda>(i, b). Write i (bulk_atoms (bulk_at w b)) [])
                   (List.enumerate (next_id st) (take k bs)) @ [Exit]) \<and>
        (k < length (concat sls) \<and>
         (\<forall>j<k. bulk_db_id (bulk_at w (slab_bulk (slab_at w (concat sls ! j)))) =
                  Some (B (concat sls ! j))) \<and>
         (bulk_db_id (bulk_at w (slab_bulk (slab_at w (concat sls ! k)))) = None \<and>
            e = no_attribute ''db_id'' \<or>
          bulk_db_id (bulk_at w (slab_bulk (slab_at w (concat sls ! k)))) =
            Some (B (concat sls ! k)) \<and>
          faults st (attempts st + k) = Some e) \<longrightarrow>
           fst (write_slabs_to_db sls db w) = Inl e \<and>
           journal (store_at (snd (write_slabs_to_db sls db w)) db) =
             journal st @ [Enter]
               @ map (\<lambda>(i, s). Write i (slab_atoms (slab_at w s)) [(''bulk_id'', IntV (B s))])
                   (List.enumerate (next_id st) (take k (concat sls))) @ [Exit]) \<and>
        (k < length (candidates cs) \<and>
         (\<forall>j<k.
            bulk_db_id (bulk_at w (slab_bulk (slab_at w (config_slab (fst (candidates cs ! j)))))) =
              Some (Bc (fst (candidates cs ! j))) \<and>
            slab_db_id (slab_at w (config_slab (fst (candidates cs ! j)))) =
              Some (Sc (fst (candidates cs ! j)))) \<and>
         ((bulk_db_id (bulk_at w (slab_bulk (slab_at w (config_slab (fst (candidates cs ! k)))))) = None \<or>
           slab_db_id (slab_at w (config_slab (fst (candidates cs ! k)))) = None) \<and>
            e = no_attribute ''db_id'' \<or>
          bulk_db_id (bulk_at w (slab_bulk (slab_at w (config_slab (fst (candidates cs ! k)))))) =
            Some (Bc (fst (candidates cs ! k))) \<and>
          slab_db_id (slab_at w (config_slab (fst (candidates cs ! k)))) =
            Some (Sc (fst (candidates cs ! k))) \<and>
          faults st (attempts st + k) = Some e) \<longrightarrow>
           fst (write_adsorbate_slab_configs_to_db cs db w) = Inl e \<and>
           journal (store_at (snd (write_adsorbate_slab_configs_to_db cs db w)) db) =
             journal st @ [Enter]
               @ map (\<lambda>(i, (c, a)). Write i (atoms_structure (atoms_at w a))
                        [(''bulk_id'', IntV (Bc c)), (''slab_id'', IntV (Sc c)),
                         (''relaxed'', BoolV False)])
                   (List.enumerate (next_id st) (take k (candidates cs))) @ [Exit]) \<and>
        (k < length rs \<and>
         (\<forall>j<k. bulk_id (atoms_at w (rs ! j)) = Some (Ba (rs ! j)) \<and>
                 slab_id (atoms_at w (rs ! j)) = Some (Sa (rs ! j)) \<and>
                 adslab_id (atoms_at w (rs ! j)) = Some (Ia (rs ! j))) \<and>
         ((bulk_id (atoms_at w (rs ! k)) = None \<or> slab_id (atoms_at w (rs ! k)) = None \<or>
           adslab_id (atoms_at w (rs ! k)) = None) \<and>
            e = no_attribute
                  (if bulk_id (atoms_at w (rs ! k)) = None then ''bulk_id''
                   else if slab_id (atoms_at w (rs ! k)) = None then ''slab_id''
                   else ''adslab_id'') \<or>
          bulk_id (atoms_at w (rs ! k)) = Some (Ba (rs ! k)) \<and>
          slab_id (atoms_at w (rs ! k)) = Some (Sa (rs ! k)) \<and>
          adslab_id (atoms_at w (rs ! k)) = Some (Ia (rs ! k)) \<and>
          faults st (attempts st + k) = Some e) \<longrightarrow>
           fst (write_adsorbate_slabs_to_db rs db w) = Inl e \<and>
           journal (store_at (snd (write_adsorbate_slabs_to_db rs db w)) db) =
             journal st @ [Enter]
               @ map (\<lambda>(i, x). Write i (atoms_structure (atoms_at w x))
                        [(''bulk_id'', IntV (Ba x)), (''slab_id'', IntV (Sa x)),
                         (''adslab_id'', IntV (Ia x)), (''relaxed'', BoolV True)])
                   (List.enumerate (next_id st) (take k rs)) @ [Exit]))"
  (is "?A1 \<and> ?A2 \<and> ?A3 \<and> ?A4 \<and> (?F \<longrightarrow> ?C1 \<and> ?C2 \<and> ?C3 \<and> ?C4)")
proof -
  have A1: ?A1
    unfolding st write_bulks_to_db_rows
    by (rule with_db_rows_journal [of assign_bulk, OF assign_bulk_store])
  have A2: ?A2
    unfolding st write_slabs_to_db_rows
    by (rule with_db_rows_journal [of assign_slab, OF assign_slab_store])
  have A3: ?A3
    unfolding st write_adsorbate_slab_configs_to_db_rows
    by (rule with_db_rows_journal [of assign_candidate, OF assign_candidate_store])
  have A4: ?A4
    unfolding st write_adsorbate_slabs_to_db_rows
    by (rule with_db_rows_journal [of assign_nothing, OF assign_nothing_store])
  have B: "?F \<longrightarrow> ?C1 \<and> ?C2 \<and> ?C3 \<and> ?C4"
  proof (rule impI)
    assume ?F
    then have nf: "\<forall>j<k. faults (store_at w db) (attempts (store_at w db) + j) = None"
      unfolding st .
    have C1: ?C1
      unfolding st
    proof (rule impI, elim conjE)
      assume "k < length bs" "faults (store_at w db) (attempts (store_at w db) + k) = Some e"
      then show "fst (write_bulks_to_db bs db w) = Inl e \<and>
           journal (store_at (snd (write_bulks_to_db bs db w)) db) =
             journal (store_at w db) @ [Enter]
               @ map (\<lambda>(i, b). Write i (bulk_atoms (bulk_at w b)) [])
                   (List.enumerate (next_id (store_at w db)) (take k bs)) @ [Exit]"
        using nf by (intro write_bulks_to_db_stops)
    qed
    have C2: ?C2
      unfolding st
      by (rule impI, elim conjE, rule write_slabs_to_db_stops [OF _ nf]) assumption+
    have C3: ?C3
      unfolding st
      by (rule impI, elim conjE, rule write_adsorbate_slab_configs_to_db_stops [OF _ nf]) assumption+
    have C4: ?C4
      unfolding st
      by (rule impI, elim conjE, rule write_adsorbate_slabs_to_db_stops [OF _ nf]) assumption+
    show "?C1 \<and> ?C2 \<and> ?C3 \<and> ?C4"
      by (intro conjI) (rule C1, rule C2, rule C3, rule C4)
  qed
  show ?thesis
    by (intro conjI) (rule A1, rule A2, rule A3, rule A4, rule B)
qed

theorem writers_scoped_not_atomic_witness:
  "fst (write_bulks_to_db [0, 7] 0 faulty_world) = Inl (Exn RuntimeError ''disk full'') \<and>
   journal (store_at (snd (write_bulks_to_db [0, 7] 0 faulty_world)) 0) =
     [Enter, Write 1 (Atoms ''Cu'') [], Exit] \<and>
   fst (write_slabs_to_db [[3, 4], [5]] 0 faulty_world) = Inl (Exn RuntimeError ''disk full'') \<and>
   journal (store_at (snd (write_slabs_to_db [[3, 4], [5]] 0 faulty_world)) 0) =
     [Enter, Write 1 (Atoms ''Cu4'') [(''bulk_id'', IntV 1)], Exit] \<and>
   fst (write_adsorbate_slab_configs_to_db example_configs 0 faulty_world) =
     Inl (Exn RuntimeError ''disk full'') \<and>
   journal (store_at (snd (write_adsorbate_slab_configs_to_db example_configs 0 faulty_world)) 0) =
     [Enter, Write 1 (Atoms ''Cu4CO'')
               [(''bulk_id'', IntV 1), (''slab_id'', IntV 3), (''relaxed'', BoolV False)], Exit] \<and>
   fst (write_adsorbate_slabs_to_db [30, 32] 0 faulty_world) =
     Inl (Exn RuntimeError ''disk full'') \<and>
   journal (store_at (snd (write_adsorbate_slabs_to_db [30, 32] 0 faulty_world)) 0) =
     [Enter, Write 1 (Atoms ''Cu4CO'')
               [(''bulk_id'', IntV 1), (''slab_id'', IntV 3), (''adslab_id'', IntV 0),
                (''relaxed'', BoolV True)], Exit] \<and>
   fst (write_slabs_to_db [[3], [5, 4]] 0 partly_written_world) =
     Inl (Exn AttributeError ''object has no attribute db_id'') \<and>
   journal (store_at (snd (write_slabs_to_db [[3], [5, 4]] 0 partly_written_world)) 0) =
     [Enter, Write 1 (Atoms ''Cu4'') [(''bulk_id'', IntV 1)], Exit] \<and>
   fst (write_adsorbate_slab_configs_to_db
          [\<lparr>config_slab = 3, config_adsorbate = \<lparr>adsorbate_atoms = Atoms ''CO''\<rparr>,
            atoms_list = [30]\<rparr>,
           \<lparr>config_slab = 4, config_adsorbate = \<lparr>adsorbate_atoms = Atoms ''CO''\<rparr>,
            atoms_list = [40, 41]\<rparr>] 0 partly_written_world) =
     Inl (Exn AttributeError ''object has no attribute db_id'') \<and>
   journal (store_at (snd (write_adsorbate_slab_configs_to_db
          [\<lparr>config_slab = 3, config_adsorbate = \<lparr>adsorbate_atoms = Atoms ''CO''\<rparr>,
            atoms_list = [30]\<rparr>,
           \<lparr>config_slab = 4, config_adsorbate = \<lparr>adsorbate_atoms = Atoms ''CO''\<rparr>,
            atoms_list = [40, 41]\<rparr>] 0 partly_written_world)) 0) =
     [Enter, Write 1 (Atoms ''Cu4CO'')
               [(''bulk_id'', IntV 1), (''slab_id'', IntV 3), (''relaxed'', BoolV False)], Exit] \<and>
   fst (write_adsorbate_slabs_to_db [30, 31, 32] 0 partly_written_world) =
     Inl (Exn AttributeError ''object has no attribute bulk_id'') \<and>
   journal (store_at (snd (write_adsorbate_slabs_to_db [30, 31, 32] 0 partly_written_world)) 0) =
     [Enter, Write 1 (Atoms ''Cu4CO'')
               [(''bulk_id'', IntV 1), (''slab_id'', IntV 3), (''adslab_id'', IntV 0),
                (''relaxed'', BoolV True)], Exit]"
proof -
  let ?st = "store_at faulty_world 0"
  let ?e = "Exn RuntimeError ''disk full''"
  let ?cs = "[\<lparr>config_slab = 3, config_adsorbate = \<lparr>adsorbate_atoms = Atoms ''CO''\<rparr>,
            atoms_list = [30]\<rparr>,
           \<lparr>config_slab = 4, config_adsorbate = \<lparr>adsorbate_atoms = Atoms ''CO''\<rparr>,
            atoms_list = [40, 41]\<rparr>]"
  have st: "?st = store_at faulty_world 0" by (rule refl)
  have F: "\<forall>j<1. faults ?st (attempts ?st + j) = None"
    by (simp add: faulty_world_def)
  have one: "j < Suc 0 \<longleftrightarrow> j = 0" for j :: nat by auto
  have w: "bulk_at faulty_world = (\<lambda>r. \<lparr>bulk_atoms = Atoms ''Cu'', bulk_db_id = Some 1\<rparr>)"
     "slab_at faulty_world = (\<lambda>r. \<lparr>slab_atoms = Atoms ''Cu4'', slab_bulk = 0, slab_db_id = Some r\<rparr>)"
     "atoms_at faulty_world = annotated"
    by (simp_all add: faulty_world_def written_world_def example_world_def)
  have n: "next_id ?st = 1" "journal ?st = []" "attempts ?st = 0"
    "faults ?st = (\<lambda>n. if n = 1 then Some ?e else None)"
    by (simp_all add: faulty_world_def)
  have k1: "(1::nat) < length [0, 7 :: ref] \<and> faults ?st (attempts ?st + 1) = Some ?e"
    by (simp add: n)
  have k2: "(1::nat) < length (concat [[3, 4], [5 :: ref]]) \<and>
         (\<forall>j<1. bulk_db_id (bulk_at faulty_world (slab_bulk (slab_at faulty_world (concat [[3, 4], [5]] ! j)))) =
                  Some ((\<lambda>s. 1) (concat [[3, 4], [5]] ! j))) \<and>
         (bulk_db_id (bulk_at faulty_world (slab_bulk (slab_at faulty_world (concat [[3, 4], [5]] ! 1)))) = None \<and>
            ?e = no_attribute ''db_id'' \<or>
          bulk_db_id (bulk_at faulty_world (slab_bulk (slab_at faulty_world (concat [[3, 4], [5]] ! 1)))) =
            Some ((\<lambda>s. 1) (concat [[3, 4], [5]] ! 1)) \<and>
          faults ?st (attempts ?st + 1) = Some ?e)"
    by (simp add: n w)
  have k3: "1 < length (candidates example_configs) \<and>
         (\<forall>j<1.
            bulk_db_id (bulk_at faulty_world (slab_bulk (slab_at faulty_world (config_slab (fst (candidates example_configs ! j)))))) =
              Some ((\<lambda>c. 1) (fst (candidates example_configs ! j))) \<and>
            slab_db_id (slab_at faulty_world (config_slab (fst (candidates example_configs ! j)))) =
              Some (config_slab (fst (candidates example_configs ! j)))) \<and>
         ((bulk_db_id (bulk_at faulty_world (slab_bulk (slab_at faulty_world (config_slab (fst (candidates example_configs ! 1)))))) = None \<or>
           slab_db_id (slab_at faulty_world (config_slab (fst (candidates example_configs ! 1)))) = None) \<and>
            ?e = no_attribute ''db_id'' \<or>
          bulk_db_id (bulk_at faulty_world (slab_bulk (slab_at faulty_world (config_slab (fst (candidates example_configs ! 1)))))) =
            Some ((\<lambda>c. 1) (fst (candidates example_configs ! 1))) \<and>
          slab_db_id (slab_at faulty_world (config_slab (fst (candidates example_configs ! 1)))) =
            Some (config_slab (fst (candidates example_configs ! 1))) \<and>
          faults ?st (attempts ?st + 1) = Some ?e)"
    by (simp add: n w example_configs_def candidates_def)
  have k4: "1 < length [30, 32 :: ref] \<and>
         (\<forall>j<1. bulk_id (atoms_at faulty_world ([30, 32] ! j)) = Some ((\<lambda>x. 1) ([30, 32] ! j)) \<and>
                 slab_id (atoms_at faulty_world ([30, 32] ! j)) = Some ((\<lambda>x. 3) ([30, 32] ! j)) \<and>
                 adslab_id (atoms_at faulty_world ([30, 32] ! j)) = Some ((\<lambda>x. x - 30) ([30, 32] ! j))) \<and>
         ((bulk_id (atoms_at faulty_world ([30, 32] ! 1)) = None \<or> slab_id (atoms_at faulty_world ([30, 32] ! 1)) = None \<or>
           adslab_id (atoms_at faulty_world ([30, 32] ! 1)) = None) \<and>
            ?e = no_attribute
                  (if bulk_id (atoms_at faulty_world ([30, 32] ! 1)) = None then ''bulk_id''
                   else if slab_id (atoms_at faulty_world ([30, 32] ! 1)) = None then ''slab_id''
                   else ''adslab_id'') \<or>
          bulk_id (atoms_at faulty_world ([30, 32] ! 1)) = Some ((\<lambda>x. 1) ([30, 32] ! 1)) \<and>
          slab_id (atoms_at faulty_world ([30, 32] ! 1)) = Some ((\<lambda>x. 3) ([30, 32] ! 1)) \<and>
          adslab_id (atoms_at faulty_world ([30, 32] ! 1)) = Some ((\<lambda>x. x - 30) ([30, 32] ! 1)) \<and>
          faults ?st (attempts ?st + 1) = Some ?e)"
    by (simp add: n w annotated_def)
  note T = writers_scoped_not_atomic [where st = ?st and w = faulty_world and db = 0
      and k = 1 and e = ?e and bs = "[0, 7]" and sls = "[[3, 4], [5]]" and cs = example_configs
      and rs = "[30, 32]" and B = "\<lambda>s. 1" and Bc = "\<lambda>c. 1" and Sc = config_slab
      and Ba = "\<lambda>x. 1" and Sa = "\<lambda>x. 3" and Ia = "\<lambda>x. x - 30", OF st]
  note C = T [THEN conjunct2, THEN conjunct2, THEN conjunct2, THEN conjunct2, THEN mp, OF F]
  note c1 = C [THEN conjunct1, THEN mp, OF k1]
  note c2 = C [THEN conjunct2, THEN conjunct1, THEN mp, OF k2]
  note c3 = C [THEN conjunct2, THEN conjunct2, THEN conjunct1, THEN mp, OF k3]
  note c4 = C [THEN conjunct2, THEN conjunct2, THEN conjunct2, THEN mp, OF k4]
  have d1: "fst (write_bulks_to_db [0, 7] 0 faulty_world) = Inl ?e \<and>
     journal (store_at (snd (write_bulks_to_db [0, 7] 0 faulty_world)) 0) =
     [Enter, Write 1 (Atoms ''Cu'') [], Exit]"
    using c1 by (simp add: n w)
  have d2: "fst (write_slabs_to_db [[3, 4], [5]] 0 faulty_world) = Inl ?e \<and>
   journal (store_at (snd (write_slabs_to_db [[3, 4], [5]] 0 faulty_world)) 0) =
     [Enter, Write 1 (Atoms ''Cu4'') [(''bulk_id'', IntV 1)], Exit]"
    using c2 by (simp add: n w)
  have d3: "fst (write_adsorbate_slab_configs_to_db example_configs 0 faulty_world) = Inl ?e \<and>
   journal (store_at (snd (write_adsorbate_slab_configs_to_db example_configs 0 faulty_world)) 0) =
     [Enter, Write 1 (Atoms ''Cu4CO'')
               [(''bulk_id'', IntV 1), (''slab_id'', IntV 3), (''relaxed'', BoolV False)], Exit]"
    using c3 by (simp add: n w candidates_def example_configs_def annotated_def)
  have d4: "fst (write_adsorbate_slabs_to_db [30, 32] 0 faulty_world) = Inl ?e \<and>
   journal (store_at (snd (write_adsorbate_slabs_to_db [30, 32] 0 faulty_world)) 0) =
     [Enter, Write 1 (Atoms ''Cu4CO'')
               [(''bulk_id'', IntV 1), (''slab_id'', IntV 3), (''adslab_id'', IntV 0),
                (''relaxed'', BoolV True)], Exit]"
    using c4 by (simp add: n w annotated_def)
  let ?pw = partly_written_world
  let ?sp = "store_at ?pw 0"
  let ?a = "no_attribute ''db_id''"
  let ?b = "no_attribute ''bulk_id''"
  have sp: "?sp = store_at ?pw 0" by (rule refl)
  have Fp: "\<forall>j<1. faults ?sp (attempts ?sp + j) = None"
    by (simp add: partly_written_world_def example_world_def)
  have p: "bulk_at ?pw = (\<lambda>r. \<lparr>bulk_atoms = Atoms ''Cu'',
                             bulk_db_id = (if r = 9 then None else Some 1)\<rparr>)"
     "slab_at ?pw = (\<lambda>r. \<lparr>slab_atoms = Atoms ''Cu4'', slab_bulk = (if r = 5 then 9 else 0),
                             slab_db_id = (if r = 4 then None else Some r)\<rparr>)"
     "atoms_at ?pw = annotated"
     "next_id ?sp = 1" "journal ?sp = []" "attempts ?sp = 0"
    by (simp_all add: partly_written_world_def example_world_def)
  have q2: "(1::nat) < length (concat [[3], [5, 4 :: ref]]) \<and>
         (\<forall>j<1. bulk_db_id (bulk_at ?pw (slab_bulk (slab_at ?pw (concat [[3], [5, 4]] ! j)))) =
                  Some ((\<lambda>s. 1) (concat [[3], [5, 4]] ! j))) \<and>
         (bulk_db_id (bulk_at ?pw (slab_bulk (slab_at ?pw (concat [[3], [5, 4]] ! 1)))) = None \<and>
            ?a = no_attribute ''db_id'' \<or>
          bulk_db_id (bulk_at ?pw (slab_bulk (slab_at ?pw (concat [[3], [5, 4]] ! 1)))) =
            Some ((\<lambda>s. 1) (concat [[3], [5, 4]] ! 1)) \<and>
          faults ?sp (attempts ?sp + 1) = Some ?a)"
    by (simp add: p)
  have q3: "1 < length (candidates ?cs) \<and>
         (\<forall>j<1.
            bulk_db_id (bulk_at ?pw (slab_bulk (slab_at ?pw (config_slab (fst (candidates ?cs ! j)))))) =
              Some ((\<lambda>c. 1) (fst (candidates ?cs ! j))) \<and>
            slab_db_id (slab_at ?pw (config_slab (fst (candidates ?cs ! j)))) =
              Some (config_slab (fst (candidates ?cs ! j)))) \<and>
         ((bulk_db_id (bulk_at ?pw (slab_bulk (slab_at ?pw (config_slab (fst (candidates ?cs ! 1)))))) = None \<or>
           slab_db_id (slab_at ?pw (config_slab (fst (candidates ?cs ! 1)))) = None) \<and>
            ?a = no_attribute ''db_id'' \<or>
          bulk_db_id (bulk_at ?pw (slab_bulk (slab_at ?pw (config_slab (fst (candidates ?cs ! 1)))))) =
            Some ((\<lambda>c. 1) (fst (candidates ?cs ! 1))) \<and>
          slab_db_id (slab_at ?pw (config_slab (fst (candidates ?cs ! 1)))) =
            Some (config_slab (fst (candidates ?cs ! 1))) \<and>
          faults ?sp (attempts ?sp + 1) = Some ?a)"
    by (simp add: p candidates_def)
  have q4: "1 < length [30, 31, 32 :: ref] \<and>
         (\<forall>j<1. bulk_id (atoms_at ?pw ([30, 31, 32] ! j)) = Some ((\<lambda>x. 1) ([30, 31, 32] ! j)) \<and>
                 slab_id (atoms_at ?pw ([30, 31, 32] ! j)) = Some ((\<lambda>x. 3) ([30, 31, 32] ! j)) \<and>
                 adslab_id (atoms_at ?pw ([30, 31, 32] ! j)) = Some ((\<lambda>x. x - 30) ([30, 31, 32] ! j))) \<and>
         ((bulk_id (atoms_at ?pw ([30, 31, 32] ! 1)) = None \<or> slab_id (atoms_at ?pw ([30, 31, 32] ! 1)) = None \<or>
           adslab_id (atoms_at ?pw ([30, 31, 32] ! 1)) = None) \<and>
            ?b = no_attribute
                  (if bulk_id (atoms_at ?pw ([30, 31, 32] ! 1)) = None then ''bulk_id''
                   else if slab_id (atoms_at ?pw ([30, 31, 32] ! 1)) = None then ''slab_id''
                   else ''adslab_id'') \<or>
          bulk_id (atoms_at ?pw ([30, 31, 32] ! 1)) = Some ((\<lambda>x. 1) ([30, 31, 32] ! 1)) \<and>
          slab_id (atoms_at ?pw ([30, 31, 32] ! 1)) = Some ((\<lambda>x. 3) ([30, 31, 32] ! 1)) \<and>
          adslab_id (atoms_at ?pw ([30, 31, 32] ! 1)) = Some ((\<lambda>x. x - 30) ([30, 31, 32] ! 1)) \<and>
          faults ?sp (attempts ?sp + 1) = Some ?b)"
    by (simp add: p annotated_def)
  note Ta = writers_scoped_not_atomic [where st = ?sp and w = ?pw and db = 0
      and k = 1 and e = ?a and sls = "[[3], [5, 4]]" and cs = ?cs
      and B = "\<lambda>s. 1" and Bc = "\<lambda>c. 1" and Sc = config_slab, OF sp]
  note Ca = Ta [THEN conjunct2, THEN conjunct2, THEN conjunct2, THEN conjunct2, THEN mp, OF Fp]
  note a2 = Ca [THEN conjunct2, THEN conjunct1, THEN mp, OF q2]
  note a3 = Ca [THEN conjunct2, THEN conjunct2, THEN conjunct1, THEN mp, OF q3]
  note Tb = writers_scoped_not_atomic [where st = ?sp and w = ?pw and db = 0
      and k = 1 and e = ?b and rs = "[30, 31, 32]"
      and Ba = "\<lambda>x. 1" and Sa = "\<lambda>x. 3" and Ia = "\<lambda>x. x - 30", OF sp]
  note Cb = Tb [THEN conjunct2, THEN conjunct2, THEN conjunct2, THEN conjunct2, THEN mp, OF Fp]
  note b4 = Cb [THEN conjunct2, THEN conjunct2, THEN conjunct2, THEN mp, OF q4]
  have e2: "fst (write_slabs_to_db [[3], [5, 4]] 0 ?pw) =
     Inl (Exn AttributeError ''object has no attribute db_id'') \<and>
   journal (store_at (snd (write_slabs_to_db [[3], [5, 4]] 0 ?pw)) 0) =
     [Enter, Write 1 (Atoms ''Cu4'') [(''bulk_id'', IntV 1)], Exit]"
    using a2 by (simp add: p no_attribute_def)
  have e3: "fst (write_adsorbate_slab_configs_to_db ?cs 0 ?pw) =
     Inl (Exn AttributeError ''object has no attribute db_id'') \<and>
   journal (store_at (snd (write_adsorbate_slab_configs_to_db ?cs 0 ?pw)) 0) =
     [Enter, Write 1 (Atoms ''Cu4CO'')
               [(''bulk_id'', IntV 1), (''slab_id'', IntV 3), (''relaxed'', BoolV False)], Exit]"
    using a3 by (simp add: p candidates_def annotated_def no_attribute_def)
  have e4: "fst (write_adsorbate_slabs_to_db [30, 31, 32] 0 ?pw) =
     Inl (Exn AttributeError ''object has no attribute bulk_id'') \<and>
   journal (store_at (snd (write_adsorbate_slabs_to_db [30, 31, 32] 0 ?pw)) 0) =
     [Enter, Write 1 (Atoms ''Cu4CO'')
               [(''bulk_id'', IntV 1), (''slab_id'', IntV 3), (''adslab_id'', IntV 0),
                (''relaxed'', BoolV True)], Exit]"
    using b4 by (simp add: p annotated_def no_attribute_def)
  show ?thesis
    by (intro conjI) (rule d1 [THEN conjunct1], rule d1 [THEN conjunct2],
        rule d2 [THEN conjunct1], rule d2 [THEN conjunct2],
        rule d3 [THEN conjunct1], rule d3 [THEN conjunct2],
        rule d4 [THEN conjunct1], rule d4 [THEN conjunct2],
        rule e2 [THEN conjunct1], rule e2 [THEN conjunct2],
        rule e3 [THEN conjunct1], rule e3 [THEN conjunct2],
        rule e4 [THEN conjunct1], rule e4 [THEN conjunct2])
qed

subsection \<open>Relaxation: the loops in closed form\<close>

lemma str_nat_nonempty: "str_nat n \<noteq> []"
  by (subst str_nat.simps) simp

lemma posix_join_sub:
  "d \<noteq> [] \<Longrightarrow> hd d \<noteq> CHR ''/'' \<Longrightarrow> posix_join p (d @ rest) = posix_join p d @ rest"
  by (cases d) (auto simp: posix_join_def)

lemma adslab_file:
  "posix_join p (''bulk'' @ str_nat b @ ''_slab'' @ str_nat s @ ''/adslab'' @ str_nat i @ ''.txt'') =
     log_file (adslab_dir p b s) i"
  "posix_join p (''bulk'' @ str_nat b @ ''_slab'' @ str_nat s @ ''/adslab'' @ str_nat i @ ''.traj'') =
     traj_file (adslab_dir p b s) i"
proof -
  have "posix_join p ((''bulk'' @ str_nat b @ ''_slab'' @ str_nat s) @ (''/adslab'' @ str_nat i @ ext)) =
     posix_join p (''bulk'' @ str_nat b @ ''_slab'' @ str_nat s) @ (''/adslab'' @ str_nat i @ ext)" for ext
    by (rule posix_join_sub) simp_all
  then show
    "posix_join p (''bulk'' @ str_nat b @ ''_slab'' @ str_nat s @ ''/adslab'' @ str_nat i @ ''.txt'') =
       log_file (adslab_dir p b s) i"
    "posix_join p (''bulk'' @ str_nat b @ ''_slab'' @ str_nat s @ ''/adslab'' @ str_nat i @ ''.traj'') =
       traj_file (adslab_dir p b s) i"
    by (simp_all add: adslab_dir_def log_file_def traj_file_def)
qed

lemma relax_candidates_step:
  assumes p: "path self = Some p"
  shows "relax_candidates X self b s formula ((i, a) # rest) acc w =
     (case calculate_energy_of_slab X a (traj_file (adslab_dir p b s) i)
             (log_file (adslab_dir p b s) i) (calc self) w of
        (Inl e, w') \<Rightarrow>
          if is_Exception e
          then relax_candidates X self b s formula rest acc (print (relax_message b s i e) w')
          else (Inl e, w')
      | (Inr r, w') \<Rightarrow>
          relax_candidates X self b s formula rest (acc @ [r])
            (w'\<lparr>atoms_at := (atoms_at w')
                  (r := (atoms_at w' r)
                     \<lparr>bulk_id := Some b, slab_id := Some s, adslab_id := Some i,
                      adsorbate := Some formula\<rparr>)\<rparr>))"
  by (simp only: relax_candidates.simps p os_path_join_def option.case sum.case adslab_file
      relax_message_def)

lemma relax_candidates_run:
  assumes p: "path self = Some p"
  shows "\<forall>q\<in>set ps. \<forall>e. candidate_outcome X self (adslab_dir p b s) q = Inl e \<longrightarrow> is_Exception e \<Longrightarrow>
    relax_candidates X self b s formula ps acc w =
      (Inr (acc @ concat (map (relaxed_of X self (adslab_dir p b s)) ps)),
       w\<lparr>calls := calls w @ map (candidate_call self (adslab_dir p b s)) ps,
         stdout := stdout w @ concat (map (message_of X self (adslab_dir p b s) b s) ps),
         atoms_at := fold (candidate_effect X self (adslab_dir p b s) b s formula) ps (atoms_at w)\<rparr>)"
proof (induction ps arbitrary: acc w)
  case Nil
  show ?case by simp
next
  case (Cons q ps)
  obtain i a where q: "q = (i, a)" by (cases q) auto
  let ?d = "adslab_dir p b s"
  have rest: "\<forall>q\<in>set ps. \<forall>e. candidate_outcome X self ?d q = Inl e \<longrightarrow> is_Exception e"
    using Cons.prems by simp
  note IH = Cons.IH [OF rest]
  show ?case
  proof (cases "candidate_outcome X self ?d (i, a)")
    case (Inl e)
    have ex: "is_Exception e" using Cons.prems Inl q by simp
    have rel: "relaxation X a (traj_file ?d i) (log_file ?d i) (calc self) = Inl e"
      using Inl by (simp add: candidate_outcome_def)
    have one: "relaxed_of X self ?d (i, a) = []" "message_of X self ?d b s (i, a) = [relax_message b s i e]"
      "candidate_effect X self ?d b s formula (i, a) (atoms_at w) = atoms_at w"
      "candidate_call self ?d (i, a) = Relax a (traj_file ?d i) (log_file ?d i) (calc self)"
      by (simp_all add: relaxed_of_def message_of_def candidate_effect_def candidate_call_def Inl)
    let ?w1 = "w\<lparr>calls := calls w @ [Relax a (traj_file ?d i) (log_file ?d i) (calc self)],
                 stdout := stdout w @ [relax_message b s i e]\<rparr>"
    have st: "relax_candidates X self b s formula ((i, a) # ps) acc w =
        relax_candidates X self b s formula ps acc ?w1"
      unfolding relax_candidates_step [OF p]
      by (simp add: calculate_energy_of_slab_def rel ex print_def del: relax_candidates.simps)
    show ?thesis
      unfolding q st IH
      by (simp add: one)
  next
    case (Inr ra)
    obtain r a' where ra: "ra = (r, a')" by (cases ra) auto
    have rel: "relaxation X a (traj_file ?d i) (log_file ?d i) (calc self) = Inr (r, a')"
      using Inr ra by (simp add: candidate_outcome_def)
    have one: "relaxed_of X self ?d (i, a) = [r]" "message_of X self ?d b s (i, a) = []"
      "candidate_call self ?d (i, a) = Relax a (traj_file ?d i) (log_file ?d i) (calc self)"
      by (simp_all add: relaxed_of_def message_of_def candidate_call_def Inr ra)
    have eff: "candidate_effect X self ?d b s formula (i, a) (atoms_at w) =
        (atoms_at w)(r := (atoms_at w r)\<lparr>atoms_structure := a', bulk_id := Some b, slab_id := Some s,
            adslab_id := Some i, adsorbate := Some formula\<rparr>)"
      by (simp add: candidate_effect_def Inr ra annotate_def)
    let ?w1 = "w\<lparr>calls := calls w @ [Relax a (traj_file ?d i) (log_file ?d i) (calc self)],
                 atoms_at := candidate_effect X self ?d b s formula (i, a) (atoms_at w)\<rparr>"
    have st: "relax_candidates X self b s formula ((i, a) # ps) acc w =
        relax_candidates X self b s formula ps (acc @ [r]) ?w1"
      unfolding relax_candidates_step [OF p] eff
      by (simp add: calculate_energy_of_slab_def rel del: relax_candidates.simps)
    show ?thesis
      unfolding q st IH
      by (simp add: one)
  qed
qed

lemma os_makedirs_exist_ok:
  "os_makedirs d True w =
     (Inr (), w\<lparr>calls := calls w @ [Makedirs d True], dirs := insert d (dirs w)\<rparr>)"
  by (cases "d \<in> dirs w") (simp_all add: os_makedirs_def Let_def insert_absorb)

lemma relax_configs_unfold:
  assumes b: "bulk_db_id (bulk_at w (slab_bulk (slab_at w (config_slab cfg)))) = Some b"
    and s: "slab_db_id (slab_at w (config_slab cfg)) = Some s"
    and p: "path self = Some p"
  shows "relax_configs X self db (cfg # rest) w =
     (case relax_candidates X self b s
             (get_chemical_formula (adsorbate_atoms (config_adsorbate cfg)))
             (List.enumerate 0 (atoms_list cfg)) []
             (w\<lparr>calls := calls w @ [Makedirs (adslab_dir p b s) True],
                dirs := insert (adslab_dir p b s) (dirs w)\<rparr>) of
        (Inl e, w2) \<Rightarrow> (Inl e, w2)
      | (Inr relaxed_adslabs, w2) \<Rightarrow>
          (case write_adsorbate_slabs_to_db relaxed_adslabs db w2 of
             (Inl e, w3) \<Rightarrow> (Inl e, w3)
           | (Inr u, w3) \<Rightarrow> relax_configs X self db rest w3))"
  by (simp only: relax_configs.simps b s option.case Let_def os_path_join_def p
      adslab_dir_def [symmetric] os_makedirs_exist_ok prod.case sum.case
      write_relaxed_adsorbate_slabs_to_db_def)

lemma fold_effect_annotated:
  "r \<in> set (concat (map (relaxed_of X self d) ps)) \<or>
   bulk_id (h r) = Some b \<and> slab_id (h r) = Some s \<and> (\<exists>i. adslab_id (h r) = Some i) \<Longrightarrow>
   bulk_id (fold (candidate_effect X self d b s formula) ps h r) = Some b \<and>
   slab_id (fold (candidate_effect X self d b s formula) ps h r) = Some s \<and>
   (\<exists>i. adslab_id (fold (candidate_effect X self d b s formula) ps h r) = Some i)"
proof (induction ps arbitrary: h)
  case Nil
  then show ?case by simp
next
  case (Cons q ps)
  let ?h = "candidate_effect X self d b s formula q h"
  have "r \<in> set (concat (map (relaxed_of X self d) ps)) \<or>
     bulk_id (?h r) = Some b \<and> slab_id (?h r) = Some s \<and> (\<exists>i. adslab_id (?h r) = Some i)"
    using Cons.prems
    by (auto simp: relaxed_of_def candidate_effect_def annotate_def split: sum.splits)
  with Cons.IH [of ?h] show ?case by (simp only: fold_simps comp_apply)
qed

lemma fold_upd_other:
  "r \<notin> \<rho> ` set xs \<Longrightarrow> fold (\<lambda>i h. h(\<rho> i := g i (h (\<rho> i)))) xs h r = h r"
  by (induction xs arbitrary: h) auto

lemma fold_upd_distinct:
  "distinct (map \<rho> xs) \<Longrightarrow> i \<in> set xs \<Longrightarrow>
   fold (\<lambda>i h. h(\<rho> i := g i (h (\<rho> i)))) xs h (\<rho> i) = g i (h (\<rho> i))"
proof (induction xs arbitrary: h)
  case Nil
  then show ?case by simp
next
  case (Cons x xs)
  let ?F = "\<lambda>i h. h(\<rho> i := g i (h (\<rho> i)))"
  have step: "fold ?F (x # xs) h r = fold ?F xs (h(\<rho> x := g x (h (\<rho> x)))) r" for r
    by (simp only: fold_simps comp_apply)
  show ?case
  proof (cases "i = x")
    case True
    have "\<rho> x \<notin> \<rho> ` set xs" using Cons.prems by simp
    then have "fold ?F xs (h(\<rho> x := g x (h (\<rho> x)))) (\<rho> x) = (h(\<rho> x := g x (h (\<rho> x)))) (\<rho> x)"
      by (rule fold_upd_other)
    also have "\<dots> = g x (h (\<rho> x))" by (rule fun_upd_same)
    finally show ?thesis unfolding True step .
  next
    case False
    then have i: "i \<in> set xs" using Cons.prems by simp
    have d: "distinct (map \<rho> xs)" using Cons.prems by simp
    have "\<rho> x \<notin> \<rho> ` set xs" using Cons.prems by simp
    then have ne: "\<rho> i \<noteq> \<rho> x" using i by (metis imageI)
    have "fold ?F xs (h(\<rho> x := g x (h (\<rho> x)))) (\<rho> i) = g i ((h(\<rho> x := g x (h (\<rho> x)))) (\<rho> i))"
      by (rule Cons.IH [OF d i])
    also have "\<dots> = g i (h (\<rho> i))" using ne by simp
    finally show ?thesis unfolding step .
  qed
qed

lemma fold_filter_id:
  "\<forall>x\<in>set xs. \<not> P x \<longrightarrow> f x = id \<Longrightarrow> fold f xs = fold f (filter P xs)"
  by (induction xs) auto

lemma enumerate_upt: "List.enumerate 0 xs = map (\<lambda>i. (i, xs ! i)) [0..<length xs]"
  by (rule nth_equalityI) (simp_all add: nth_enumerate_eq)

lemma concat_map_filter:
  "\<forall>x\<in>set xs. F x = (if P x then [h x] else []) \<Longrightarrow> concat (map F xs) = map h (filter P xs)"
  by (induction xs) auto

lemma filter_eq_upt: "k < n \<Longrightarrow> filter (\<lambda>i. i = k) [0..<n] = [k]"
  by (induction n) (auto simp: less_Suc_eq)

lemma length_filter_neq_upt: "k < n \<Longrightarrow> length (filter (\<lambda>i. i \<noteq> k) [0..<n]) = n - 1"
proof -
  assume k: "k < n"
  have "length (filter (\<lambda>i. i = k) [0..<n]) + length (filter (\<lambda>i. \<not> i = k) [0..<n]) = length [0..<n]"
    by (rule sum_length_filter_compl)
  then show ?thesis using filter_eq_upt [OF k] by simp
qed

lemma str_nat_digit: "n < 10 \<Longrightarrow> str_nat n = [digit n]"
  by (simp add: str_nat.simps)

lemma str_nat_small:
  "str_nat 0 = ''0''" "str_nat 1 = ''1''" "str_nat 2 = ''2''" "str_nat 3 = ''3''" "str_nat 4 = ''4''"
  "str_nat (Suc 0) = ''1''" "str_nat (Suc (Suc 0)) = ''2''" "str_nat (Suc (Suc (Suc 0))) = ''3''"
  by (simp_all add: str_nat_digit digit_def)

lemma upt_3: "[0..<3] = [0, 1, 2]"
  by code_simp

lemma relax_configs_step:
  assumes p: "path self = Some p"
    and b: "bulk_db_id (bulk_at w (slab_bulk (slab_at w (config_slab cfg)))) = Some B"
    and s: "slab_db_id (slab_at w (config_slab cfg)) = Some S"
    and ex: "\<forall>q\<in>set (List.enumerate 0 (atoms_list cfg)). \<forall>e.
               candidate_outcome X self (adslab_dir p B S) q = Inl e \<longrightarrow> is_Exception e"
    and nf: "\<forall>n. faults (store_at w db) n = None"
  shows "\<exists>w'. relax_configs X self db (cfg # rest) w = relax_configs X self db rest w' \<and>
           calls w' = calls w @ Makedirs (adslab_dir p B S) True #
                        map (candidate_call self (adslab_dir p B S)) (List.enumerate 0 (atoms_list cfg)) \<and>
           dirs w' = insert (adslab_dir p B S) (dirs w) \<and>
           bulk_at w' = bulk_at w \<and> slab_at w' = slab_at w \<and>
           (\<forall>n. faults (store_at w' db) n = None)"
proof -
  let ?d = "adslab_dir p B S"
  let ?ps = "List.enumerate 0 (atoms_list cfg)"
  let ?f = "get_chemical_formula (adsorbate_atoms (config_adsorbate cfg))"
  let ?w1 = "w\<lparr>calls := calls w @ [Makedirs ?d True], dirs := insert ?d (dirs w)\<rparr>"
  define H where "H = fold (candidate_effect X self ?d B S ?f) ?ps (atoms_at w)"
  define RS where "RS = concat (map (relaxed_of X self ?d) ?ps)"
  define out where "out = concat (map (message_of X self ?d B S) ?ps)"
  let ?w2 = "?w1\<lparr>calls := calls ?w1 @ map (candidate_call self ?d) ?ps,
                 stdout := stdout ?w1 @ out, atoms_at := H\<rparr>"
  note unf = relax_configs_unfold [OF b s p, of X db rest]
  have a1: "atoms_at ?w1 = atoms_at w" by simp
  have run: "relax_candidates X self B S ?f ?ps [] ?w1 = (Inr RS, ?w2)"
    using relax_candidates_run [OF p ex, of ?f "[]" ?w1]
    unfolding a1 H_def [symmetric] RS_def [symmetric] out_def [symmetric] by simp
  have a2: "atoms_at ?w2 = H" "store_at ?w2 = store_at w" by simp_all
  have good: "bulk_id (H x) = Some B \<and> slab_id (H x) = Some S \<and> (\<exists>i. adslab_id (H x) = Some i)"
    if "x \<in> set RS" for x
    unfolding H_def
    by (rule fold_effect_annotated) (use that in \<open>simp add: RS_def\<close>)
  have ids: "\<forall>x\<in>set RS. bulk_id (atoms_at ?w2 x) = Some ((\<lambda>x. B) x) \<and>
                slab_id (atoms_at ?w2 x) = Some ((\<lambda>x. S) x) \<and>
                adslab_id (atoms_at ?w2 x) = Some ((\<lambda>x. the (adslab_id (H x))) x)"
    unfolding a2 using good by auto
  have nf2: "\<forall>j<length RS. faults (store_at ?w2 db) (attempts (store_at ?w2 db) + j) = None"
    unfolding a2 using nf by simp
  note wr = write_adsorbate_slabs_to_db_ok [OF ids nf2]
  let ?w3 = "?w2\<lparr>store_at := (store_at ?w2)
               (db := scoped (store_at ?w2 db)
                   (map (\<lambda>x. (atoms_structure (atoms_at ?w2 x),
                               [(''bulk_id'', IntV B), (''slab_id'', IntV S),
                                (''adslab_id'', IntV (the (adslab_id (H x)))),
                                (''relaxed'', BoolV True)])) RS))\<rparr>"
  have step: "relax_configs X self db (cfg # rest) w = relax_configs X self db rest ?w3"
    unfolding unf run by (simp only: prod.case sum.case wr)
  have fields: "calls ?w3 = calls w @ Makedirs ?d True # map (candidate_call self ?d) ?ps"
    "dirs ?w3 = insert ?d (dirs w)" "bulk_at ?w3 = bulk_at w" "slab_at ?w3 = slab_at w"
    "\<forall>n. faults (store_at ?w3 db) n = None"
    using nf by simp_all
  show ?thesis
    by (rule exI [of _ ?w3]) (intro conjI step fields)
qed

lemma relax_configs_trace:
  assumes p: "path self = Some p"
  shows "\<forall>cfg\<in>set cfgs.
       bulk_db_id (bulk_at w (slab_bulk (slab_at w (config_slab cfg)))) = Some (Bf cfg) \<and>
       slab_db_id (slab_at w (config_slab cfg)) = Some (Sf cfg) \<Longrightarrow>
     \<forall>cfg\<in>set cfgs. \<forall>q\<in>set (List.enumerate 0 (atoms_list cfg)). \<forall>e.
       candidate_outcome X self (adslab_dir p (Bf cfg) (Sf cfg)) q = Inl e \<longrightarrow> is_Exception e \<Longrightarrow>
     \<forall>n. faults (store_at w db) n = None \<Longrightarrow>
     \<exists>w'. relax_configs X self db cfgs w = (Inr (), w') \<and>
       calls w' = calls w @
         concat (map (\<lambda>cfg. Makedirs (adslab_dir p (Bf cfg) (Sf cfg)) True #
                        map (candidate_call self (adslab_dir p (Bf cfg) (Sf cfg)))
                          (List.enumerate 0 (atoms_list cfg))) cfgs) \<and>
       dirs w' = dirs w \<union> (\<lambda>cfg. adslab_dir p (Bf cfg) (Sf cfg)) ` set cfgs"
proof (induction cfgs arbitrary: w)
  case Nil
  show ?case by simp
next
  case (Cons cfg rest)
  have b: "bulk_db_id (bulk_at w (slab_bulk (slab_at w (config_slab cfg)))) = Some (Bf cfg)"
    and s: "slab_db_id (slab_at w (config_slab cfg)) = Some (Sf cfg)"
    using Cons.prems(1) by simp_all
  have ex: "\<forall>q\<in>set (List.enumerate 0 (atoms_list cfg)). \<forall>e.
       candidate_outcome X self (adslab_dir p (Bf cfg) (Sf cfg)) q = Inl e \<longrightarrow> is_Exception e"
    using Cons.prems(2) by simp
  from relax_configs_step [OF p b s ex Cons.prems(3), of rest]
  obtain w1 where st: "relax_configs X self db (cfg # rest) w = relax_configs X self db rest w1"
    and c1: "calls w1 = calls w @ Makedirs (adslab_dir p (Bf cfg) (Sf cfg)) True #
                        map (candidate_call self (adslab_dir p (Bf cfg) (Sf cfg)))
                          (List.enumerate 0 (atoms_list cfg))"
    and d1: "dirs w1 = insert (adslab_dir p (Bf cfg) (Sf cfg)) (dirs w)"
    and f1: "bulk_at w1 = bulk_at w" "slab_at w1 = slab_at w"
    and n1: "\<forall>n. faults (store_at w1 db) n = None"
    by blast
  have ids': "\<forall>cfg\<in>set rest.
       bulk_db_id (bulk_at w1 (slab_bulk (slab_at w1 (config_slab cfg)))) = Some (Bf cfg) \<and>
       slab_db_id (slab_at w1 (config_slab cfg)) = Some (Sf cfg)"
    unfolding f1 using Cons.prems(1) by simp
  have ex': "\<forall>cfg\<in>set rest. \<forall>q\<in>set (List.enumerate 0 (atoms_list cfg)). \<forall>e.
       candidate_outcome X self (adslab_dir p (Bf cfg) (Sf cfg)) q = Inl e \<longrightarrow> is_Exception e"
    using Cons.prems(2) by simp
  from Cons.IH [OF ids' ex' n1] obtain w' where
    r: "relax_configs X self db rest w1 = (Inr (), w')"
    and c2: "calls w' = calls w1 @
         concat (map (\<lambda>cfg. Makedirs (adslab_dir p (Bf cfg) (Sf cfg)) True #
                        map (candidate_call self (adslab_dir p (Bf cfg) (Sf cfg)))
                          (List.enumerate 0 (atoms_list cfg))) rest)"
    and d2: "dirs w' = dirs w1 \<union> (\<lambda>cfg. adslab_dir p (Bf cfg) (Sf cfg)) ` set rest"
    by blast
  have "relax_configs X self db (cfg # rest) w = (Inr (), w')" unfolding st r ..
  moreover have "calls w' = calls w @
         concat (map (\<lambda>cfg. Makedirs (adslab_dir p (Bf cfg) (Sf cfg)) True #
                        map (candidate_call self (adslab_dir p (Bf cfg) (Sf cfg)))
                          (List.enumerate 0 (atoms_list cfg))) (cfg # rest))"
    unfolding c2 c1 by simp
  moreover have "dirs w' = dirs w \<union> (\<lambda>cfg. adslab_dir p (Bf cfg) (Sf cfg)) ` set (cfg # rest)"
    unfolding d2 d1 by simp
  ultimately show ?case by blast
qed

subsection \<open>Relaxation when one candidate fails\<close>

text \<open>
  C1, as amended. A configuration has \<open>T\<close> candidates; the relaxation of candidate \<open>k\<close>
  raises an exception \<open>e\<close> that \<^verbatim>\<open>except Exception\<close> catches; the relaxation of every
  other candidate \<open>i\<close> returns the object \<open>\<rho> i\<close>, holding the structure \<open>A i\<close>, and
  these returned objects are pairwise different. Then the iteration of
  \<^verbatim>\<open>relax_adsorbate_slabs\<close> for that configuration, on a store that accepts writes:
  calls the relaxation for all \<open>T\<close> candidates in order (it continues after \<open>k\<close>);
  prints one line, which names the bulk id, the slab id and \<open>k\<close>; annotates each returned
  object where it is; writes, inside one acquisition of the store, one record per
  \<open>i \<noteq> k\<close> in increasing order of \<open>i\<close>, tagged \<^verbatim>\<open>bulk_id\<close>, \<^verbatim>\<open>slab_id\<close>,
  \<^verbatim>\<open>adslab_id = i\<close> (the index in the configuration, not the position among the
  survivors) and \<^verbatim>\<open>relaxed = True\<close>; and goes on with the remaining configurations.
  These are \<open>T - 1\<close> records. \<open>relax_adsorbate_slabs\<close> is \<open>relax_configs\<close> on the
  system's configurations, so the statement is about the loop at any of its iterations.
\<close>

theorem relax_one_failure:
  assumes p: "path self = Some p"
    and b: "bulk_db_id (bulk_at w (slab_bulk (slab_at w (config_slab cfg)))) = Some B"
    and s: "slab_db_id (slab_at w (config_slab cfg)) = Some S"
    and d: "D = posix_join p (''bulk'' @ str_nat B @ ''_slab'' @ str_nat S)"
    and f: "formula = get_chemical_formula (adsorbate_atoms (config_adsorbate cfg))"
    and T: "T = length (atoms_list cfg)"
    and k: "k < T"
    and fail: "relaxation X (atoms_list cfg ! k) (D @ ''/adslab'' @ str_nat k @ ''.traj'')
                 (D @ ''/adslab'' @ str_nat k @ ''.txt'') (calc self) = Inl e"
    and exn: "is_Exception e"
    and ok: "\<forall>i<T. i \<noteq> k \<longrightarrow>
               relaxation X (atoms_list cfg ! i) (D @ ''/adslab'' @ str_nat i @ ''.traj'')
                 (D @ ''/adslab'' @ str_nat i @ ''.txt'') (calc self) = Inr (\<rho> i, A i)"
    and dist: "\<forall>i<T. \<forall>j<T. i \<noteq> k \<and> j \<noteq> k \<and> i \<noteq> j \<longrightarrow> \<rho> i \<noteq> \<rho> j"
    and nf: "\<forall>n. faults (store_at w db) n = None"
  shows "relax_configs X self db (cfg # rest) w =
           relax_configs X self db rest
             (w\<lparr>calls := calls w @ Makedirs D True #
                    map (\<lambda>i. Relax (atoms_list cfg ! i) (D @ ''/adslab'' @ str_nat i @ ''.traj'')
                                (D @ ''/adslab'' @ str_nat i @ ''.txt'') (calc self)) [0..<T],
                dirs := insert D (dirs w),
                stdout := stdout w @
                    [''Error relaxing adsorbate slab bulk'' @ str_nat B @ '',slab'' @ str_nat S
                       @ '',adslab'' @ str_nat k @ '': '' @ str_exn e],
                atoms_at :=
                  fold (\<lambda>i h. h(\<rho> i := (h (\<rho> i))
                          \<lparr>atoms_structure := A i, bulk_id := Some B, slab_id := Some S,
                           adslab_id := Some i, adsorbate := Some formula\<rparr>))
                    (filter (\<lambda>i. i \<noteq> k) [0..<T]) (atoms_at w),
                store_at := (store_at w)
                   (db := scoped (store_at w db)
                      (map (\<lambda>i. (A i, [(''bulk_id'', IntV B), (''slab_id'', IntV S),
                                        (''adslab_id'', IntV i), (''relaxed'', BoolV True)]))
                           (filter (\<lambda>i. i \<noteq> k) [0..<T])))\<rparr>)
         \<and> length (filter (\<lambda>i. i \<noteq> k) [0..<T]) = T - 1"
proof -
  let ?al = "atoms_list cfg"
  let ?ps = "List.enumerate 0 ?al"
  let ?idx = "filter (\<lambda>i. i \<noteq> k) [0..<T]"
  let ?G = "\<lambda>i h. h(\<rho> i := annotate B S formula i (A i) (h (\<rho> i)))"
  let ?row = "\<lambda>i. (A i, [(''bulk_id'', IntV B), (''slab_id'', IntV S),
                          (''adslab_id'', IntV i), (''relaxed'', BoolV True)])"
  let ?eff = "candidate_effect X self D B S formula"
  have D: "adslab_dir p B S = D" unfolding adslab_dir_def by (rule d [symmetric])
  have ps: "?ps = map (\<lambda>i. (i, ?al ! i)) [0..<T]" unfolding T by (rule enumerate_upt)
  have out_k: "candidate_outcome X self D (k, ?al ! k) = Inl e"
    unfolding candidate_outcome_def traj_file_def log_file_def fst_conv snd_conv by (rule fail)
  have out_i: "candidate_outcome X self D (i, ?al ! i) = Inr (\<rho> i, A i)" if "i < T" "i \<noteq> k" for i
    unfolding candidate_outcome_def traj_file_def log_file_def fst_conv snd_conv
    using ok that by blast
  have exs: "\<forall>q\<in>set ?ps. \<forall>e'. candidate_outcome X self (adslab_dir p B S) q = Inl e' \<longrightarrow> is_Exception e'"
  proof (intro ballI allI impI)
    fix q e'
    assume q: "q \<in> set ?ps" and o: "candidate_outcome X self (adslab_dir p B S) q = Inl e'"
    from q obtain i where i: "i < T" "q = (i, ?al ! i)" unfolding ps by auto
    show "is_Exception e'"
    proof (cases "i = k")
      case True
      with o i out_k D have "e' = e" by simp
      then show ?thesis using exn by simp
    next
      case False
      from out_i [OF i(1) False] o i D show ?thesis by simp
    qed
  qed
  have rel: "concat (map (relaxed_of X self D) ?ps) = map \<rho> ?idx"
    unfolding ps map_map
  proof (rule concat_map_filter, rule ballI)
    fix i assume "i \<in> set [0..<T]"
    then have i: "i < T" by simp
    show "(relaxed_of X self D \<circ> (\<lambda>i. (i, ?al ! i))) i = (if i \<noteq> k then [\<rho> i] else [])"
    proof (cases "i = k")
      case True
      then show ?thesis using out_k by (simp add: relaxed_of_def)
    next
      case False
      then show ?thesis using out_i [OF i False] by (simp add: relaxed_of_def)
    qed
  qed
  have "concat (map (message_of X self D B S) ?ps) =
          map (\<lambda>i. relax_message B S i e) (filter (\<lambda>i. i = k) [0..<T])"
    unfolding ps map_map
  proof (rule concat_map_filter, rule ballI)
    fix i assume "i \<in> set [0..<T]"
    then have i: "i < T" by simp
    show "(message_of X self D B S \<circ> (\<lambda>i. (i, ?al ! i))) i =
            (if i = k then [relax_message B S i e] else [])"
    proof (cases "i = k")
      case True
      then show ?thesis using out_k by (simp add: message_of_def)
    next
      case False
      then show ?thesis using out_i [OF i False] by (simp add: message_of_def)
    qed
  qed
  then have msg: "concat (map (message_of X self D B S) ?ps) = [relax_message B S k e]"
    unfolding filter_eq_upt [OF k] by simp
  have cl: "map (candidate_call self D) ?ps =
              map (\<lambda>i. Relax (?al ! i) (traj_file D i) (log_file D i) (calc self)) [0..<T]"
    unfolding ps by (simp add: candidate_call_def)
  have e1: "(?eff \<circ> (\<lambda>i. (i, ?al ! i))) i = ?G i" if "i \<in> set ?idx" for i
  proof (rule ext)
    fix h
    from that have "i < T" "i \<noteq> k" by simp_all
    from out_i [OF this] show "(?eff \<circ> (\<lambda>i. (i, ?al ! i))) i h = ?G i h"
      by (simp add: candidate_effect_def)
  qed
  have e2: "\<forall>x\<in>set [0..<T]. \<not> x \<noteq> k \<longrightarrow> (?eff \<circ> (\<lambda>i. (i, ?al ! i))) x = id"
  proof (intro ballI impI)
    fix x assume "\<not> x \<noteq> k"
    then have x: "x = k" by simp
    show "(?eff \<circ> (\<lambda>i. (i, ?al ! i))) x = id"
      unfolding x by (rule ext) (simp add: candidate_effect_def out_k)
  qed
  define H where "H = fold ?G ?idx (atoms_at w)"
  have "fold ?eff ?ps (atoms_at w) = fold (?eff \<circ> (\<lambda>i. (i, ?al ! i))) [0..<T] (atoms_at w)"
    unfolding ps fold_map ..
  also have "\<dots> = fold (?eff \<circ> (\<lambda>i. (i, ?al ! i))) ?idx (atoms_at w)"
    by (rule arg_cong [where f = "\<lambda>F. F (atoms_at w)", OF fold_filter_id [OF e2]])
  also have "\<dots> = H"
    unfolding H_def by (rule fold_cong [OF refl refl e1])
  finally have heap: "fold ?eff ?ps (atoms_at w) = H" .
  have dis: "distinct (map \<rho> ?idx)"
    unfolding distinct_map
  proof
    show "distinct ?idx" by simp
    show "inj_on \<rho> (set ?idx)"
      by (rule inj_onI) (use dist in auto)
  qed
  have look: "H (\<rho> i) = annotate B S formula i (A i) (atoms_at w (\<rho> i))" if "i \<in> set ?idx" for i
    unfolding H_def by (rule fold_upd_distinct [OF dis that])
  let ?w1 = "w\<lparr>calls := calls w @ [Makedirs D True], dirs := insert D (dirs w)\<rparr>"
  let ?w2 = "?w1\<lparr>calls := calls ?w1 @ map (\<lambda>i. Relax (?al ! i) (traj_file D i) (log_file D i) (calc self)) [0..<T],
                 stdout := stdout ?w1 @ [relax_message B S k e],
                 atoms_at := H\<rparr>"
  have unf: "relax_configs X self db (cfg # rest) w =
     (case relax_candidates X self B S formula ?ps [] ?w1 of
        (Inl e, w2) \<Rightarrow> (Inl e, w2)
      | (Inr relaxed_adslabs, w2) \<Rightarrow>
          (case write_adsorbate_slabs_to_db relaxed_adslabs db w2 of
             (Inl e, w3) \<Rightarrow> (Inl e, w3)
           | (Inr u, w3) \<Rightarrow> relax_configs X self db rest w3))"
    using relax_configs_unfold [OF b s p, of X db rest] unfolding D f .
  have a1: "atoms_at ?w1 = atoms_at w" by simp
  have run: "relax_candidates X self B S formula ?ps [] ?w1 = (Inr (map \<rho> ?idx), ?w2)"
    using relax_candidates_run [OF p exs, of formula "[]" ?w1]
    unfolding D rel msg cl a1 heap by simp
  have a2: "atoms_at ?w2 = H" "store_at ?w2 = store_at w" by simp_all
  have ids: "\<forall>x\<in>set (map \<rho> ?idx). bulk_id (atoms_at ?w2 x) = Some ((\<lambda>x. B) x) \<and>
                slab_id (atoms_at ?w2 x) = Some ((\<lambda>x. S) x) \<and>
                adslab_id (atoms_at ?w2 x) = Some ((\<lambda>x. the (adslab_id (H x))) x)"
    unfolding a2 by (auto simp: look annotate_def)
  have nf2: "\<forall>j<length (map \<rho> ?idx). faults (store_at ?w2 db) (attempts (store_at ?w2 db) + j) = None"
    unfolding a2 using nf by simp
  have rows: "map (\<lambda>x. (atoms_structure (atoms_at ?w2 x),
                               [(''bulk_id'', IntV B), (''slab_id'', IntV S),
                                (''adslab_id'', IntV (the (adslab_id (H x)))), (''relaxed'', BoolV True)]))
                (map \<rho> ?idx) = map ?row ?idx"
    unfolding a2 map_map by (rule map_cong [OF refl]) (simp add: look annotate_def)
  have wr: "write_adsorbate_slabs_to_db (map \<rho> ?idx) db ?w2 =
      (Inr (), ?w2\<lparr>store_at := (store_at ?w2)(db := scoped (store_at ?w2 db) (map ?row ?idx))\<rparr>)"
    using write_adsorbate_slabs_to_db_ok [OF ids nf2] unfolding rows .
  have step: "relax_configs X self db (cfg # rest) w =
      relax_configs X self db rest
        (?w2\<lparr>store_at := (store_at ?w2)(db := scoped (store_at ?w2 db) (map ?row ?idx))\<rparr>)"
    unfolding unf run by (simp only: prod.case sum.case wr)
  have world: "?w2\<lparr>store_at := (store_at ?w2)(db := scoped (store_at ?w2 db) (map ?row ?idx))\<rparr> =
      w\<lparr>calls := calls w @ Makedirs D True #
                    map (\<lambda>i. Relax (?al ! i) (traj_file D i) (log_file D i) (calc self)) [0..<T],
        dirs := insert D (dirs w),
        stdout := stdout w @ [relax_message B S k e],
        atoms_at := H,
        store_at := (store_at w) (db := scoped (store_at w db) (map ?row ?idx))\<rparr>"
    by simp
  have len: "length ?idx = T - 1" by (rule length_filter_neq_upt [OF k])
  from step [unfolded world] len
  show ?thesis
    unfolding traj_file_def log_file_def relax_message_def H_def annotate_def by (rule conjI)
qed

theorem relax_one_failure_witness:
  "fst (relax_adsorbate_slabs two_slab_library
      \<lparr>path = Some ''out'', calc = None, bulk = 0, slabs = Some [3],
       adsorbate_slab_configs =
         Some [\<lparr>config_slab = 3, config_adsorbate = \<lparr>adsorbate_atoms = Atoms ''CO''\<rparr>,
                atoms_list = [30, 31, 32]\<rparr>]\<rparr> 0 written_world) = Inr () \<and>
   calls (snd (relax_adsorbate_slabs two_slab_library
      \<lparr>path = Some ''out'', calc = None, bulk = 0, slabs = Some [3],
       adsorbate_slab_configs =
         Some [\<lparr>config_slab = 3, config_adsorbate = \<lparr>adsorbate_atoms = Atoms ''CO''\<rparr>,
                atoms_list = [30, 31, 32]\<rparr>]\<rparr> 0 written_world)) =
     [Makedirs ''out/bulk1_slab3'' True,
      Relax 30 ''out/bulk1_slab3/adslab0.traj'' ''out/bulk1_slab3/adslab0.txt'' None,
      Relax 31 ''out/bulk1_slab3/adslab1.traj'' ''out/bulk1_slab3/adslab1.txt'' None,
      Relax 32 ''out/bulk1_slab3/adslab2.traj'' ''out/bulk1_slab3/adslab2.txt'' None] \<and>
   stdout (snd (relax_adsorbate_slabs two_slab_library
      \<lparr>path = Some ''out'', calc = None, bulk = 0, slabs = Some [3],
       adsorbate_slab_configs =
         Some [\<lparr>config_slab = 3, config_adsorbate = \<lparr>adsorbate_atoms = Atoms ''CO''\<rparr>,
                atoms_list = [30, 31, 32]\<rparr>]\<rparr> 0 written_world)) =
     [''Error relaxing adsorbate slab bulk1,slab3,adslab1: diverged''] \<and>
   journal (store_at (snd (relax_adsorbate_slabs two_slab_library
      \<lparr>path = Some ''out'', calc = None, bulk = 0, slabs = Some [3],
       adsorbate_slab_configs =
         Some [\<lparr>config_slab = 3, config_adsorbate = \<lparr>adsorbate_atoms = Atoms ''CO''\<rparr>,
                atoms_list = [30, 31, 32]\<rparr>]\<rparr> 0 written_world)) 0) =
     [Enter,
      Write 1 (Atoms ''Cu4CO'')
        [(''bulk_id'', IntV 1), (''slab_id'', IntV 3), (''adslab_id'', IntV 0),
         (''relaxed'', BoolV True)],
      Write 2 (Atoms ''Cu4CO'')
        [(''bulk_id'', IntV 1), (''slab_id'', IntV 3), (''adslab_id'', IntV 2),
         (''relaxed'', BoolV True)],
      Exit]"
proof -
  let ?cfg = "\<lparr>config_slab = 3, config_adsorbate = \<lparr>adsorbate_atoms = Atoms ''CO''\<rparr>,
        atoms_list = [30, 31, 32]\<rparr>"
  let ?self = "\<lparr>path = Some ''out'', calc = None, bulk = 0, slabs = Some [3],
       adsorbate_slab_configs = Some [?cfg]\<rparr>"
  let ?D = "''out/bulk1_slab3''"
  have h1: "path ?self = Some ''out''" by simp
  have h2: "bulk_db_id (bulk_at written_world (slab_bulk (slab_at written_world (config_slab ?cfg)))) = Some 1"
    by (simp add: written_world_def example_world_def)
  have h3: "slab_db_id (slab_at written_world (config_slab ?cfg)) = Some 3"
    by (simp add: written_world_def example_world_def)
  have h4: "?D = posix_join ''out'' (''bulk'' @ str_nat 1 @ ''_slab'' @ str_nat 3)"
    by (simp add: posix_join_def str_nat_small)
  have hf: "''CO'' = get_chemical_formula (adsorbate_atoms (config_adsorbate ?cfg))" by simp
  have h5: "3 = length (atoms_list ?cfg)" by simp
  have h6: "(1::nat) < 3" by simp
  have h7: "relaxation two_slab_library (atoms_list ?cfg ! 1) (?D @ ''/adslab'' @ str_nat 1 @ ''.traj'')
                 (?D @ ''/adslab'' @ str_nat 1 @ ''.txt'') (calc ?self) = Inl (Exn RuntimeError ''diverged'')"
    by (simp add: two_slab_library_def)
  have h8: "is_Exception (Exn RuntimeError ''diverged'')" by simp
  have three: "i = 0 \<or> i = 1 \<or> i = 2" if "i < 3" for i :: nat using that by arith
  have h9: "\<forall>i<3. i \<noteq> 1 \<longrightarrow>
               relaxation two_slab_library (atoms_list ?cfg ! i) (?D @ ''/adslab'' @ str_nat i @ ''.traj'')
                 (?D @ ''/adslab'' @ str_nat i @ ''.txt'') (calc ?self) =
               Inr ((\<lambda>i. [30, 31, 32] ! i) i, (\<lambda>i. Atoms ''Cu4CO'') i)"
  proof (intro allI impI)
    fix i :: nat
    assume "i < 3" and "i \<noteq> 1"
    with three [of i] have "i = 0 \<or> i = 2" by simp
    then show "relaxation two_slab_library (atoms_list ?cfg ! i) (?D @ ''/adslab'' @ str_nat i @ ''.traj'')
                 (?D @ ''/adslab'' @ str_nat i @ ''.txt'') (calc ?self) =
               Inr ((\<lambda>i. [30, 31, 32] ! i) i, (\<lambda>i. Atoms ''Cu4CO'') i)"
      by (auto simp: two_slab_library_def)
  qed
  have h10: "\<forall>i<3. \<forall>j<3. i \<noteq> 1 \<and> j \<noteq> 1 \<and> i \<noteq> j \<longrightarrow>
      (\<lambda>i. [30, 31, 32 :: nat] ! i) i \<noteq> (\<lambda>i. [30, 31, 32] ! i) j"
  proof (intro allI impI)
    fix i j :: nat
    assume "i < 3" "j < 3" "i \<noteq> 1 \<and> j \<noteq> 1 \<and> i \<noteq> j"
    with three [of i] three [of j] have "i = 0 \<and> j = 2 \<or> i = 2 \<and> j = 0" by auto
    then show "(\<lambda>i. [30, 31, 32 :: nat] ! i) i \<noteq> (\<lambda>i. [30, 31, 32] ! i) j" by auto
  qed
  have h11: "\<forall>n. faults (store_at written_world 0) n = None"
    by (simp add: written_world_def example_world_def)
  note eq = relax_one_failure [OF h1 h2 h3 h4 hf h5 h6 h7 h8 h9 h10 h11, of "[]", THEN conjunct1]
  have top: "relax_adsorbate_slabs two_slab_library ?self 0 written_world =
      relax_configs two_slab_library ?self 0 [?cfg] written_world"
    by (simp add: relax_adsorbate_slabs_def del: relax_configs.simps)
  show ?thesis unfolding top eq
    by (simp add: upt_3 str_nat_small scoped_def written_world_def example_world_def
        numeral_2_eq_2 numeral_3_eq_3)
qed

text \<open>
  C1 as the claim states it, for every configuration, does not hold: the annotations are
  attributes of the returned object, assigned in place
  (\<^verbatim>\<open>relaxed_adslab.adslab_id = i\<close>) and read only when the batch is written, after
  the loop. Here the relaxation returns its candidate, relaxed in place, and the
  configuration lists the object 30 at the indices 0 and 2; candidate 1 raises, the other
  two relaxations return. Both records are written with \<^verbatim>\<open>adslab_id = 2\<close>, and none
  with the index 0.
\<close>

theorem relax_one_failure_counterexample:
  "relaxation two_slab_library 30 ''out/bulk1_slab3/adslab0.traj'' ''out/bulk1_slab3/adslab0.txt'' None =
     Inr (30, Atoms ''Cu4CO'') \<and>
   relaxation two_slab_library 31 ''out/bulk1_slab3/adslab1.traj'' ''out/bulk1_slab3/adslab1.txt'' None =
     Inl (Exn RuntimeError ''diverged'') \<and>
   relaxation two_slab_library 30 ''out/bulk1_slab3/adslab2.traj'' ''out/bulk1_slab3/adslab2.txt'' None =
     Inr (30, Atoms ''Cu4CO'') \<and>
   journal (store_at (snd (relax_adsorbate_slabs two_slab_library
      \<lparr>path = Some ''out'', calc = None, bulk = 0, slabs = Some [3],
       adsorbate_slab_configs =
         Some [\<lparr>config_slab = 3, config_adsorbate = \<lparr>adsorbate_atoms = Atoms ''CO''\<rparr>,
                atoms_list = [30, 31, 30]\<rparr>]\<rparr> 0 written_world)) 0) =
     [Enter,
      Write 1 (Atoms ''Cu4CO'')
        [(''bulk_id'', IntV 1), (''slab_id'', IntV 3), (''adslab_id'', IntV 2),
         (''relaxed'', BoolV True)],
      Write 2 (Atoms ''Cu4CO'')
        [(''bulk_id'', IntV 1), (''slab_id'', IntV 3), (''adslab_id'', IntV 2),
         (''relaxed'', BoolV True)],
      Exit]"
  by (simp add: relax_adsorbate_slabs_def os_path_join_def posix_join_def str_nat_small
      os_makedirs_def calculate_energy_of_slab_def two_slab_library_def written_world_def
      example_world_def print_def write_relaxed_adsorbate_slabs_to_db_def
      write_adsorbate_slabs_to_db_def with_db_def db_enter_def db_exit_def db_write_def Let_def
      numeral_2_eq_2 numeral_3_eq_3)

subsection \<open>Relaxation: the directories and the files\<close>

text \<open>
  C8. A system with the path \<open>p\<close> relaxes its configurations \<open>cfgs\<close>, each with its bulk
  id \<open>Bf cfg\<close> and slab id \<open>Sf cfg\<close>; write \<open>D cfg\<close> for
  \<open>os.path.join(p, "bulk{B}_slab{S}")\<close>, which is \<open>p/bulk{B}_slab{S}\<close> when \<open>p\<close> is not
  empty and does not end in a slash. Then the external calls of
  \<^verbatim>\<open>relax_adsorbate_slabs\<close> are, for every configuration in order:
  \<^verbatim>\<open>os.makedirs(D cfg, exist_ok=True)\<close> first, then the relaxation of each candidate
  \<open>i\<close>, in order, with the trajectory file \<open>D cfg/adslab{i}.traj\<close> and the log file
  \<open>D cfg/adslab{i}.txt\<close>; and nothing else. The directories exist afterwards, whether or
  not they existed before, and whether or not two configurations share one: the call
  does not raise for an existing directory. This is the run that nothing interrupts: no
  relaxation raises an exception outside \<^verbatim>\<open>Exception\<close> (\<^verbatim>\<open>KeyboardInterrupt\<close>,
  \<^verbatim>\<open>SystemExit\<close>), which the handler lets through, and the store accepts the writes;
  an exception from either ends the run at that configuration.
\<close>

theorem relax_directory_and_paths:
  assumes cfgs: "adsorbate_slab_configs self = Some cfgs"
    and p: "path self = Some p"
    and ids: "\<forall>cfg\<in>set cfgs.
       bulk_db_id (bulk_at w (slab_bulk (slab_at w (config_slab cfg)))) = Some (Bf cfg) \<and>
       slab_db_id (slab_at w (config_slab cfg)) = Some (Sf cfg)"
    and d: "D = (\<lambda>cfg. posix_join p (''bulk'' @ str_nat (Bf cfg) @ ''_slab'' @ str_nat (Sf cfg)))"
    and ex: "\<forall>cfg\<in>set cfgs. \<forall>i<length (atoms_list cfg). \<forall>e.
       relaxation X (atoms_list cfg ! i) (D cfg @ ''/adslab'' @ str_nat i @ ''.traj'')
         (D cfg @ ''/adslab'' @ str_nat i @ ''.txt'') (calc self) = Inl e \<longrightarrow> is_Exception e"
    and nf: "\<forall>n. faults (store_at w db) n = None"
  shows "fst (relax_adsorbate_slabs X self db w) = Inr () \<and>
         calls (snd (relax_adsorbate_slabs X self db w)) =
           calls w @
           concat (map (\<lambda>cfg. Makedirs (D cfg) True #
                     map (\<lambda>i. Relax (atoms_list cfg ! i) (D cfg @ ''/adslab'' @ str_nat i @ ''.traj'')
                                 (D cfg @ ''/adslab'' @ str_nat i @ ''.txt'') (calc self))
                       [0..<length (atoms_list cfg)]) cfgs) \<and>
         dirs (snd (relax_adsorbate_slabs X self db w)) = dirs w \<union> D ` set cfgs \<and>
         (p \<noteq> [] \<and> last p \<noteq> CHR ''/'' \<longrightarrow>
            (\<forall>cfg. D cfg = p @ ''/bulk'' @ str_nat (Bf cfg) @ ''_slab'' @ str_nat (Sf cfg)))"
proof -
  have D: "adslab_dir p (Bf cfg) (Sf cfg) = D cfg" for cfg
    unfolding adslab_dir_def d ..
  have exs: "\<forall>cfg\<in>set cfgs. \<forall>q\<in>set (List.enumerate 0 (atoms_list cfg)). \<forall>e.
       candidate_outcome X self (adslab_dir p (Bf cfg) (Sf cfg)) q = Inl e \<longrightarrow> is_Exception e"
  proof (intro ballI allI impI)
    fix cfg q e
    assume c: "cfg \<in> set cfgs" and q: "q \<in> set (List.enumerate 0 (atoms_list cfg))"
      and o: "candidate_outcome X self (adslab_dir p (Bf cfg) (Sf cfg)) q = Inl e"
    from q obtain i where i: "i < length (atoms_list cfg)" "q = (i, atoms_list cfg ! i)"
      unfolding enumerate_upt by auto
    from o have "relaxation X (atoms_list cfg ! i) (D cfg @ ''/adslab'' @ str_nat i @ ''.traj'')
         (D cfg @ ''/adslab'' @ str_nat i @ ''.txt'') (calc self) = Inl e"
      unfolding D i candidate_outcome_def traj_file_def log_file_def fst_conv snd_conv .
    with ex c i(1) show "is_Exception e" by blast
  qed
  from relax_configs_trace [OF p ids exs nf] obtain w' where
    r: "relax_configs X self db cfgs w = (Inr (), w')"
    and c: "calls w' = calls w @
         concat (map (\<lambda>cfg. Makedirs (adslab_dir p (Bf cfg) (Sf cfg)) True #
                        map (candidate_call self (adslab_dir p (Bf cfg) (Sf cfg)))
                          (List.enumerate 0 (atoms_list cfg))) cfgs)"
    and dd: "dirs w' = dirs w \<union> (\<lambda>cfg. adslab_dir p (Bf cfg) (Sf cfg)) ` set cfgs"
    by blast
  have top: "relax_adsorbate_slabs X self db w = (Inr (), w')"
    unfolding relax_adsorbate_slabs_def cfgs option.case r ..
  have cl: "map (candidate_call self (D cfg)) (List.enumerate 0 (atoms_list cfg)) =
      map (\<lambda>i. Relax (atoms_list cfg ! i) (D cfg @ ''/adslab'' @ str_nat i @ ''.traj'')
                                 (D cfg @ ''/adslab'' @ str_nat i @ ''.txt'') (calc self))
                       [0..<length (atoms_list cfg)]" for cfg
    unfolding enumerate_upt map_map comp_def candidate_call_def traj_file_def log_file_def
      fst_conv snd_conv ..
  have c': "calls w' = calls w @
           concat (map (\<lambda>cfg. Makedirs (D cfg) True #
                     map (\<lambda>i. Relax (atoms_list cfg ! i) (D cfg @ ''/adslab'' @ str_nat i @ ''.traj'')
                                 (D cfg @ ''/adslab'' @ str_nat i @ ''.txt'') (calc self))
                       [0..<length (atoms_list cfg)]) cfgs)"
    using c unfolding D cl .
  have dd': "dirs w' = dirs w \<union> D ` set cfgs"
    using dd unfolding D .
  have shape: "p \<noteq> [] \<and> last p \<noteq> CHR ''/'' \<longrightarrow>
            (\<forall>cfg. D cfg = p @ ''/bulk'' @ str_nat (Bf cfg) @ ''_slab'' @ str_nat (Sf cfg))"
    unfolding d by (simp add: posix_join_def)
  show ?thesis
    unfolding top fst_conv snd_conv
    by (intro conjI refl c' dd' shape)
qed

theorem relax_directory_and_paths_witness:
  "fst (relax_adsorbate_slabs two_slab_library
        \<lparr>path = Some ''out'', calc = Some (Calculator ''emt''), bulk = 0, slabs = Some [3, 4],
         adsorbate_slab_configs = Some example_configs\<rparr> 0
        (written_world\<lparr>dirs := {''out/bulk1_slab3''}\<rparr>)) = Inr () \<and>
   calls (snd (relax_adsorbate_slabs two_slab_library
        \<lparr>path = Some ''out'', calc = Some (Calculator ''emt''), bulk = 0, slabs = Some [3, 4],
         adsorbate_slab_configs = Some example_configs\<rparr> 0
        (written_world\<lparr>dirs := {''out/bulk1_slab3''}\<rparr>))) =
      [Makedirs ''out/bulk1_slab3'' True,
       Relax 30 ''out/bulk1_slab3/adslab0.traj'' ''out/bulk1_slab3/adslab0.txt'' (Some (Calculator ''emt'')),
       Relax 31 ''out/bulk1_slab3/adslab1.traj'' ''out/bulk1_slab3/adslab1.txt'' (Some (Calculator ''emt'')),
       Relax 32 ''out/bulk1_slab3/adslab2.traj'' ''out/bulk1_slab3/adslab2.txt'' (Some (Calculator ''emt'')),
       Makedirs ''out/bulk1_slab4'' True,
       Relax 40 ''out/bulk1_slab4/adslab0.traj'' ''out/bulk1_slab4/adslab0.txt'' (Some (Calculator ''emt'')),
       Relax 41 ''out/bulk1_slab4/adslab1.traj'' ''out/bulk1_slab4/adslab1.txt'' (Some (Calculator ''emt'')),
       Relax 42 ''out/bulk1_slab4/adslab2.traj'' ''out/bulk1_slab4/adslab2.txt'' (Some (Calculator ''emt''))] \<and>
   dirs (snd (relax_adsorbate_slabs two_slab_library
        \<lparr>path = Some ''out'', calc = Some (Calculator ''emt''), bulk = 0, slabs = Some [3, 4],
         adsorbate_slab_configs = Some example_configs\<rparr> 0
        (written_world\<lparr>dirs := {''out/bulk1_slab3''}\<rparr>))) =
      {''out/bulk1_slab3'', ''out/bulk1_slab4''}"
proof -
  let ?self = "\<lparr>path = Some ''out'', calc = Some (Calculator ''emt''), bulk = 0, slabs = Some [3, 4],
         adsorbate_slab_configs = Some example_configs\<rparr>"
  let ?w = "written_world\<lparr>dirs := {''out/bulk1_slab3''}\<rparr>"
  let ?D = "\<lambda>cfg. posix_join ''out'' (''bulk'' @ str_nat ((\<lambda>c. 1) cfg) @ ''_slab'' @ str_nat (config_slab cfg))"
  have h1: "adsorbate_slab_configs ?self = Some example_configs" by simp
  have h2: "path ?self = Some ''out''" by simp
  have h3: "\<forall>cfg\<in>set example_configs.
       bulk_db_id (bulk_at ?w (slab_bulk (slab_at ?w (config_slab cfg)))) = Some ((\<lambda>c. 1) cfg) \<and>
       slab_db_id (slab_at ?w (config_slab cfg)) = Some (config_slab cfg)"
    by (simp add: written_world_def example_world_def)
  have h4: "?D = (\<lambda>cfg. posix_join ''out'' (''bulk'' @ str_nat ((\<lambda>c. 1) cfg) @ ''_slab'' @ str_nat (config_slab cfg)))"
    by (rule refl)
  have h5: "\<forall>cfg\<in>set example_configs. \<forall>i<length (atoms_list cfg). \<forall>e.
       relaxation two_slab_library (atoms_list cfg ! i) (?D cfg @ ''/adslab'' @ str_nat i @ ''.traj'')
         (?D cfg @ ''/adslab'' @ str_nat i @ ''.txt'') (calc ?self) = Inl e \<longrightarrow> is_Exception e"
    by (auto simp: two_slab_library_def split: if_splits)
  have h6: "\<forall>n. faults (store_at ?w 0) n = None"
    by (simp add: written_world_def example_world_def)
  note th = relax_directory_and_paths [OF h1 h2 h3 h4 h5 h6]
  have c0: "calls ?w = []" "dirs ?w = {''out/bulk1_slab3''}"
    by (simp_all add: written_world_def example_world_def)
  have ds: "posix_join ''out'' (''bulk'' @ str_nat 1 @ ''_slab'' @ str_nat 3) = ''out/bulk1_slab3''"
    "posix_join ''out'' (''bulk'' @ str_nat 1 @ ''_slab'' @ str_nat 4) = ''out/bulk1_slab4''"
    "posix_join ''out'' ''bulk1_slab3'' = ''out/bulk1_slab3''"
    "posix_join ''out'' ''bulk1_slab4'' = ''out/bulk1_slab4''"
    by (simp_all add: posix_join_def str_nat_small)
  have a: "fst (relax_adsorbate_slabs two_slab_library ?self 0 ?w) = Inr ()"
    by (rule th [THEN conjunct1])
  have b: "calls (snd (relax_adsorbate_slabs two_slab_library ?self 0 ?w)) =
      [Makedirs ''out/bulk1_slab3'' True,
       Relax 30 ''out/bulk1_slab3/adslab0.traj'' ''out/bulk1_slab3/adslab0.txt'' (Some (Calculator ''emt'')),
       Relax 31 ''out/bulk1_slab3/adslab1.traj'' ''out/bulk1_slab3/adslab1.txt'' (Some (Calculator ''emt'')),
       Relax 32 ''out/bulk1_slab3/adslab2.traj'' ''out/bulk1_slab3/adslab2.txt'' (Some (Calculator ''emt'')),
       Makedirs ''out/bulk1_slab4'' True,
       Relax 40 ''out/bulk1_slab4/adslab0.traj'' ''out/bulk1_slab4/adslab0.txt'' (Some (Calculator ''emt'')),
       Relax 41 ''out/bulk1_slab4/adslab1.traj'' ''out/bulk1_slab4/adslab1.txt'' (Some (Calculator ''emt'')),
       Relax 42 ''out/bulk1_slab4/adslab2.traj'' ''out/bulk1_slab4/adslab2.txt'' (Some (Calculator ''emt''))]"
    unfolding th [THEN conjunct2, THEN conjunct1] c0
    by (simp add: example_configs_def ds upt_3 str_nat_small)
  have c: "dirs (snd (relax_adsorbate_slabs two_slab_library ?self 0 ?w)) =
      {''out/bulk1_slab3'', ''out/bulk1_slab4''}"
    unfolding th [THEN conjunct2, THEN conjunct2, THEN conjunct1] c0
    by (auto simp: example_configs_def ds str_nat_small)
  show ?thesis by (intro conjI a b c)
qed

end
